theory Spec2Isabelle
  imports Complex_Main
begin

section \<open>Data model\<close>

text \<open>
  The module \<^verbatim>\<open>cometspy/comets.py\<close> reads the logs of a simulation into pandas tables,
  splits the flux log into one table per model and rebuilds 2-D images from the sparse
  tables. The tables hold numbers; a field that a short line of a log does not have is
  NaN. The numbers are only compared, copied and decremented by one, so a float is
  modelled as a real number or NaN.
\<close>

datatype float64 = Num real | NaN

text \<open>A column label: an integer or a string.\<close>

datatype label = Pos nat | Name string

text \<open>
  Python exceptions, with the three classes that the module declares. \<open>Unmodelled\<close> is
  no exception: it marks an input of a library function that the model does not cover.
\<close>

datatype error =
    ValueError string
  | NameError string
  | KeyError label
  | IndexError
  | TypeError
  | AttributeError string
  | FileNotFoundError string
  | ParserError
  | Unmodelled
  | CorruptLine
  | OutOfGrid
  | UnallocatedMetabolite

text \<open>
  A model of the layout: its id and its reaction table, of which only the column
  \<^verbatim>\<open>REACTION_NAMES\<close> is read. \<^verbatim>\<open>len(m.reactions)\<close> is the number of rows of that table,
  which is the length of the column.
\<close>

record model =
  model_id :: string
  REACTION_NAMES :: "string list"

text \<open>
  A pandas DataFrame: the column labels in order, and the rows, each with one value per
  column. Labels are integers (\<^verbatim>\<open>names=range(n)\<close>) or strings.
\<close>

record dataframe =
  columns :: "label list"
  rows :: "float64 list list"

text \<open>
  A Python dict, in insertion order: assigning to a key that is present replaces the value
  in place, a new key goes to the end.
\<close>

type_synonym ('k, 'v) dict = "('k \<times> 'v) list"

fun dict_set :: "('k, 'v) dict \<Rightarrow> 'k \<Rightarrow> 'v \<Rightarrow> ('k, 'v) dict" where
  "dict_set [] k v = [(k, v)]"
| "dict_set ((k', v') # d) k v =
     (if k' = k then (k, v) # d else (k', v') # dict_set d k v)"

definition dict_get :: "('k, 'v) dict \<Rightarrow> 'k \<Rightarrow> 'v option" where
  "dict_get d k = map_of d k"

section \<open>Reading the flux log\<close>

text \<open>\<^verbatim>\<open>max(xs)\<close> of Python: a ValueError on the empty list.\<close>

fun py_max :: "nat list \<Rightarrow> error + nat" where
  "py_max [] = Inl (ValueError ''max() arg is an empty sequence'')"
| "py_max (x # xs) = Inr (fold max xs x)"

text \<open>\<^verbatim>\<open>max_rows = 4 + max([len(m.reactions) for m in self.layout.models])\<close>\<close>

definition max_rows :: "model list \<Rightarrow> error + nat" where
  "max_rows models =
     (case py_max (map (\<lambda>m. length (REACTION_NAMES m)) models) of
        Inl e \<Rightarrow> Inl e
      | Inr k \<Rightarrow> Inr (4 + k))"

text \<open>
  \<^verbatim>\<open>pd.read_csv(path, delim_whitespace=True, header=None, names=range(n))\<close> on the
  lines of the flux log, each line given as its numeric fields. The table has the
  \<open>n\<close> columns \<open>0, \<dots>, n - 1\<close> and one row per line; a line with fewer fields is
  filled with NaN, and a file without lines gives a table without rows. A line with more
  fields than names is outside the model: what pandas makes of it depends on the line
  and on the version (leading fields become an index, or the tokenizer raises). The model
  stops there with \<open>Unmodelled\<close>, and the statements below are about logs without such
  a line: a line of the flux log has the four fields cycle, x, y, model index and the
  fluxes of the reactions of one model.
\<close>

definition read_csv_range :: "float64 list list \<Rightarrow> nat \<Rightarrow> error + dataframe" where
  "read_csv_range lines n =
     (if \<exists>l \<in> set lines. n < length l then Inl Unmodelled
      else Inr \<lparr>columns = map Pos [0..<n],
                rows = map (\<lambda>l. l @ replicate (n - length l) NaN) lines\<rparr>)"

section \<open>Flux demultiplexing\<close>

text \<open>
  \<^verbatim>\<open>df.loc[df[l] == v]\<close>: the rows whose value in column \<open>l\<close> equals \<open>v\<close>. A label that
  no column has is a KeyError; a label that several columns have selects a table, which
  \<^verbatim>\<open>loc\<close> refuses as a key.
\<close>

definition positions :: "label list \<Rightarrow> label \<Rightarrow> nat list" where
  "positions cols l = filter (\<lambda>i. cols ! i = l) [0..<length cols]"

definition loc_eq :: "dataframe \<Rightarrow> label \<Rightarrow> float64 \<Rightarrow> error + dataframe" where
  "loc_eq df l v =
     (case positions (columns df) l of
        [] \<Rightarrow> Inl (KeyError l)
      | [i] \<Rightarrow> Inr (df\<lparr>rows := filter (\<lambda>r. r ! i = v) (rows df)\<rparr>)
      | _ \<Rightarrow> Inl (ValueError ''Cannot index with multidimensional key''))"

text \<open>\<^verbatim>\<open>df.drop(labels, axis=1)\<close>: every column whose label is listed goes.\<close>

definition drop_columns :: "dataframe \<Rightarrow> label list \<Rightarrow> dataframe" where
  "drop_columns df ls =
     \<lparr>columns = filter (\<lambda>l. l \<notin> set ls) (columns df),
      rows = map (\<lambda>r. map snd (filter (\<lambda>p. fst p \<notin> set ls) (zip (columns df) r)))
                 (rows df)\<rparr>"

text \<open>\<^verbatim>\<open>df.columns[i]\<close> for \<open>i \<ge> 0\<close>.\<close>

definition column_at :: "dataframe \<Rightarrow> nat \<Rightarrow> error + label" where
  "column_at df i = (if i < length (columns df) then Inr (columns df ! i) else Inl IndexError)"

text \<open>\<^verbatim>\<open>df.columns = names\<close>: the number of names must be that of the columns.\<close>

definition set_columns :: "dataframe \<Rightarrow> label list \<Rightarrow> error + dataframe" where
  "set_columns df names =
     (if length names = length (columns df) then Inr (df\<lparr>columns := names\<rparr>)
      else Inl (ValueError ''Length mismatch''))"

text \<open>
  The body of the loop of \<^verbatim>\<open>build_readable_flux_object\<close>, for the model \<open>m\<close> at the
  1-based position \<open>model_num\<close>: the table \<^verbatim>\<open>sub_df\<close> that is stored under the model's id.
  \<^verbatim>\<open>sub_df.columns[k + 4 : len(sub_df.columns)]\<close> is a slice, empty when it starts
  beyond the end.
\<close>

definition flux_sub_df :: "dataframe \<Rightarrow> model \<Rightarrow> nat \<Rightarrow> error + dataframe" where
  "flux_sub_df fluxes m model_num =
     (let model_rxn_names = REACTION_NAMES m;
          model_rxn_len = length model_rxn_names
      in case loc_eq fluxes (Pos 3) (Num (real model_num)) of
           Inl e \<Rightarrow> Inl e
         | Inr sub_df \<Rightarrow>
             (let sub_df1 = drop_columns sub_df (drop (model_rxn_len + 4) (columns sub_df))
              in (case column_at sub_df1 3 of
                    Inl e \<Rightarrow> Inl e
                  | Inr l3 \<Rightarrow>
                      set_columns (drop_columns sub_df1 [l3])
                        (map Name ([''cycle'', ''x'', ''y''] @ model_rxn_names)))))"

text \<open>
  The loop \<^verbatim>\<open>for i in range(len(self.layout.models))\<close>, with the dict built so far.
\<close>

fun build_loop ::
  "dataframe \<Rightarrow> model list \<Rightarrow> nat list \<Rightarrow> (string, dataframe) dict
     \<Rightarrow> error + (string, dataframe) dict" where
  "build_loop fluxes models [] d = Inr d"
| "build_loop fluxes models (i # is) d =
     (let model_num = i + 1;
          m = models ! (model_num - 1)
      in case flux_sub_df fluxes m model_num of
           Inl e \<Rightarrow> Inl e
         | Inr sub_df \<Rightarrow> build_loop fluxes models is (dict_set d (model_id m) sub_df))"

definition build_readable_flux_object ::
  "dataframe \<Rightarrow> model list \<Rightarrow> error + (string, dataframe) dict" where
  "build_readable_flux_object fluxes models =
     build_loop fluxes models [0..<length models] []"

text \<open>
  The flux part of \<^verbatim>\<open>comets.run\<close>: the width of the table, the table
  \<^verbatim>\<open>self.fluxes\<close> and the dict \<^verbatim>\<open>self.fluxes_by_species\<close>.
\<close>

definition run_read_flux ::
  "model list \<Rightarrow> float64 list list \<Rightarrow> error + (dataframe \<times> (string, dataframe) dict)" where
  "run_read_flux models lines =
     (case max_rows models of
        Inl e \<Rightarrow> Inl e
      | Inr n \<Rightarrow>
          (case read_csv_range lines n of
             Inl e \<Rightarrow> Inl e
           | Inr fluxes \<Rightarrow>
               (case build_readable_flux_object fluxes models of
                  Inl e \<Rightarrow> Inl e
                | Inr d \<Rightarrow> Inr (fluxes, d))))"

section \<open>Images\<close>

text \<open>
  A 2-D numpy array of floats, as the list of its rows. \<^verbatim>\<open>np.zeros((r, c))\<close> has
  \<open>r\<close> rows of \<open>c\<close> zeros.
\<close>

type_synonym image = "float64 list list"

definition np_zeros :: "nat \<times> nat \<Rightarrow> image" where
  "np_zeros shape = replicate (fst shape) (replicate (snd shape) (Num 0))"

text \<open>Sequencing of computations that may raise.\<close>

definition and_then :: "error + 'a \<Rightarrow> ('a \<Rightarrow> error + 'b) \<Rightarrow> error + 'b" where
  "and_then r f = (case r of Inl e \<Rightarrow> Inl e | Inr v \<Rightarrow> f v)"

text \<open>\<^verbatim>\<open>v - 1\<close> on a float, and \<^verbatim>\<open>int(v)\<close>, which truncates towards zero and refuses NaN.\<close>

definition minus_one :: "float64 \<Rightarrow> float64" where
  "minus_one v = (case v of NaN \<Rightarrow> NaN | Num r \<Rightarrow> Num (r - 1))"

definition py_int :: "float64 \<Rightarrow> error + int" where
  "py_int v =
     (case v of
        NaN \<Rightarrow> Inl (ValueError ''cannot convert float NaN to integer'')
      | Num r \<Rightarrow> Inr (if 0 \<le> r then \<lfloor>r\<rfloor> else \<lceil>r\<rceil>))"

text \<open>
  An index into an axis of length \<open>n\<close>: a negative index counts from the end, an index
  outside \<open>-n, \<dots>, n - 1\<close> is an IndexError.
\<close>

definition np_index :: "nat \<Rightarrow> int \<Rightarrow> error + nat" where
  "np_index n i =
     (if 0 \<le> i \<and> i < int n then Inr (nat i)
      else if - int n \<le> i \<and> i < 0 then Inr (nat (int n + i))
      else Inl IndexError)"

text \<open>
  \<^verbatim>\<open>im[a, b] = v\<close>: numpy resolves the two indices, then converts the value to a
  float; \<open>v\<close> is that conversion, which fails on text and on a sequence.
\<close>

definition np_setitem :: "image \<Rightarrow> int \<Rightarrow> int \<Rightarrow> error + float64 \<Rightarrow> error + image" where
  "np_setitem im a b v =
     and_then (np_index (length im) a) (\<lambda>i.
     and_then (np_index (length (im ! i)) b) (\<lambda>j.
     and_then v (\<lambda>w. Inr (im[i := (im ! i)[j := w]]))))"

section \<open>The tables of a run\<close>

text \<open>
  The media log is read with the column names \<^verbatim>\<open>metabolite, cycle, x, y, conc_mmol\<close>
  and the biomass log with \<^verbatim>\<open>cycle, x, y, species, biomass\<close>; a row is a record of
  these fields. The numeric columns hold floats. The species column holds numbers or
  text (text that does not spell a number).
\<close>

record media_row =
  metabolite :: string
  med_cycle :: float64
  med_x :: float64
  med_y :: float64
  conc_mmol :: float64

datatype cell = Number float64 | Text string

record biomass_row =
  bio_cycle :: float64
  bio_x :: float64
  bio_y :: float64
  species :: cell
  biomass_value :: float64

text \<open>
  The object \<^verbatim>\<open>self\<close> of class \<^verbatim>\<open>comets\<close>: what the module reads of the layout and of
  the parameters, the string \<^verbatim>\<open>hex(id(self))\<close>, and the attributes that
  \<^verbatim>\<open>run\<close> assigns (\<open>None\<close> while an attribute does not exist).
\<close>

record comets =
  layout_models :: "model list"
  layout_grid :: "nat \<times> nat"
  layout_media_metabolite :: "string list"
  evolution :: bool
  writeTotalBiomassLog :: bool
  writeFluxLog :: bool
  writeMediaLog :: bool
  writeBiomassLog :: bool
  writeSpecificMediaLog :: bool
  TotalBiomassLogName :: string
  FluxLogName :: string
  MediaLogName :: string
  SpecificMediaLogName :: string
  hex_id :: string
  total_biomass :: "dataframe option"
  fluxes :: "dataframe option"
  fluxes_by_species :: "(string, dataframe) dict option"
  media :: "media_row list option"
  biomass :: "biomass_row list option"
  genotypes :: "string list list option"
  specific_media :: "string list list option"

definition getattr :: "string \<Rightarrow> 'a option \<Rightarrow> error + 'a" where
  "getattr name a = (case a of None \<Rightarrow> Inl (AttributeError name) | Some v \<Rightarrow> Inr v)"

section \<open>Grid reconstruction\<close>

subsection \<open>\<^verbatim>\<open>get_metabolite_image\<close>\<close>

text \<open>
  The loop \<^verbatim>\<open>for index, row in aux.iterrows(): im[int(row['x']-1), int(row['y']-1)] =
  row['conc_mmol']\<close>. Python evaluates the right-hand side, then the two subscripts,
  then assigns.
\<close>

fun fill_media :: "image \<Rightarrow> media_row list \<Rightarrow> error + image" where
  "fill_media im [] = Inr im"
| "fill_media im (row # aux) =
     and_then (py_int (minus_one (med_x row))) (\<lambda>a.
     and_then (py_int (minus_one (med_y row))) (\<lambda>b.
     and_then (np_setitem im a b (Inr (conc_mmol row))) (\<lambda>im'.
     fill_media im' aux)))"

definition get_metabolite_image :: "comets \<Rightarrow> string \<Rightarrow> real \<Rightarrow> error + image" where
  "get_metabolite_image self met cyc =
     (if \<not> writeMediaLog self
      then Inl (ValueError ''media log was not recorded during simulation'')
      else if met \<notin> set (layout_media_metabolite self)
      then Inl (NameError (''met '' @ met @ '' is not in layout.media.metabolite''))
      else and_then (getattr ''media'' (media self)) (\<lambda>tbl.
        if Num cyc \<notin> set (map med_cycle tbl)
        then Inl (ValueError ''media was not saved at the desired cycle. try another.'')
        else fill_media (np_zeros (layout_grid self))
               (filter (\<lambda>row. med_cycle row = Num cyc \<and> metabolite row = met) tbl)))"

subsection \<open>\<^verbatim>\<open>get_biomass_image\<close>\<close>

text \<open>\<^verbatim>\<open>row[key]\<close> on a row of the biomass table: a KeyError unless the key is a column.\<close>

definition biomass_getitem :: "biomass_row \<Rightarrow> string \<Rightarrow> error + cell" where
  "biomass_getitem row key =
     (if key = ''cycle'' then Inr (Number (bio_cycle row))
      else if key = ''x'' then Inr (Number (bio_x row))
      else if key = ''y'' then Inr (Number (bio_y row))
      else if key = ''species'' then Inr (species row)
      else if key = ''biomass'' then Inr (Number (biomass_value row))
      else Inl (KeyError (Name key)))"

definition np_float :: "cell \<Rightarrow> error + float64" where
  "np_float c =
     (case c of
        Number v \<Rightarrow> Inr v
      | Text s \<Rightarrow> Inl (ValueError ''could not convert string to float''))"

fun fill_biomass :: "image \<Rightarrow> string \<Rightarrow> biomass_row list \<Rightarrow> error + image" where
  "fill_biomass im mid [] = Inr im"
| "fill_biomass im mid (row # aux) =
     and_then (biomass_getitem row mid) (\<lambda>v.
     and_then (py_int (minus_one (bio_x row))) (\<lambda>a.
     and_then (py_int (minus_one (bio_y row))) (\<lambda>b.
     and_then (np_setitem im a b (np_float v)) (\<lambda>im'.
     fill_biomass im' mid aux))))"

definition get_biomass_image :: "comets \<Rightarrow> string \<Rightarrow> real \<Rightarrow> error + image" where
  "get_biomass_image self mid cyc =
     (if \<not> writeBiomassLog self
      then Inl (ValueError ''biomass log was not recorded during simulation'')
      else if mid \<notin> set (map model_id (layout_models self))
      then Inl (NameError (''model '' @ mid @ '' is not one of the model ids''))
      else and_then (getattr ''biomass'' (biomass self)) (\<lambda>tbl.
        if Num cyc \<notin> set (map bio_cycle tbl)
        then Inl (ValueError ''biomass was not saved at the desired cycle. try another.'')
        else fill_biomass (np_zeros (layout_grid self)) mid
               (filter (\<lambda>row. bio_cycle row = Num cyc) tbl)))"

subsection \<open>\<^verbatim>\<open>get_flux_image\<close>\<close>

text \<open>
  \<^verbatim>\<open>df[l]\<close>: the values of the columns labelled \<open>l\<close>, a KeyError when there is none.
  \<^verbatim>\<open>row[l]\<close> on a row: the value, or a sequence when several columns have the label;
  \<^verbatim>\<open>int\<close> refuses a sequence and numpy does not store one in a cell.
\<close>

definition getitem :: "dataframe \<Rightarrow> label \<Rightarrow> error + float64 list" where
  "getitem df l =
     (case positions (columns df) l of
        [] \<Rightarrow> Inl (KeyError l)
      | ps \<Rightarrow> Inr (concat (map (\<lambda>r. map (\<lambda>i. r ! i) ps) (rows df))))"

datatype item = Scalar float64 | Multiple "float64 list"

definition series_getitem :: "label list \<Rightarrow> float64 list \<Rightarrow> label \<Rightarrow> error + item" where
  "series_getitem cols row l =
     (case positions cols l of
        [] \<Rightarrow> Inl (KeyError l)
      | [i] \<Rightarrow> Inr (Scalar (row ! i))
      | ps \<Rightarrow> Inr (Multiple (map (\<lambda>i. row ! i) ps)))"

definition coordinate :: "item \<Rightarrow> error + int" where
  "coordinate it =
     (case it of
        Scalar v \<Rightarrow> py_int (minus_one v)
      | Multiple vs \<Rightarrow> Inl TypeError)"

definition np_float_item :: "item \<Rightarrow> error + float64" where
  "np_float_item it =
     (case it of
        Scalar v \<Rightarrow> Inr v
      | Multiple vs \<Rightarrow> Inl (ValueError ''setting an array element with a sequence.''))"

fun fill_flux :: "image \<Rightarrow> label list \<Rightarrow> string \<Rightarrow> float64 list list \<Rightarrow> error + image" where
  "fill_flux im cols reaction_id [] = Inr im"
| "fill_flux im cols reaction_id (row # aux) =
     and_then (series_getitem cols row (Name reaction_id)) (\<lambda>v.
     and_then (series_getitem cols row (Name ''x'')) (\<lambda>xv.
     and_then (coordinate xv) (\<lambda>a.
     and_then (series_getitem cols row (Name ''y'')) (\<lambda>yv.
     and_then (coordinate yv) (\<lambda>b.
     and_then (np_setitem im a b (np_float_item v)) (\<lambda>im'.
     fill_flux im' cols reaction_id aux))))))"

definition get_flux_image :: "comets \<Rightarrow> string \<Rightarrow> string \<Rightarrow> real \<Rightarrow> error + image" where
  "get_flux_image self mid reaction_id cyc =
     (if \<not> writeFluxLog self
      then Inl (ValueError ''flux log was not recorded during simulation'')
      else if mid \<notin> set (map model_id (layout_models self))
      then Inl (NameError (''model '' @ mid @ '' is not one of the model ids''))
      else and_then (getattr ''fluxes_by_species'' (fluxes_by_species self)) (\<lambda>d.
        case dict_get d mid of
          None \<Rightarrow> Inl (KeyError (Name mid))
        | Some temp_fluxes \<Rightarrow>
            and_then (getitem temp_fluxes (Name ''cycle'')) (\<lambda>cycles.
              if Num cyc \<notin> set cycles
              then Inl (ValueError ''flux was not saved at the desired cycle. try another.'')
              else if Name reaction_id \<notin> set (columns temp_fluxes)
              then Inl (NameError (''reaction_id '' @ reaction_id @
                                   '' is not a reaction in the desired model''))
              else and_then (loc_eq temp_fluxes (Name ''cycle'') (Num cyc)) (\<lambda>aux.
                fill_flux (np_zeros (layout_grid self)) (columns aux) reaction_id
                  (rows aux)))))"

section \<open>Reading the logs in \<^verbatim>\<open>run\<close>\<close>

text \<open>
  The files on disk after the simulation: a path that is present maps to the lines of
  its file. \<^verbatim>\<open>open(filename, 'r')\<close> raises FileNotFoundError on a path that is not
  there, and so does \<^verbatim>\<open>pd.read_csv\<close>, which opens the path before it parses.
\<close>

type_synonym files = "string \<rightharpoonup> string list"

definition readlines_file :: "files \<Rightarrow> string \<Rightarrow> error + string list" where
  "readlines_file fs filename =
     (case fs filename of
        None \<Rightarrow> Inl (FileNotFoundError filename)
      | Some f_lines \<Rightarrow> Inr f_lines)"

definition pd_read_csv :: "files \<Rightarrow> string \<Rightarrow> (string list \<Rightarrow> error + 'a) \<Rightarrow> error + 'a" where
  "pd_read_csv fs path parse =
     (case fs path of
        None \<Rightarrow> Inl (FileNotFoundError path)
      | Some f_lines \<Rightarrow> parse f_lines)"

definition os_remove :: "files \<Rightarrow> string \<Rightarrow> error + files" where
  "os_remove fs path =
     (case fs path of
        None \<Rightarrow> Inl (FileNotFoundError path)
      | Some f_lines \<Rightarrow> Inr (fs(path := None)))"

definition cleanup :: "bool \<Rightarrow> files \<Rightarrow> string \<Rightarrow> error + files" where
  "cleanup delete_files fs path = (if delete_files then os_remove fs path else Inr fs)"

text \<open>
  What pandas makes of the text of a file once it is open: splitting the lines into
  fields and converting the fields. These conversions are parameters of the model.
\<close>

record pandas =
  to_float_frame :: "string list \<Rightarrow> label list \<Rightarrow> error + dataframe"
  flux_fields :: "string list \<Rightarrow> error + float64 list list"
  media_rows :: "string list \<Rightarrow> error + media_row list"
  biomass_rows :: "string list \<Rightarrow> error + biomass_row list"
  genotype_rows :: "string list \<Rightarrow> error + string list list"
  specific_media_rows :: "string list \<Rightarrow> error + string list list"

text \<open>The six blocks under \<^verbatim>\<open>READ OUTPUT\<close>, each on the files and the object.\<close>

definition read_total_biomass ::
  "pandas \<Rightarrow> bool \<Rightarrow> files \<times> comets \<Rightarrow> error + files \<times> comets" where
  "read_total_biomass pd delete_files st =
     (let fs = fst st; self = snd st in
      if writeTotalBiomassLog self then
        and_then (readlines_file fs (TotalBiomassLogName self)) (\<lambda>tbmf.
        and_then (to_float_frame pd tbmf
                    (Name ''cycle'' # map (\<lambda>m. Name (model_id m)) (layout_models self))) (\<lambda>tb.
        and_then (cleanup delete_files fs (TotalBiomassLogName self)) (\<lambda>fs'.
        Inr (fs', self\<lparr>total_biomass := Some tb\<rparr>))))
      else Inr st)"

definition read_flux ::
  "pandas \<Rightarrow> bool \<Rightarrow> files \<times> comets \<Rightarrow> error + files \<times> comets" where
  "read_flux pd delete_files st =
     (let fs = fst st; self = snd st in
      if writeFluxLog self then
        and_then (max_rows (layout_models self)) (\<lambda>n.
        and_then (pd_read_csv fs (FluxLogName self)
                    (\<lambda>f_lines. and_then (flux_fields pd f_lines) (\<lambda>ls. read_csv_range ls n))) (\<lambda>fl.
        and_then (cleanup delete_files fs (FluxLogName self)) (\<lambda>fs'.
        and_then (build_readable_flux_object fl (layout_models self)) (\<lambda>d.
        Inr (fs', self\<lparr>fluxes := Some fl, fluxes_by_species := Some d\<rparr>)))))
      else Inr st)"

definition read_media ::
  "pandas \<Rightarrow> bool \<Rightarrow> files \<times> comets \<Rightarrow> error + files \<times> comets" where
  "read_media pd delete_files st =
     (let fs = fst st; self = snd st in
      if writeMediaLog self then
        and_then (pd_read_csv fs (MediaLogName self) (media_rows pd)) (\<lambda>tbl.
        and_then (cleanup delete_files fs (MediaLogName self)) (\<lambda>fs'.
        Inr (fs', self\<lparr>media := Some tbl\<rparr>)))
      else Inr st)"

definition read_biomass ::
  "pandas \<Rightarrow> bool \<Rightarrow> files \<times> comets \<Rightarrow> error + files \<times> comets" where
  "read_biomass pd delete_files st =
     (let fs = fst st; self = snd st; biomass_out_file = ''biomass_log_'' @ hex_id self in
      if writeBiomassLog self then
        and_then (pd_read_csv fs biomass_out_file (biomass_rows pd)) (\<lambda>tbl.
        and_then (cleanup delete_files fs biomass_out_file) (\<lambda>fs'.
        Inr (fs', self\<lparr>biomass := Some tbl\<rparr>)))
      else Inr st)"

definition read_genotypes ::
  "pandas \<Rightarrow> bool \<Rightarrow> files \<times> comets \<Rightarrow> error + files \<times> comets" where
  "read_genotypes pd delete_files st =
     (let fs = fst st; self = snd st;
          genotypes_out_file = ''GENOTYPES_biomass_log_'' @ hex_id self in
      if evolution self then
        and_then (pd_read_csv fs genotypes_out_file (genotype_rows pd)) (\<lambda>tbl.
        and_then (cleanup delete_files fs genotypes_out_file) (\<lambda>fs'.
        Inr (fs', self\<lparr>genotypes := Some tbl\<rparr>)))
      else Inr st)"

definition read_specific_media ::
  "pandas \<Rightarrow> bool \<Rightarrow> files \<times> comets \<Rightarrow> error + files \<times> comets" where
  "read_specific_media pd delete_files st =
     (let fs = fst st; self = snd st in
      if writeSpecificMediaLog self then
        and_then (pd_read_csv fs (SpecificMediaLogName self) (specific_media_rows pd)) (\<lambda>tbl.
        and_then (cleanup delete_files fs (SpecificMediaLogName self)) (\<lambda>fs'.
        Inr (fs', self\<lparr>specific_media := Some tbl\<rparr>)))
      else Inr st)"

text \<open>
  \<^verbatim>\<open>run\<close> starts with: if evolution is true, write the biomass but not the total
  biomass log.
\<close>

definition adjust_for_evolution :: "comets \<Rightarrow> comets" where
  "adjust_for_evolution self =
     (if evolution self
      then self\<lparr>writeTotalBiomassLog := False, writeBiomassLog := True\<rparr>
      else self)"

text \<open>
  \<^verbatim>\<open>run\<close>, from that adjustment to the last log: \<open>fs\<close> are the files that the
  simulation left, \<open>failed\<close> tells whether its output contains \<^verbatim>\<open>Error\<close>, in which case
  nothing is read. The removal of the script files after the last log is not part of the
  model.
\<close>

definition run_read_output ::
  "pandas \<Rightarrow> bool \<Rightarrow> bool \<Rightarrow> files \<Rightarrow> comets \<Rightarrow> error + files \<times> comets" where
  "run_read_output pd delete_files failed fs self =
     (let self1 = adjust_for_evolution self
      in if failed then Inr (fs, self1)
         else and_then (read_total_biomass pd delete_files (fs, self1)) (\<lambda>st1.
              and_then (read_flux pd delete_files st1) (\<lambda>st2.
              and_then (read_media pd delete_files st2) (\<lambda>st3.
              and_then (read_biomass pd delete_files st3) (\<lambda>st4.
              and_then (read_genotypes pd delete_files st4) (\<lambda>st5.
              read_specific_media pd delete_files st5))))))"

text \<open>The paths of the logs that \<^verbatim>\<open>run\<close> reads, in the order in which it opens them.\<close>

definition requested_logs :: "comets \<Rightarrow> string list" where
  "requested_logs self =
     (if writeTotalBiomassLog self then [TotalBiomassLogName self] else [])
     @ (if writeFluxLog self then [FluxLogName self] else [])
     @ (if writeMediaLog self then [MediaLogName self] else [])
     @ (if writeBiomassLog self then [''biomass_log_'' @ hex_id self] else [])
     @ (if evolution self then [''GENOTYPES_biomass_log_'' @ hex_id self] else [])
     @ (if writeSpecificMediaLog self then [SpecificMediaLogName self] else [])"

section \<open>Notions used in the statements\<close>

text \<open>Every row of a table has one value per column.\<close>

definition rectangular :: "dataframe \<Rightarrow> bool" where
  "rectangular df = (\<forall>r \<in> set (rows df). length r = length (columns df))"

text \<open>The raw flux rows whose model-index column (column 3) is \<open>model_num\<close>.\<close>

definition rows_of_model :: "dataframe \<Rightarrow> nat \<Rightarrow> float64 list list" where
  "rows_of_model raw model_num = filter (\<lambda>r. r ! 3 = Num (real model_num)) (rows raw)"

text \<open>
  What is kept of a raw row for a model with \<open>k\<close> reactions: cycle, x, y and the first
  \<open>k\<close> values; the model index and the values beyond \<open>4 + k\<close> go.
\<close>

definition keep_fields :: "nat \<Rightarrow> float64 list \<Rightarrow> float64 list" where
  "keep_fields k r = take 3 r @ take k (drop 4 r)"

text \<open>The table of the model \<open>m\<close> at the 1-based position \<open>model_num\<close>.\<close>

definition flux_table :: "dataframe \<Rightarrow> model \<Rightarrow> nat \<Rightarrow> dataframe" where
  "flux_table raw m model_num =
     \<lparr>columns = map Name ([''cycle'', ''x'', ''y''] @ REACTION_NAMES m),
      rows = map (keep_fields (length (REACTION_NAMES m))) (rows_of_model raw model_num)\<rparr>"

text \<open>A 1-based coordinate on an axis of length \<open>n\<close>: one of the floats \<open>1, \<dots>, n\<close>.\<close>

definition grid_coordinate :: "nat \<Rightarrow> float64 \<Rightarrow> bool" where
  "grid_coordinate n v = (v \<in> set (map (\<lambda>i. Num (real i)) [1..<Suc n]))"

text \<open>
  The image that the records \<open>(x, y, value)\<close> describe: cell \<open>(a, b)\<close> holds the value
  of the last record with \<open>x = a + 1\<close> and \<open>y = b + 1\<close>, and zero when there is none.
\<close>

definition record_at :: "(float64 \<times> float64 \<times> float64) list \<Rightarrow> nat \<Rightarrow> nat \<Rightarrow> float64 option" where
  "record_at recs a b =
     map_of (rev (map (\<lambda>t. ((fst t, fst (snd t)), snd (snd t))) recs))
       (Num (real (a + 1)), Num (real (b + 1)))"

definition written_image :: "nat \<times> nat \<Rightarrow> (float64 \<times> float64 \<times> float64) list \<Rightarrow> image" where
  "written_image shape recs =
     map (\<lambda>a. map (\<lambda>b. case record_at recs a b of None \<Rightarrow> Num 0 | Some v \<Rightarrow> v)
                 [0..<snd shape])
         [0..<fst shape]"

text \<open>
  The three loops of the image functions write records \<open>(x, y, value)\<close> in order; this
  is their common form.
\<close>

fun write_records :: "image \<Rightarrow> (float64 \<times> float64 \<times> float64) list \<Rightarrow> error + image" where
  "write_records im [] = Inr im"
| "write_records im (t # recs) =
     and_then (py_int (minus_one (fst t))) (\<lambda>a.
     and_then (py_int (minus_one (fst (snd t)))) (\<lambda>b.
     and_then (np_setitem im a b (Inr (snd (snd t)))) (\<lambda>im'.
     write_records im' recs)))"

text \<open>
  The blocks of \<^verbatim>\<open>run\<close> as a list of steps, the parameters that name and request the
  logs, and the situation that the path \<open>p\<close> is not on disk while these parameters are
  those of \<open>self1\<close>.
\<close>

fun run_steps :: "(files \<times> comets \<Rightarrow> error + files \<times> comets) list
                    \<Rightarrow> files \<times> comets \<Rightarrow> error + files \<times> comets" where
  "run_steps [] st = Inr st"
| "run_steps (f # fs) st = and_then (f st) (run_steps fs)"

definition params_of ::
  "comets \<Rightarrow> (bool \<times> bool \<times> bool \<times> bool \<times> bool \<times> bool) \<times> (string \<times> string \<times> string \<times> string \<times> string)" where
  "params_of self =
     ((evolution self, writeTotalBiomassLog self, writeFluxLog self, writeMediaLog self,
       writeBiomassLog self, writeSpecificMediaLog self),
      (TotalBiomassLogName self, FluxLogName self, MediaLogName self,
       SpecificMediaLogName self, hex_id self))"

definition log_missing :: "string \<Rightarrow> comets \<Rightarrow> files \<times> comets \<Rightarrow> bool" where
  "log_missing p self1 st = (fst st p = None \<and> params_of (snd st) = params_of self1)"

text \<open>The scenario of two models with three and five reactions.\<close>

definition model_A :: model where
  "model_A = \<lparr>model_id = ''A'', REACTION_NAMES = [''a1'', ''a2'', ''a3'']\<rparr>"

definition model_B :: model where
  "model_B = \<lparr>model_id = ''B'', REACTION_NAMES = [''b1'', ''b2'', ''b3'', ''b4'', ''b5'']\<rparr>"

text \<open>Its flux log: one line for each model, at cycle 1 in cell (1, 1).\<close>

definition flux_lines_AB :: "float64 list list" where
  "flux_lines_AB =
     [[Num 1, Num 1, Num 1, Num 1, Num 10, Num 11, Num 12, Num 13, Num 14],
      [Num 1, Num 1, Num 1, Num 2, Num 20, Num 21, Num 22, Num 23, Num 24]]"

text \<open>A model without reactions, a flux log with it, and a flux log without a line
  of the first model.\<close>

definition model_E :: model where
  "model_E = \<lparr>model_id = ''E'', REACTION_NAMES = []\<rparr>"

definition flux_lines_EA :: "float64 list list" where
  "flux_lines_EA =
     [[Num 1, Num 1, Num 1, Num 1],
      [Num 1, Num 1, Num 1, Num 2, Num 10, Num 11, Num 12]]"

definition flux_lines_B_only :: "float64 list list" where
  "flux_lines_B_only = [[Num 1, Num 1, Num 1, Num 2, Num 20, Num 21, Num 22, Num 23, Num 24]]"

text \<open>Two models with the same id.\<close>

definition model_m1 :: model where
  "model_m1 = \<lparr>model_id = ''m'', REACTION_NAMES = [''r'']\<rparr>"

definition model_m2 :: model where
  "model_m2 = \<lparr>model_id = ''m'', REACTION_NAMES = [''r'']\<rparr>"

text \<open>The object after a run on the scenario of the two models, on a grid of 3 by 6 cells.\<close>

definition table_A :: dataframe where
  "table_A = \<lparr>columns = map Name [''cycle'', ''x'', ''y'', ''a1'', ''a2'', ''a3''],
               rows = [[Num 1, Num 1, Num 1, Num 10, Num 11, Num 12]]\<rparr>"

definition table_B :: dataframe where
  "table_B = \<lparr>columns = map Name [''cycle'', ''x'', ''y'', ''b1'', ''b2'', ''b3'', ''b4'', ''b5''],
               rows = [[Num 1, Num 1, Num 1, Num 20, Num 21, Num 22, Num 23, Num 24]]\<rparr>"

definition media_log :: "media_row list" where
  "media_log =
     [\<lparr>metabolite = ''glucose'', med_cycle = Num 3, med_x = Num 2, med_y = Num 5,
       conc_mmol = Num 7.5\<rparr>,
      \<lparr>metabolite = ''o2'', med_cycle = Num 4, med_x = Num 1, med_y = Num 1,
       conc_mmol = Num 2\<rparr>,
      \<lparr>metabolite = ''o2'', med_cycle = Num 5, med_x = Num 0, med_y = Num 2,
       conc_mmol = Num 1\<rparr>,
      \<lparr>metabolite = ''o2'', med_cycle = Num 6, med_x = Num 1, med_y = Num 0,
       conc_mmol = Num 4\<rparr>]"

definition biomass_log :: "biomass_row list" where
  "biomass_log =
     [\<lparr>bio_cycle = Num 1, bio_x = Num 1, bio_y = Num 1, species = Text ''A'',
       biomass_value = Num 0.5\<rparr>]"

definition comets_AB :: comets where
  "comets_AB =
     \<lparr>layout_models = [model_A, model_B],
      layout_grid = (3, 6),
      layout_media_metabolite = [''glucose'', ''o2''],
      evolution = False,
      writeTotalBiomassLog = False,
      writeFluxLog = True,
      writeMediaLog = True,
      writeBiomassLog = True,
      writeSpecificMediaLog = False,
      TotalBiomassLogName = ''total_biomass_log_0x1'',
      FluxLogName = ''flux_log_0x1'',
      MediaLogName = ''media_log_0x1'',
      SpecificMediaLogName = ''specific_media_log_0x1'',
      hex_id = ''0x1'',
      total_biomass = None,
      fluxes = Some \<lparr>columns = map Pos [0, 1, 2, 3, 4, 5, 6, 7, 8], rows = flux_lines_AB\<rparr>,
      fluxes_by_species = Some [(''A'', table_A), (''B'', table_B)],
      media = Some media_log,
      biomass = Some biomass_log,
      genotypes = None,
      specific_media = None\<rparr>"

text \<open>A pandas that refuses every file, and a disk without any log.\<close>

definition pandas_refusing :: pandas where
  "pandas_refusing =
     \<lparr>to_float_frame = (\<lambda>f_lines names. Inl ParserError),
      flux_fields = (\<lambda>f_lines. Inl ParserError),
      media_rows = (\<lambda>f_lines. Inl ParserError),
      biomass_rows = (\<lambda>f_lines. Inl ParserError),
      genotype_rows = (\<lambda>f_lines. Inl ParserError),
      specific_media_rows = (\<lambda>f_lines. Inl ParserError)\<rparr>"

definition no_files :: files where
  "no_files = Map.empty"

text \<open>
  Coordinates from \<open>0\<close> to the size of the grid: \<open>x - 1\<close> is then an index that numpy
  accepts, \<open>-1\<close> for the coordinate \<open>0\<close>. \<open>wrapped_index\<close> is the cell that numpy writes
  for such a coordinate: the last one for \<open>0\<close>, and \<open>x - 1\<close> otherwise.
\<close>

definition float_nat :: "float64 \<Rightarrow> nat" where
  "float_nat v = (case v of NaN \<Rightarrow> 0 | Num r \<Rightarrow> nat \<lfloor>r\<rfloor>)"

definition wrapped_coordinate :: "nat \<Rightarrow> float64 \<Rightarrow> bool" where
  "wrapped_coordinate n v = (0 < n \<and> v \<in> set (map (\<lambda>i. Num (real i)) [0..<Suc n]))"

definition wrapped_index :: "nat \<Rightarrow> float64 \<Rightarrow> nat" where
  "wrapped_index n v = (float_nat v + n - 1) mod n"

text \<open>
  The image that the records \<open>(x, y, value)\<close> of one cycle give when the coordinate \<open>0\<close>
  wraps around: a cell holds the value of the last record that numpy writes there, and
  \<open>0\<close> when there is none.
\<close>

definition wrapped_record_at ::
  "nat \<times> nat \<Rightarrow> (float64 \<times> float64 \<times> float64) list \<Rightarrow> nat \<Rightarrow> nat \<Rightarrow> float64 option" where
  "wrapped_record_at shape recs a b =
     map_of (rev (map (\<lambda>t. ((wrapped_index (fst shape) (fst t),
                               wrapped_index (snd shape) (fst (snd t))), snd (snd t))) recs))
       (a, b)"

definition wrapped_image :: "nat \<times> nat \<Rightarrow> (float64 \<times> float64 \<times> float64) list \<Rightarrow> image" where
  "wrapped_image shape recs =
     map (\<lambda>a. map (\<lambda>b. case wrapped_record_at shape recs a b of None \<Rightarrow> Num 0 | Some v \<Rightarrow> v)
                 [0..<snd shape])
         [0..<fst shape]"

text \<open>The column of the biomass table that a key names.\<close>

fun biomass_field :: "string \<Rightarrow> biomass_row \<Rightarrow> float64" where
  "biomass_field key row =
     (if key = ''cycle'' then bio_cycle row
      else if key = ''x'' then bio_x row
      else if key = ''y'' then bio_y row
      else biomass_value row)"

text \<open>
  The scenario with a flux table for \<open>A\<close> whose records at cycle 2 have \<open>x = 0\<close> and
  \<open>y = 0\<close>, and a layout whose only model is called \<open>biomass\<close>, with a biomass record at
  \<open>x = 0\<close>.
\<close>

definition table_A0 :: dataframe where
  "table_A0 = \<lparr>columns = map Name [''cycle'', ''x'', ''y'', ''a1'', ''a2'', ''a3''],
                rows = [[Num 2, Num 0, Num 3, Num 10, Num 11, Num 12],
                        [Num 2, Num 1, Num 0, Num 13, Num 14, Num 15]]\<rparr>"

definition comets_x0 :: comets where
  "comets_x0 = comets_AB\<lparr>fluxes_by_species := Some [(''A'', table_A0), (''B'', table_B)]\<rparr>"

definition biomass_log0 :: "biomass_row list" where
  "biomass_log0 =
     [\<lparr>bio_cycle = Num 2, bio_x = Num 0, bio_y = Num 1, species = Text ''biomass'',
       biomass_value = Num 0.25\<rparr>]"

definition comets_bm :: comets where
  "comets_bm =
     comets_AB\<lparr>layout_models := [\<lparr>model_id = ''biomass'', REACTION_NAMES = [''r'']\<rparr>],
               biomass := Some biomass_log0\<rparr>"

text \<open>
  A pandas that parses every file of the scenario, and the disks on which \<^verbatim>\<open>run\<close> finds
  the flux log, the flux and media logs, and the flux, media and biomass logs.
\<close>

definition pandas_AB :: pandas where
  "pandas_AB =
     \<lparr>to_float_frame = (\<lambda>f_lines names. Inr \<lparr>columns = names, rows = []\<rparr>),
      flux_fields = (\<lambda>f_lines. Inr flux_lines_AB),
      media_rows = (\<lambda>f_lines. Inr media_log),
      biomass_rows = (\<lambda>f_lines. Inr biomass_log),
      genotype_rows = (\<lambda>f_lines. Inr []),
      specific_media_rows = (\<lambda>f_lines. Inr [])\<rparr>"

definition files_flux :: files where
  "files_flux =
     [''flux_log_0x1'' \<mapsto> [''1 1 1 1 10 11 12 13 14'', ''1 1 1 2 20 21 22 23 24'']]"

definition files_flux_media :: files where
  "files_flux_media =
     files_flux(''media_log_0x1'' \<mapsto>
       [''glucose 3 2 5 7.5'', ''o2 4 1 1 2'', ''o2 5 0 2 1'', ''o2 6 1 0 4''])"

definition files_AB :: files where
  "files_AB = files_flux_media(''biomass_log_0x1'' \<mapsto> [''1 1 1 A 0.5''])"

section \<open>Dropping columns\<close>

lemma zip_take_drop:
  "zip xs ys = zip (take j xs) (take j ys) @ zip (drop j xs) (drop j ys)"
  by (metis append_take_drop_id take_zip drop_zip)

lemma filter_zip_keep_all:
  assumes "\<And>x. x \<in> set xs \<Longrightarrow> P x" and "length ys = length xs"
  shows "map snd (filter (\<lambda>p. P (fst p)) (zip xs ys)) = ys"
proof -
  have "\<forall>p \<in> set (zip xs ys). P (fst p)"
    using assms(1) by (auto dest: set_zip_leftD)
  then have "filter (\<lambda>p. P (fst p)) (zip xs ys) = zip xs ys"
    by (simp only: filter_id_conv)
  then show ?thesis using assms(2) by simp
qed

lemma filter_zip_keep_none:
  assumes "\<And>x. x \<in> set xs \<Longrightarrow> \<not> P x"
  shows "filter (\<lambda>p. P (fst p)) (zip xs ys) = []"
  using assms by (auto simp: filter_empty_conv dest: set_zip_leftD)

lemma filter_prefix:
  assumes "\<And>x. x \<in> set (take j xs) \<Longrightarrow> P x" and "\<And>x. x \<in> set (drop j xs) \<Longrightarrow> \<not> P x"
  shows "filter P xs = take j xs"
proof -
  have 1: "filter P (take j xs) = take j xs"
    using assms(1) by (simp only: filter_id_conv) blast
  have 2: "filter P (drop j xs) = []"
    using assms(2) by (simp only: filter_empty_conv) blast
  have "filter P xs = filter P (take j xs @ drop j xs)" by simp
  also have "\<dots> = take j xs" by (simp only: filter_append 1 2 append_Nil2)
  finally show ?thesis .
qed

lemma filter_zip_prefix:
  assumes "\<And>x. x \<in> set (take j xs) \<Longrightarrow> P x" and "\<And>x. x \<in> set (drop j xs) \<Longrightarrow> \<not> P x"
    and "length ys = length xs"
  shows "map snd (filter (\<lambda>p. P (fst p)) (zip xs ys)) = take j ys"
proof -
  have 1: "map snd (filter (\<lambda>p. P (fst p)) (zip (take j xs) (take j ys))) = take j ys"
    using assms by (intro filter_zip_keep_all) auto
  have 2: "filter (\<lambda>p. P (fst p)) (zip (drop j xs) (drop j ys)) = []"
    using assms by (intro filter_zip_keep_none) auto
  show ?thesis
    by (subst zip_take_drop [of xs ys j]) (simp add: 1 2)
qed

lemma distinct_take_notin_drop:
  "distinct cols \<Longrightarrow> x \<in> set (take j cols) \<Longrightarrow> x \<notin> set (drop j cols)"
  by (metis append_take_drop_id distinct_append disjoint_iff)

lemma nth_notin_rest:
  assumes "distinct cols" and "i < length cols"
  shows "cols ! i \<notin> set (take i cols)" and "cols ! i \<notin> set (drop (Suc i) cols)"
proof -
  have "distinct (take i cols @ cols ! i # drop (Suc i) cols)"
    using assms by (simp add: id_take_nth_drop [symmetric])
  then show "cols ! i \<notin> set (take i cols)" and "cols ! i \<notin> set (drop (Suc i) cols)"
    by auto
qed

lemma filter_without_nth:
  assumes "distinct cols" and "i < length cols"
  shows "filter (\<lambda>l. l \<noteq> cols ! i) cols = take i cols @ drop (Suc i) cols"
proof -
  have 1: "filter (\<lambda>l. l \<noteq> cols ! i) (take i cols) = take i cols"
    using nth_notin_rest(1) [OF assms] by (simp only: filter_id_conv) blast
  have 2: "filter (\<lambda>l. l \<noteq> cols ! i) (drop (Suc i) cols) = drop (Suc i) cols"
    using nth_notin_rest(2) [OF assms] by (simp only: filter_id_conv) blast
  have "filter (\<lambda>l. l \<noteq> cols ! i) cols
        = filter (\<lambda>l. l \<noteq> cols ! i) (take i cols @ cols ! i # drop (Suc i) cols)"
    using assms(2) by (simp add: id_take_nth_drop [symmetric])
  also have "\<dots> = take i cols @ drop (Suc i) cols"
    by (simp only: filter_append filter.simps 1 2) simp
  finally show ?thesis .
qed

lemma filter_zip_without_nth:
  assumes "distinct cols" and "i < length cols" and "length r = length cols"
  shows "map snd (filter (\<lambda>p. fst p \<noteq> cols ! i) (zip cols r)) = take i r @ drop (Suc i) r"
proof -
  have z: "zip cols r = zip (take i cols) (take i r) @ (cols ! i, r ! i) # zip (drop (Suc i) cols) (drop (Suc i) r)"
  proof -
    have "zip cols r = zip (take i cols @ cols ! i # drop (Suc i) cols) (take i r @ r ! i # drop (Suc i) r)"
      using assms by (simp add: id_take_nth_drop [symmetric])
    also have "\<dots> = zip (take i cols) (take i r) @ (cols ! i, r ! i) # zip (drop (Suc i) cols) (drop (Suc i) r)"
      using assms by (subst zip_append) simp_all
    finally show ?thesis .
  qed
  have 1: "map snd (filter (\<lambda>p. fst p \<noteq> cols ! i) (zip (take i cols) (take i r))) = take i r"
    using assms nth_notin_rest [OF assms(1,2)] by (intro filter_zip_keep_all) auto
  have 2: "map snd (filter (\<lambda>p. fst p \<noteq> cols ! i) (zip (drop (Suc i) cols) (drop (Suc i) r))) = drop (Suc i) r"
    using assms nth_notin_rest [OF assms(1,2)] by (intro filter_zip_keep_all) auto
  show ?thesis by (subst z) (simp add: 1 2)
qed

lemma positions_distinct:
  assumes "distinct cols" and "i < length cols"
  shows "positions cols (cols ! i) = [i]"
proof -
  have "filter (\<lambda>j. cols ! j = cols ! i) [0..<length cols] = filter (\<lambda>j. j = i) [0..<length cols]"
    using assms by (intro filter_cong) (auto simp: nth_eq_iff_index_eq)
  also have "\<dots> = [i]"
  proof -
    have "[0..<length cols] = [0..<i] @ i # [Suc i..<length cols]"
      using assms(2) by (metis le_add1 le_add_same_cancel1 less_imp_add_positive upt_add_eq_append upt_conv_Cons)
    then show ?thesis by (simp add: filter_empty_conv)
  qed
  finally show ?thesis by (simp add: positions_def)
qed


lemma drop_columns_tail:
  assumes "distinct (columns df)" and "rectangular df"
  shows "drop_columns df (drop j (columns df))
         = \<lparr>columns = take j (columns df), rows = map (take j) (rows df)\<rparr>"
proof -
  have c: "filter (\<lambda>l. l \<notin> set (drop j (columns df))) (columns df) = take j (columns df)"
    using assms(1) by (intro filter_prefix) (auto dest: distinct_take_notin_drop)
  have r: "map snd (filter (\<lambda>p. fst p \<notin> set (drop j (columns df))) (zip (columns df) r)) = take j r"
    if "r \<in> set (rows df)" for r
    using assms that
    by (intro filter_zip_prefix) (auto simp: rectangular_def dest: distinct_take_notin_drop)
  show ?thesis
    unfolding drop_columns_def using c r by simp
qed

lemma drop_columns_one:
  assumes "distinct (columns df)" and "rectangular df" and "i < length (columns df)"
  shows "drop_columns df [columns df ! i]
         = \<lparr>columns = take i (columns df) @ drop (Suc i) (columns df),
            rows = map (\<lambda>r. take i r @ drop (Suc i) r) (rows df)\<rparr>"
proof -
  have c: "filter (\<lambda>l. l \<noteq> columns df ! i) (columns df)
           = take i (columns df) @ drop (Suc i) (columns df)"
    using assms by (intro filter_without_nth)
  have r: "map snd (filter (\<lambda>p. fst p \<noteq> columns df ! i) (zip (columns df) r))
           = take i r @ drop (Suc i) r"
    if "r \<in> set (rows df)" for r
    using assms that by (intro filter_zip_without_nth) (auto simp: rectangular_def)
  show ?thesis
    unfolding drop_columns_def using c r by simp
qed

lemma flux_sub_df_read:
  assumes cols: "columns raw = map Pos [0..<n]"
    and rect: "rectangular raw"
    and wide: "4 + length (REACTION_NAMES m) \<le> n"
  shows "flux_sub_df raw m model_num = Inr (flux_table raw m model_num)"
proof -
  let ?k = "length (REACTION_NAMES m)"
  let ?sub = "raw\<lparr>rows := filter (\<lambda>r. r ! 3 = Num (real model_num)) (rows raw)\<rparr>"
  let ?sub1 = "\<lparr>columns = take (?k + 4) (columns ?sub), rows = map (take (?k + 4)) (rows ?sub)\<rparr>"
  have dist: "distinct (columns raw)"
    by (simp add: cols distinct_map inj_on_def)
  have three: "columns raw ! 3 = Pos 3" "3 < length (columns raw)"
    using wide by (simp_all add: cols)
  have "positions (columns raw) (columns raw ! 3) = [3]"
    using dist three(2) by (rule positions_distinct)
  then have loc: "loc_eq raw (Pos 3) (Num (real model_num)) = Inr ?sub"
    by (simp add: loc_eq_def three(1))
  have rect_sub: "rectangular ?sub"
    using rect by (simp add: rectangular_def)
  have d1: "drop_columns ?sub (drop (?k + 4) (columns ?sub)) = ?sub1"
    using dist rect_sub by (intro drop_columns_tail) simp_all
  have len1: "length (columns ?sub1) = ?k + 4"
    using wide by (simp add: cols)
  have at3: "columns ?sub1 ! 3 = Pos 3"
    using wide by (simp add: cols)
  have col3: "column_at ?sub1 3 = Inr (Pos 3)"
    using len1 at3 by (simp add: column_at_def)
  have dist1: "distinct (columns ?sub1)"
    using dist by simp
  have rect1: "rectangular ?sub1"
    using rect wide by (auto simp: rectangular_def cols)
  let ?sub2 = "\<lparr>columns = take 3 (columns ?sub1) @ drop (Suc 3) (columns ?sub1),
               rows = map (\<lambda>r. take 3 r @ drop (Suc 3) r) (rows ?sub1)\<rparr>"
  have "drop_columns ?sub1 [columns ?sub1 ! 3] = ?sub2"
    using dist1 rect1 len1 by (intro drop_columns_one) simp_all
  then have d2: "drop_columns ?sub1 [Pos 3] = ?sub2"
    by (simp only: at3)
  have rows2: "rows ?sub2
               = map (keep_fields ?k) (filter (\<lambda>r. r ! 3 = Num (real model_num)) (rows raw))"
    by (simp add: keep_fields_def drop_take o_def)
  have len2: "length (map Name ([''cycle'', ''x'', ''y''] @ REACTION_NAMES m)) = length (columns ?sub2)"
    using wide by (simp add: cols)
  have "set_columns ?sub2 (map Name ([''cycle'', ''x'', ''y''] @ REACTION_NAMES m))
        = Inr (?sub2\<lparr>columns := map Name ([''cycle'', ''x'', ''y''] @ REACTION_NAMES m)\<rparr>)"
    unfolding set_columns_def by (rule if_P) (rule len2)
  also have "?sub2\<lparr>columns := map Name ([''cycle'', ''x'', ''y''] @ REACTION_NAMES m)\<rparr>
        = \<lparr>columns = map Name ([''cycle'', ''x'', ''y''] @ REACTION_NAMES m),
           rows = map (keep_fields ?k) (filter (\<lambda>r. r ! 3 = Num (real model_num)) (rows raw))\<rparr>"
    using rows2 by simp
  finally have fin: "set_columns ?sub2 (map Name ([''cycle'', ''x'', ''y''] @ REACTION_NAMES m))
        = Inr \<lparr>columns = map Name ([''cycle'', ''x'', ''y''] @ REACTION_NAMES m),
           rows = map (keep_fields ?k) (filter (\<lambda>r. r ! 3 = Num (real model_num)) (rows raw))\<rparr>" .
  show ?thesis
    unfolding flux_sub_df_def Let_def loc sum.case d1 col3 d2 flux_table_def rows_of_model_def
    by (rule fin)
qed


subsection \<open>The width of the raw table\<close>

lemma py_max_Max:
  assumes "xs \<noteq> []"
  shows "py_max xs = Inr (Max (set xs))"
proof (cases xs)
  case Nil
  with assms show ?thesis by simp
next
  case (Cons x ys)
  show ?thesis
    unfolding Cons by (simp only: py_max.simps Max.set_eq_fold)
qed

lemma max_rows_eq:
  "models \<noteq> [] \<Longrightarrow>
   max_rows models = Inr (4 + Max (set (map (\<lambda>m. length (REACTION_NAMES m)) models)))"
  by (simp add: max_rows_def py_max_Max)

lemma max_rows_empty: "max_rows [] = Inl (ValueError ''max() arg is an empty sequence'')"
  by (simp add: max_rows_def)

lemma max_rows_wide:
  assumes "max_rows models = Inr n" and "m \<in> set models"
  shows "4 + length (REACTION_NAMES m) \<le> n"
proof -
  have ne: "models \<noteq> []" using assms(2) by auto
  have "length (REACTION_NAMES m) \<le> Max (set (map (\<lambda>m. length (REACTION_NAMES m)) models))"
    using assms(2) by (intro Max_ge) auto
  then show ?thesis using assms(1) max_rows_eq [OF ne] by simp
qed

lemma read_csv_range_Inr:
  assumes "read_csv_range lines n = Inr raw"
  shows "columns raw = map Pos [0..<n]"
    and "rectangular raw"
    and "rows raw = map (\<lambda>l. l @ replicate (n - length l) NaN) lines"
    and "\<forall>l \<in> set lines. length l \<le> n"
proof -
  have f: "raw = \<lparr>columns = map Pos [0..<n],
                rows = map (\<lambda>l. l @ replicate (n - length l) NaN) lines\<rparr>"
    and le: "\<forall>l \<in> set lines. length l \<le> n"
    using assms by (auto simp: read_csv_range_def not_less split: if_splits)
  show "columns raw = map Pos [0..<n]" by (simp add: f)
  show "rows raw = map (\<lambda>l. l @ replicate (n - length l) NaN) lines" by (simp add: f)
  show "rectangular raw" using le by (simp add: f rectangular_def)
  show "\<forall>l \<in> set lines. length l \<le> n" by (rule le)
qed

lemma read_csv_range_ok:
  assumes "\<forall>l \<in> set lines. length l \<le> n"
  shows "read_csv_range lines n
         = Inr \<lparr>columns = map Pos [0..<n],
                rows = map (\<lambda>l. l @ replicate (n - length l) NaN) lines\<rparr>"
  using assms by (auto simp: read_csv_range_def)

subsection \<open>The loop and the dict\<close>

lemma map_of_dict_set: "map_of (dict_set d k v) = (map_of d)(k \<mapsto> v)"
  by (induction d) (auto simp: fun_eq_iff)

lemma dict_set_append: "k \<notin> set (map fst d) \<Longrightarrow> dict_set d k v = d @ [(k, v)]"
  by (induction d) auto

lemma build_loop_fold:
  assumes "\<And>i. i \<in> set is \<Longrightarrow> flux_sub_df raw (models ! i) (i + 1) = Inr (T i)"
  shows "build_loop raw models is d
         = Inr (foldl (\<lambda>d i. dict_set d (model_id (models ! i)) (T i)) d is)"
  using assms by (induction "is" arbitrary: d) simp_all

lemma foldl_dict_set_other:
  assumes "\<And>j. j \<in> set js \<Longrightarrow> key j \<noteq> k"
  shows "map_of (foldl (\<lambda>d i. dict_set d (key i) (T i)) d js) k = map_of d k"
  using assms by (induction js arbitrary: d) (auto simp: map_of_dict_set)

lemma foldl_dict_set_last:
  assumes "i < n" and "\<And>j. i < j \<Longrightarrow> j < n \<Longrightarrow> key j \<noteq> key i"
  shows "map_of (foldl (\<lambda>d i. dict_set d (key i) (T i)) d [0..<n]) (key i) = Some (T i)"
proof -
  have split: "[0..<n] = [0..<i] @ i # [Suc i..<n]"
    using assms(1) by (metis le_add1 le_add_same_cancel1 less_imp_add_positive upt_add_eq_append upt_conv_Cons)
  show ?thesis
    unfolding split foldl_append foldl_Cons
    by (subst foldl_dict_set_other) (use assms(2) in \<open>auto simp: map_of_dict_set\<close>)
qed

lemma foldl_dict_set_distinct:
  assumes "distinct (map fst d @ map key js)"
  shows "foldl (\<lambda>d i. dict_set d (key i) (T i)) d js = d @ map (\<lambda>i. (key i, T i)) js"
  using assms
proof (induction js arbitrary: d)
  case Nil
  then show ?case by simp
next
  case (Cons j js)
  have "key j \<notin> set (map fst d)" using Cons.prems by auto
  then have step: "dict_set d (key j) (T j) = d @ [(key j, T j)]"
    by (rule dict_set_append)
  have "distinct (map fst (d @ [(key j, T j)]) @ map key js)"
    using Cons.prems by auto
  from Cons.IH [OF this] show ?case by (simp add: step)
qed

lemma build_readable_read:
  assumes cols: "columns raw = map Pos [0..<n]"
    and rect: "rectangular raw"
    and wide: "\<And>m. m \<in> set models \<Longrightarrow> 4 + length (REACTION_NAMES m) \<le> n"
  shows "build_readable_flux_object raw models
         = Inr (foldl (\<lambda>d i. dict_set d (model_id (models ! i))
                               (flux_table raw (models ! i) (i + 1)))
                  [] [0..<length models])"
  unfolding build_readable_flux_object_def
proof (rule build_loop_fold)
  fix i assume "i \<in> set [0..<length models]"
  then have "models ! i \<in> set models" by simp
  from flux_sub_df_read [OF cols rect wide [OF this]]
  show "flux_sub_df raw (models ! i) (i + 1) = Inr (flux_table raw (models ! i) (i + 1))" .
qed

lemma run_read_flux_Inr:
  assumes "run_read_flux models lines = Inr (raw, d)"
  shows "\<exists>n. max_rows models = Inr n \<and> read_csv_range lines n = Inr raw"
    and "d = foldl (\<lambda>d i. dict_set d (model_id (models ! i))
                               (flux_table raw (models ! i) (i + 1)))
                  [] [0..<length models]"
proof -
  from assms obtain n where n: "max_rows models = Inr n" "read_csv_range lines n = Inr raw"
    and b: "build_readable_flux_object raw models = Inr d"
    by (auto simp: run_read_flux_def split: sum.splits)
  show "\<exists>n. max_rows models = Inr n \<and> read_csv_range lines n = Inr raw"
    using n by blast
  have "build_readable_flux_object raw models
         = Inr (foldl (\<lambda>d i. dict_set d (model_id (models ! i))
                               (flux_table raw (models ! i) (i + 1)))
                  [] [0..<length models])"
    using read_csv_range_Inr(1,2) [OF n(2)] max_rows_wide [OF n(1)]
    by (rule build_readable_read)
  with b show "d = foldl (\<lambda>d i. dict_set d (model_id (models ! i))
                               (flux_table raw (models ! i) (i + 1)))
                  [] [0..<length models]" by simp
qed

lemma run_read_flux_ok:
  assumes "models \<noteq> []"
    and "\<forall>l \<in> set lines. length l \<le> 4 + Max (set (map (\<lambda>m. length (REACTION_NAMES m)) models))"
  shows "\<exists>raw d. run_read_flux models lines = Inr (raw, d)"
proof -
  let ?n = "4 + Max (set (map (\<lambda>m. length (REACTION_NAMES m)) models))"
  let ?f = "\<lparr>columns = map Pos [0..<?n],
                rows = map (\<lambda>l. l @ replicate (?n - length l) NaN) lines\<rparr>"
  have n: "max_rows models = Inr ?n" using assms(1) by (rule max_rows_eq)
  have r: "read_csv_range lines ?n = Inr ?f"
    using assms(2) by (rule read_csv_range_ok)
  have cols: "columns ?f = map Pos [0..<?n]" by simp
  have rect: "rectangular ?f" by (rule read_csv_range_Inr(2) [OF r])
  have wide: "4 + length (REACTION_NAMES m) \<le> ?n" if "m \<in> set models" for m
    using n that by (rule max_rows_wide)
  have b: "build_readable_flux_object ?f models
         = Inr (foldl (\<lambda>d i. dict_set d (model_id (models ! i))
                               (flux_table ?f (models ! i) (i + 1)))
                  [] [0..<length models])"
    using cols rect wide by (rule build_readable_read)
  show ?thesis
    by (simp only: run_read_flux_def n r b sum.case) blast
qed

lemma run_read_flux_split:
  "run_read_flux models lines = Inr (raw, d) \<longleftrightarrow>
   (\<exists>n. max_rows models = Inr n \<and> read_csv_range lines n = Inr raw
        \<and> build_readable_flux_object raw models = Inr d)"
  by (auto simp: run_read_flux_def split: sum.splits)

lemma map_nth_upt: "map (\<lambda>i. f (xs ! i)) [0..<length xs] = map f xs"
  by (rule nth_equalityI) simp_all

lemma later_ids:
  assumes "model_id (models ! i) \<notin> set (map model_id (drop (Suc i) models))"
    and "i < j" and "j < length models"
  shows "model_id (models ! j) \<noteq> model_id (models ! i)"
proof -
  have "models ! j = drop (Suc i) models ! (j - Suc i)" using assms(2,3) by simp
  moreover have "j - Suc i < length (drop (Suc i) models)" using assms(2,3) by simp
  ultimately have "models ! j \<in> set (drop (Suc i) models)" by (metis nth_mem)
  then have "model_id (models ! j) \<in> set (map model_id (drop (Suc i) models))"
    by simp
  then show ?thesis using assms(1) by metis
qed

lemma build_readable_table:
  assumes "max_rows models = Inr n" and "read_csv_range lines n = Inr raw"
  shows "build_readable_flux_object raw models
         = Inr (foldl (\<lambda>d i. dict_set d (model_id (models ! i))
                               (flux_table raw (models ! i) (i + 1)))
                  [] [0..<length models])"
  using read_csv_range_Inr(1,2) [OF assms(2)] max_rows_wide [OF assms(1)]
  by (rule build_readable_read)

lemma stored_under_last_id:
  assumes "max_rows models = Inr n" and "read_csv_range lines n = Inr raw"
    and "build_readable_flux_object raw models = Inr d"
    and "i < length models"
    and "model_id (models ! i) \<notin> set (map model_id (drop (Suc i) models))"
  shows "dict_get d (model_id (models ! i)) = Some (flux_table raw (models ! i) (i + 1))"
proof -
  have d: "d = foldl (\<lambda>d i. dict_set d (model_id (models ! i))
                               (flux_table raw (models ! i) (i + 1)))
                  [] [0..<length models]"
    using build_readable_table [OF assms(1,2)] assms(3) by simp
  have "map_of d (model_id (models ! i)) = Some (flux_table raw (models ! i) (i + 1))"
    unfolding d using assms(4) later_ids [OF assms(5)]
    by (rule foldl_dict_set_last [where key = "\<lambda>i. model_id (models ! i)"
          and T = "\<lambda>i. flux_table raw (models ! i) (i + 1)"])
  then show ?thesis by (simp add: dict_get_def)
qed

lemma sub_df_of_model:
  assumes "max_rows models = Inr n" and "read_csv_range lines n = Inr raw"
    and "i < length models"
  shows "flux_sub_df raw (models ! i) (i + 1) = Inr (flux_table raw (models ! i) (i + 1))"
proof -
  have "models ! i \<in> set models"
    using assms(3) by (rule nth_mem)
  with assms(1) have wide: "4 + length (REACTION_NAMES (models ! i)) \<le> n"
    by (rule max_rows_wide)
  show ?thesis
    using read_csv_range_Inr(1,2) [OF assms(2)] wide by (rule flux_sub_df_read)
qed

section \<open>Flux demultiplexing: the claims\<close>

text \<open>
  Claim C1, as amended. After \<^verbatim>\<open>run\<close> has read the flux log, for the model at the
  1-based position \<open>i + 1\<close> whose id no later model of the list has, the table stored
  under that id holds exactly the raw rows whose column 3 equals \<open>i + 1\<close>, in their
  order and cut to cycle, x, y and the model's values; the table and each of its rows
  have as many value columns as the model has reactions.
\<close>

theorem flux_partition_last_id:
  assumes "run_read_flux models lines = Inr (raw, d)"
    and "i < length models"
    and "model_id (models ! i) \<notin> set (map model_id (drop (Suc i) models))"
  shows "dict_get d (model_id (models ! i)) = Some (flux_table raw (models ! i) (i + 1))
       \<and> rows (flux_table raw (models ! i) (i + 1))
           = map (keep_fields (length (REACTION_NAMES (models ! i)))) (rows_of_model raw (i + 1))
       \<and> length (drop 3 (columns (flux_table raw (models ! i) (i + 1))))
           = length (REACTION_NAMES (models ! i))
       \<and> (\<forall>r \<in> set (rows (flux_table raw (models ! i) (i + 1))).
             length (drop 3 r) = length (REACTION_NAMES (models ! i)))"
proof -
  let ?k = "length (REACTION_NAMES (models ! i))"
  from run_read_flux_Inr [OF assms(1)] obtain n where
    n: "max_rows models = Inr n" "read_csv_range lines n = Inr raw"
    and d: "d = foldl (\<lambda>d i. dict_set d (model_id (models ! i))
                               (flux_table raw (models ! i) (i + 1)))
                  [] [0..<length models]"
    by blast
  have later: "model_id (models ! j) \<noteq> model_id (models ! i)"
    if "i < j" "j < length models" for j
  proof -
    have "models ! j = drop (Suc i) models ! (j - Suc i)" using that by simp
    moreover have "j - Suc i < length (drop (Suc i) models)" using that by simp
    ultimately have "models ! j \<in> set (drop (Suc i) models)" by (metis nth_mem)
    then have "model_id (models ! j) \<in> set (map model_id (drop (Suc i) models))"
      by simp
    then show ?thesis using assms(3) by metis
  qed
  have "map_of d (model_id (models ! i)) = Some (flux_table raw (models ! i) (i + 1))"
    unfolding d using assms(2) later
    by (rule foldl_dict_set_last [where key = "\<lambda>i. model_id (models ! i)"
          and T = "\<lambda>i. flux_table raw (models ! i) (i + 1)"])
  then have 1: "dict_get d (model_id (models ! i)) = Some (flux_table raw (models ! i) (i + 1))"
    by (simp add: dict_get_def)
  have 2: "length (drop 3 (columns (flux_table raw (models ! i) (i + 1)))) = ?k"
    by (simp add: flux_table_def)
  have "models ! i \<in> set models"
    using assms(2) by (rule nth_mem)
  with n(1) have wide: "4 + ?k \<le> n"
    by (rule max_rows_wide)
  have rect: "rectangular raw" and cols: "columns raw = map Pos [0..<n]"
    using read_csv_range_Inr [OF n(2)] by simp_all
  have 3: "length (drop 3 r) = ?k" if "r \<in> set (rows (flux_table raw (models ! i) (i + 1)))" for r
  proof -
    from that obtain r0 where r0: "r0 \<in> set (rows raw)" "r = keep_fields ?k r0"
      by (auto simp: flux_table_def rows_of_model_def)
    have "length r0 = n" using rect r0(1) by (simp add: rectangular_def cols)
    then show ?thesis using wide by (simp add: r0(2) keep_fields_def)
  qed
  have 4: "rows (flux_table raw (models ! i) (i + 1))
           = map (keep_fields ?k) (rows_of_model raw (i + 1))"
    by (simp add: flux_table_def)
  show ?thesis using 1 2 3 4 by blast
qed

theorem flux_partition_last_id_witness:
  "run_read_flux [model_A, model_B] flux_lines_AB
     = Inr (\<lparr>columns = map Pos [0, 1, 2, 3, 4, 5, 6, 7, 8], rows = flux_lines_AB\<rparr>,
            [(''A'', \<lparr>columns = map Name [''cycle'', ''x'', ''y'', ''a1'', ''a2'', ''a3''],
                      rows = [[Num 1, Num 1, Num 1, Num 10, Num 11, Num 12]]\<rparr>),
             (''B'', \<lparr>columns = map Name [''cycle'', ''x'', ''y'', ''b1'', ''b2'', ''b3'', ''b4'', ''b5''],
                      rows = [[Num 1, Num 1, Num 1, Num 20, Num 21, Num 22, Num 23, Num 24]]\<rparr>)])
   \<and> dict_get
        [(''A'', \<lparr>columns = map Name [''cycle'', ''x'', ''y'', ''a1'', ''a2'', ''a3''],
                  rows = [[Num 1, Num 1, Num 1, Num 10, Num 11, Num 12]]\<rparr>),
         (''B'', \<lparr>columns = map Name [''cycle'', ''x'', ''y'', ''b1'', ''b2'', ''b3'', ''b4'', ''b5''],
                  rows = [[Num 1, Num 1, Num 1, Num 20, Num 21, Num 22, Num 23, Num 24]]\<rparr>)]
        ''A''
     = Some (flux_table \<lparr>columns = map Pos [0, 1, 2, 3, 4, 5, 6, 7, 8], rows = flux_lines_AB\<rparr>
               model_A 1)"
proof -
  have h1: "run_read_flux [model_A, model_B] flux_lines_AB
     = Inr (\<lparr>columns = map Pos [0, 1, 2, 3, 4, 5, 6, 7, 8], rows = flux_lines_AB\<rparr>,
            [(''A'', \<lparr>columns = map Name [''cycle'', ''x'', ''y'', ''a1'', ''a2'', ''a3''],
                      rows = [[Num 1, Num 1, Num 1, Num 10, Num 11, Num 12]]\<rparr>),
             (''B'', \<lparr>columns = map Name [''cycle'', ''x'', ''y'', ''b1'', ''b2'', ''b3'', ''b4'', ''b5''],
                      rows = [[Num 1, Num 1, Num 1, Num 20, Num 21, Num 22, Num 23, Num 24]]\<rparr>)])"
    by code_simp
  have h2: "0 < length [model_A, model_B]" by simp
  have h3: "model_id ([model_A, model_B] ! 0) \<notin> set (map model_id (drop (Suc 0) [model_A, model_B]))"
    by (simp add: model_A_def model_B_def)
  from flux_partition_last_id [OF h1 h2 h3] h1 show ?thesis
    by (simp add: model_A_def)
qed

text \<open>
  Claim C1 as stated fails when two models have the same id: the second table replaces
  the first one in the dict. With two models of id \<^verbatim>\<open>m\<close> and one raw row of model
  index 1, the table under \<^verbatim>\<open>m\<close> has no row, while the raw table has a row whose
  column 3 is 1.
\<close>

theorem flux_partition_duplicate_id_counterexample:
  "run_read_flux [model_m1, model_m2] [[Num 0, Num 1, Num 1, Num 1, Num 5]]
     = Inr (\<lparr>columns = map Pos [0, 1, 2, 3, 4], rows = [[Num 0, Num 1, Num 1, Num 1, Num 5]]\<rparr>,
            [(''m'', \<lparr>columns = map Name [''cycle'', ''x'', ''y'', ''r''], rows = []\<rparr>)])
   \<and> model_id ([model_m1, model_m2] ! 0) = ''m''
   \<and> rows_of_model \<lparr>columns = map Pos [0, 1, 2, 3, 4],
                     rows = [[Num 0, Num 1, Num 1, Num 1, Num 5]]\<rparr> 1
       = [[Num 0, Num 1, Num 1, Num 1, Num 5]]
   \<and> dict_get [(''m'', \<lparr>columns = map Name [''cycle'', ''x'', ''y'', ''r''], rows = []\<rparr>)] ''m''
       \<noteq> Some (flux_table \<lparr>columns = map Pos [0, 1, 2, 3, 4],
                             rows = [[Num 0, Num 1, Num 1, Num 1, Num 5]]\<rparr> model_m1 1)"
  by code_simp

text \<open>
  Claim C2. When \<^verbatim>\<open>run\<close> has read the flux log, the raw table has the columns
  \<open>0, \<dots>, max_cols - 1\<close> with \<open>max_cols = 4 +\<close> the largest reaction count, and for the
  model at position \<open>i + 1\<close> the loop builds the table whose columns are cycle, x, y and
  the model's reaction names in their order, each row being the raw row without its
  model index and without the values beyond \<open>4 +\<close> the model's reaction count. That
  table is the one under the model's id when no later model has this id. In the
  scenario of the models with 3 and 5 reactions, \<open>max_cols\<close> is 9 and the row of the
  first model keeps the values 10, 11, 12.
\<close>

theorem flux_table_columns:
  assumes "run_read_flux models lines = Inr (raw, d)"
    and "i < length models"
  shows "max_rows models
           = Inr (4 + Max (set (map (\<lambda>m. length (REACTION_NAMES m)) models)))
       \<and> columns raw
           = map Pos [0..<4 + Max (set (map (\<lambda>m. length (REACTION_NAMES m)) models))]
       \<and> flux_sub_df raw (models ! i) (i + 1)
           = Inr \<lparr>columns = map Name ([''cycle'', ''x'', ''y''] @ REACTION_NAMES (models ! i)),
                  rows = map (keep_fields (length (REACTION_NAMES (models ! i))))
                             (rows_of_model raw (i + 1))\<rparr>
       \<and> (model_id (models ! i) \<notin> set (map model_id (drop (Suc i) models)) \<longrightarrow>
            dict_get d (model_id (models ! i))
              = Some \<lparr>columns = map Name ([''cycle'', ''x'', ''y''] @ REACTION_NAMES (models ! i)),
                      rows = map (keep_fields (length (REACTION_NAMES (models ! i))))
                                 (rows_of_model raw (i + 1))\<rparr>)"
proof -
  from assms(1) obtain n where
    n: "max_rows models = Inr n" "read_csv_range lines n = Inr raw"
       "build_readable_flux_object raw models = Inr d"
    unfolding run_read_flux_split by blast
  have ne: "models \<noteq> []" using assms(2) by auto
  have mx: "max_rows models
           = Inr (4 + Max (set (map (\<lambda>m. length (REACTION_NAMES m)) models)))"
    using ne by (rule max_rows_eq)
  with n(1) have n_eq: "n = 4 + Max (set (map (\<lambda>m. length (REACTION_NAMES m)) models))"
    by simp
  have cols: "columns raw = map Pos [0..<n]"
    using read_csv_range_Inr(1) [OF n(2)] .
  have sub: "flux_sub_df raw (models ! i) (i + 1) = Inr (flux_table raw (models ! i) (i + 1))"
    using n(1,2) assms(2) by (rule sub_df_of_model)
  have stored: "dict_get d (model_id (models ! i)) = Some (flux_table raw (models ! i) (i + 1))"
    if "model_id (models ! i) \<notin> set (map model_id (drop (Suc i) models))"
    using n assms(2) that by (rule stored_under_last_id)
  show ?thesis
    using mx cols sub stored unfolding n_eq flux_table_def by blast
qed

theorem flux_table_columns_witness:
  "max_rows [model_A, model_B] = Inr 9
   \<and> flux_sub_df \<lparr>columns = map Pos [0, 1, 2, 3, 4, 5, 6, 7, 8], rows = flux_lines_AB\<rparr> model_A 1
       = Inr \<lparr>columns = map Name [''cycle'', ''x'', ''y'', ''a1'', ''a2'', ''a3''],
              rows = [[Num 1, Num 1, Num 1, Num 10, Num 11, Num 12]]\<rparr>
   \<and> dict_get
        [(''A'', \<lparr>columns = map Name [''cycle'', ''x'', ''y'', ''a1'', ''a2'', ''a3''],
                  rows = [[Num 1, Num 1, Num 1, Num 10, Num 11, Num 12]]\<rparr>),
         (''B'', \<lparr>columns = map Name [''cycle'', ''x'', ''y'', ''b1'', ''b2'', ''b3'', ''b4'', ''b5''],
                  rows = [[Num 1, Num 1, Num 1, Num 20, Num 21, Num 22, Num 23, Num 24]]\<rparr>)]
        ''A''
       = Some \<lparr>columns = map Name [''cycle'', ''x'', ''y'', ''a1'', ''a2'', ''a3''],
               rows = [[Num 1, Num 1, Num 1, Num 10, Num 11, Num 12]]\<rparr>"
proof -
  let ?raw = "\<lparr>columns = map Pos [0, 1, 2, 3, 4, 5, 6, 7, 8], rows = flux_lines_AB\<rparr>"
  let ?TA = "\<lparr>columns = map Name [''cycle'', ''x'', ''y'', ''a1'', ''a2'', ''a3''],
              rows = [[Num 1, Num 1, Num 1, Num 10, Num 11, Num 12]]\<rparr>"
  have h1: "run_read_flux [model_A, model_B] flux_lines_AB
     = Inr (?raw,
            [(''A'', ?TA),
             (''B'', \<lparr>columns = map Name [''cycle'', ''x'', ''y'', ''b1'', ''b2'', ''b3'', ''b4'', ''b5''],
                      rows = [[Num 1, Num 1, Num 1, Num 20, Num 21, Num 22, Num 23, Num 24]]\<rparr>)])"
    by code_simp
  have h2: "0 < length [model_A, model_B]" by simp
  have h3: "model_id ([model_A, model_B] ! 0) \<notin> set (map model_id (drop (Suc 0) [model_A, model_B]))"
    by (simp add: model_A_def model_B_def)
  have e1: "4 + Max (set (map (\<lambda>m. length (REACTION_NAMES m)) [model_A, model_B])) = 9"
    by (simp add: model_A_def model_B_def)
  have e2: "[model_A, model_B] ! 0 = model_A" by simp
  have e3: "\<lparr>columns = map Name ([''cycle'', ''x'', ''y''] @ REACTION_NAMES model_A),
             rows = map (keep_fields (length (REACTION_NAMES model_A)))
                        (rows_of_model ?raw (0 + 1))\<rparr> = ?TA"
    by code_simp
  have e4: "model_id model_A = ''A''" "(0::nat) + 1 = 1"
    by (simp_all add: model_A_def)
  note inst = flux_table_columns [OF h1 h2, unfolded e1 e2 e3]
  from inst h3 [unfolded e2] show ?thesis
    unfolding e4 by blast
qed

text \<open>
  Claim C7. For a model without reactions, \<^verbatim>\<open>build_readable_flux_object\<close> on the table
  that \<^verbatim>\<open>run\<close> has read returns a dict, and the table built for that model has the
  columns cycle, x, y only, its rows being the first three fields of the model's raw
  rows. That table is the one under the model's id when no later model has this id.
\<close>

theorem empty_reaction_list_table:
  assumes "max_rows models = Inr n" and "read_csv_range lines n = Inr raw"
    and "i < length models" and "REACTION_NAMES (models ! i) = []"
  shows "\<exists>d. build_readable_flux_object raw models = Inr d
           \<and> flux_sub_df raw (models ! i) (i + 1)
               = Inr \<lparr>columns = [Name ''cycle'', Name ''x'', Name ''y''],
                      rows = map (take 3) (rows_of_model raw (i + 1))\<rparr>
           \<and> (model_id (models ! i) \<notin> set (map model_id (drop (Suc i) models)) \<longrightarrow>
                dict_get d (model_id (models ! i))
                  = Some \<lparr>columns = [Name ''cycle'', Name ''x'', Name ''y''],
                          rows = map (take 3) (rows_of_model raw (i + 1))\<rparr>)"
proof -
  obtain d where d: "build_readable_flux_object raw models = Inr d"
    using build_readable_table [OF assms(1,2)] by blast
  have t: "flux_table raw (models ! i) (i + 1)
           = \<lparr>columns = [Name ''cycle'', Name ''x'', Name ''y''],
              rows = map (take 3) (rows_of_model raw (i + 1))\<rparr>"
    by (simp add: flux_table_def assms(4) keep_fields_def)
  have sub: "flux_sub_df raw (models ! i) (i + 1) = Inr (flux_table raw (models ! i) (i + 1))"
    using assms(1,2,3) by (rule sub_df_of_model)
  have stored: "dict_get d (model_id (models ! i)) = Some (flux_table raw (models ! i) (i + 1))"
    if "model_id (models ! i) \<notin> set (map model_id (drop (Suc i) models))"
    using assms(1,2) d assms(3) that by (rule stored_under_last_id)
  show ?thesis
    using d sub stored unfolding t by blast
qed

theorem empty_reaction_list_table_witness:
  "build_readable_flux_object
     \<lparr>columns = map Pos [0, 1, 2, 3, 4, 5, 6],
      rows = [[Num 1, Num 1, Num 1, Num 1, NaN, NaN, NaN],
              [Num 1, Num 1, Num 1, Num 2, Num 10, Num 11, Num 12]]\<rparr>
     [model_E, model_A]
     = Inr [(''E'', \<lparr>columns = [Name ''cycle'', Name ''x'', Name ''y''],
                      rows = [[Num 1, Num 1, Num 1]]\<rparr>),
            (''A'', \<lparr>columns = map Name [''cycle'', ''x'', ''y'', ''a1'', ''a2'', ''a3''],
                      rows = [[Num 1, Num 1, Num 1, Num 10, Num 11, Num 12]]\<rparr>)]
   \<and> flux_sub_df
        \<lparr>columns = map Pos [0, 1, 2, 3, 4, 5, 6],
         rows = [[Num 1, Num 1, Num 1, Num 1, NaN, NaN, NaN],
                 [Num 1, Num 1, Num 1, Num 2, Num 10, Num 11, Num 12]]\<rparr>
        model_E 1
       = Inr \<lparr>columns = [Name ''cycle'', Name ''x'', Name ''y''],
              rows = [[Num 1, Num 1, Num 1]]\<rparr>
   \<and> dict_get
        [(''E'', \<lparr>columns = [Name ''cycle'', Name ''x'', Name ''y''],
                  rows = [[Num 1, Num 1, Num 1]]\<rparr>),
         (''A'', \<lparr>columns = map Name [''cycle'', ''x'', ''y'', ''a1'', ''a2'', ''a3''],
                  rows = [[Num 1, Num 1, Num 1, Num 10, Num 11, Num 12]]\<rparr>)]
        (model_id model_E)
       = Some \<lparr>columns = [Name ''cycle'', Name ''x'', Name ''y''],
               rows = [[Num 1, Num 1, Num 1]]\<rparr>"
proof -
  let ?raw = "\<lparr>columns = map Pos [0, 1, 2, 3, 4, 5, 6],
      rows = [[Num 1, Num 1, Num 1, Num 1, NaN, NaN, NaN],
              [Num 1, Num 1, Num 1, Num 2, Num 10, Num 11, Num 12]]\<rparr>"
  let ?TE = "\<lparr>columns = [Name ''cycle'', Name ''x'', Name ''y''],
              rows = [[Num 1, Num 1, Num 1]]\<rparr>"
  let ?D = "[(''E'', ?TE),
            (''A'', \<lparr>columns = map Name [''cycle'', ''x'', ''y'', ''a1'', ''a2'', ''a3''],
                      rows = [[Num 1, Num 1, Num 1, Num 10, Num 11, Num 12]]\<rparr>)]"
  have h1: "max_rows [model_E, model_A] = Inr 7"
    by (simp add: max_rows_def model_E_def model_A_def)
  have h2: "read_csv_range flux_lines_EA 7 = Inr ?raw"
    by code_simp
  have h3: "0 < length [model_E, model_A]" by simp
  have h4: "REACTION_NAMES ([model_E, model_A] ! 0) = []"
    by (simp add: model_E_def)
  have h5: "model_id model_E \<notin> set (map model_id (drop (Suc 0) [model_E, model_A]))"
    by (simp add: model_E_def model_A_def)
  have e1: "[model_E, model_A] ! 0 = model_E" by simp
  have e2: "map (take 3) (rows_of_model ?raw (0 + 1)) = [[Num 1, Num 1, Num 1]]"
    by code_simp
  have e3: "(0::nat) + 1 = 1" by simp
  have b: "build_readable_flux_object ?raw [model_E, model_A] = Inr ?D"
    by code_simp
  from empty_reaction_list_table [OF h1 h2 h3 h4, unfolded e1 e2] obtain d where
    d: "build_readable_flux_object ?raw [model_E, model_A] = Inr d"
    and sub: "flux_sub_df ?raw model_E (0 + 1) = Inr ?TE"
    and st: "model_id model_E \<notin> set (map model_id (drop (Suc 0) [model_E, model_A])) \<longrightarrow>
               dict_get d (model_id model_E) = Some ?TE"
    by blast
  have "d = ?D" using d b by simp
  with st h5 have "dict_get ?D (model_id model_E) = Some ?TE" by blast
  with b sub show ?thesis unfolding e3 by blast
qed

text \<open>
  Claim C10. When the model ids are distinct, \<^verbatim>\<open>build_readable_flux_object\<close> on the
  table that \<^verbatim>\<open>run\<close> has read returns a dict with one entry per model, in the order
  of the model list, the entry at position \<open>i\<close> being the id and the table of model
  \<open>i\<close>; a model without raw rows has an entry with a table without rows.
\<close>

theorem fluxes_by_species_entries:
  assumes "max_rows models = Inr n" and "read_csv_range lines n = Inr raw"
    and "distinct (map model_id models)"
  shows "\<exists>d. build_readable_flux_object raw models = Inr d
           \<and> map fst d = map model_id models
           \<and> (\<forall>i < length models.
                 d ! i = (model_id (models ! i), flux_table raw (models ! i) (i + 1)))
           \<and> (\<forall>i < length models. rows_of_model raw (i + 1) = [] \<longrightarrow>
                 dict_get d (model_id (models ! i))
                   = Some \<lparr>columns = map Name ([''cycle'', ''x'', ''y'']
                                               @ REACTION_NAMES (models ! i)),
                           rows = []\<rparr>)"
proof -
  let ?key = "\<lambda>i. model_id (models ! i)"
  let ?T = "\<lambda>i. flux_table raw (models ! i) (i + 1)"
  let ?d = "map (\<lambda>i. (?key i, ?T i)) [0..<length models]"
  have keys: "map ?key [0..<length models] = map model_id models"
    by (rule map_nth_upt)
  have "distinct (map fst ([] :: (string \<times> dataframe) list) @ map ?key [0..<length models])"
    using assms(3) by (simp only: keys list.map append_Nil)
  then have "foldl (\<lambda>d i. dict_set d (?key i) (?T i)) [] [0..<length models] = [] @ ?d"
    by (rule foldl_dict_set_distinct)
  then have d: "build_readable_flux_object raw models = Inr ?d"
    using build_readable_table [OF assms(1,2)] by simp
  have 1: "map fst ?d = map model_id models"
    using keys by (simp add: o_def)
  have 2: "?d ! i = (?key i, ?T i)" if "i < length models" for i
    using that by simp
  have 3: "dict_get ?d (?key i)
           = Some \<lparr>columns = map Name ([''cycle'', ''x'', ''y''] @ REACTION_NAMES (models ! i)),
                   rows = []\<rparr>"
    if "i < length models" "rows_of_model raw (i + 1) = []" for i
  proof -
    have "distinct (map fst ?d)" using assms(3) 1 by simp
    moreover have "(?key i, ?T i) \<in> set ?d" using that(1) by auto
    ultimately have "map_of ?d (?key i) = Some (?T i)" by (rule map_of_is_SomeI)
    then show ?thesis using that(2) by (simp add: dict_get_def flux_table_def)
  qed
  show ?thesis using d 1 2 3 by blast
qed

theorem fluxes_by_species_entries_witness:
  "build_readable_flux_object
     \<lparr>columns = map Pos [0, 1, 2, 3, 4, 5, 6, 7, 8], rows = flux_lines_B_only\<rparr>
     [model_A, model_B]
     = Inr [(''A'', \<lparr>columns = map Name [''cycle'', ''x'', ''y'', ''a1'', ''a2'', ''a3''],
                      rows = []\<rparr>),
            (''B'', \<lparr>columns = map Name [''cycle'', ''x'', ''y'', ''b1'', ''b2'', ''b3'', ''b4'', ''b5''],
                      rows = [[Num 1, Num 1, Num 1, Num 20, Num 21, Num 22, Num 23, Num 24]]\<rparr>)]
   \<and> dict_get
        [(''A'', \<lparr>columns = map Name [''cycle'', ''x'', ''y'', ''a1'', ''a2'', ''a3''],
                  rows = []\<rparr>),
         (''B'', \<lparr>columns = map Name [''cycle'', ''x'', ''y'', ''b1'', ''b2'', ''b3'', ''b4'', ''b5''],
                  rows = [[Num 1, Num 1, Num 1, Num 20, Num 21, Num 22, Num 23, Num 24]]\<rparr>)]
        (model_id ([model_A, model_B] ! 0))
       = Some \<lparr>columns = map Name ([''cycle'', ''x'', ''y'']
                                   @ REACTION_NAMES ([model_A, model_B] ! 0)),
               rows = []\<rparr>"
proof -
  let ?raw = "\<lparr>columns = map Pos [0, 1, 2, 3, 4, 5, 6, 7, 8], rows = flux_lines_B_only\<rparr>"
  let ?D = "[(''A'', \<lparr>columns = map Name [''cycle'', ''x'', ''y'', ''a1'', ''a2'', ''a3''],
                      rows = []\<rparr>),
            (''B'', \<lparr>columns = map Name [''cycle'', ''x'', ''y'', ''b1'', ''b2'', ''b3'', ''b4'', ''b5''],
                      rows = [[Num 1, Num 1, Num 1, Num 20, Num 21, Num 22, Num 23, Num 24]]\<rparr>)]"
  have h1: "max_rows [model_A, model_B] = Inr 9"
    by (simp add: max_rows_def model_A_def model_B_def)
  have h2: "read_csv_range flux_lines_B_only 9 = Inr ?raw"
    by code_simp
  have h3: "distinct (map model_id [model_A, model_B])"
    by (simp add: model_A_def model_B_def)
  have h4: "0 < length [model_A, model_B]" by simp
  have h5: "rows_of_model ?raw (0 + 1) = []"
    by code_simp
  have b: "build_readable_flux_object ?raw [model_A, model_B] = Inr ?D"
    by code_simp
  from fluxes_by_species_entries [OF h1 h2 h3] obtain d where
    d: "build_readable_flux_object ?raw [model_A, model_B] = Inr d"
    and z: "\<forall>i < length [model_A, model_B]. rows_of_model ?raw (i + 1) = [] \<longrightarrow>
                 dict_get d (model_id ([model_A, model_B] ! i))
                   = Some \<lparr>columns = map Name ([''cycle'', ''x'', ''y'']
                                               @ REACTION_NAMES ([model_A, model_B] ! i)),
                           rows = []\<rparr>"
    by blast
  have "d = ?D" using d b by simp
  with z h4 h5 have "dict_get ?D (model_id ([model_A, model_B] ! 0))
                   = Some \<lparr>columns = map Name ([''cycle'', ''x'', ''y'']
                                               @ REACTION_NAMES ([model_A, model_B] ! 0)),
                           rows = []\<rparr>"
    by blast
  with b show ?thesis by blast
qed

section \<open>Images: the loops\<close>

lemma and_then_Inl [simp]: "and_then (Inl e) f = Inl e"
  by (simp add: and_then_def)

lemma and_then_Inr [simp]: "and_then (Inr v) f = f v"
  by (simp add: and_then_def)

lemma and_then_eq_Inl:
  "and_then r f = Inl e \<longleftrightarrow> r = Inl e \<or> (\<exists>v. r = Inr v \<and> f v = Inl e)"
  by (cases r) simp_all

lemma and_then_eq_Inr:
  "and_then r f = Inr w \<longleftrightarrow> (\<exists>v. r = Inr v \<and> f v = Inr w)"
  by (cases r) simp_all

lemma np_index_less: "np_index n i = Inr k \<Longrightarrow> k < n"
  by (auto simp: np_index_def split: if_splits)

lemma np_setitem_shape:
  assumes "np_setitem im a b v = Inr im'"
  shows "map length im' = map length im"
proof -
  from assms obtain i j w where
    i: "np_index (length im) a = Inr i" and im': "im' = im[i := (im ! i)[j := w]]"
    by (auto simp: np_setitem_def and_then_eq_Inr)
  have "i < length im" using i by (rule np_index_less)
  then show ?thesis
    unfolding im' by (simp add: map_update list_update_same_conv)
qed

lemma fill_media_shape:
  "fill_media im aux = Inr im' \<Longrightarrow> map length im' = map length im"
proof (induction aux arbitrary: im)
  case Nil
  then show ?case by simp
next
  case (Cons row aux)
  from Cons.prems obtain a b im1 where
    s: "np_setitem im a b (Inr (conc_mmol row)) = Inr im1" and r: "fill_media im1 aux = Inr im'"
    by (auto simp: and_then_eq_Inr)
  from Cons.IH [OF r] np_setitem_shape [OF s] show ?case by simp
qed

lemma np_zeros_shape: "map length (np_zeros shape) = replicate (fst shape) (snd shape)"
  by (simp add: np_zeros_def)

lemma shape_of_map_length:
  assumes "map length im = replicate r c"
  shows "length im = r" and "\<forall>row \<in> set im. length row = c"
proof -
  show "length im = r" using assms by (metis length_map length_replicate)
  have "set (map length im) \<subseteq> {c}" unfolding assms by auto
  then show "\<forall>row \<in> set im. length row = c" by auto
qed

lemma grid_coordinate_iff:
  "grid_coordinate n v \<longleftrightarrow> (\<exists>i. 1 \<le> i \<and> i \<le> n \<and> v = Num (real i))"
  by (auto simp: grid_coordinate_def)

lemma py_int_coordinate:
  assumes "1 \<le> i"
  shows "py_int (minus_one (Num (real i))) = Inr (int i - 1)"
proof -
  have "real i - 1 = of_int (int i - 1)" by simp
  then have "\<lfloor>real i - 1\<rfloor> = int i - 1" by (simp only: floor_of_int)
  moreover have "0 \<le> real i - 1" using assms by simp
  ultimately show ?thesis by (simp add: py_int_def minus_one_def)
qed

lemma np_index_coordinate:
  assumes "1 \<le> i" and "i \<le> n"
  shows "np_index n (int i - 1) = Inr (i - 1)"
  using assms by (auto simp: np_index_def nat_diff_distrib)

lemma assign_coordinate:
  assumes "1 \<le> i" "i \<le> length im" "1 \<le> j" "j \<le> length (im ! (i - 1))"
  shows "np_setitem im (int i - 1) (int j - 1) (Inr v)
         = Inr (im[i - 1 := (im ! (i - 1))[j - 1 := v]])"
  using assms by (simp add: np_setitem_def np_index_coordinate)

lemma image_as_map:
  assumes "map length im = replicate r c"
  shows "map (\<lambda>a. map (\<lambda>b. im ! a ! b) [0..<c]) [0..<r] = im"
proof (rule nth_equalityI)
  show len: "length (map (\<lambda>a. map (\<lambda>b. im ! a ! b) [0..<c]) [0..<r]) = length im"
    using shape_of_map_length(1) [OF assms] by simp
  fix a assume "a < length (map (\<lambda>a. map (\<lambda>b. im ! a ! b) [0..<c]) [0..<r])"
  then have a: "a < r" by simp
  then have "im ! a \<in> set im" using len by simp
  then have "length (im ! a) = c" using shape_of_map_length(2) [OF assms] by blast
  then have "map (\<lambda>b. im ! a ! b) [0..<c] = im ! a"
    by (intro nth_equalityI) simp_all
  then show "map (\<lambda>a. map (\<lambda>b. im ! a ! b) [0..<c]) [0..<r] ! a = im ! a"
    using a by simp
qed

lemma record_at_Cons:
  "record_at (t # recs) a b =
     (case record_at recs a b of
        Some w \<Rightarrow> Some w
      | None \<Rightarrow> if (fst t, fst (snd t)) = (Num (real (a + 1)), Num (real (b + 1)))
                then Some (snd (snd t)) else None)"
  by (auto simp: record_at_def map_add_def split: option.splits)

lemma write_records_image:
  assumes "map length im = replicate r c"
    and "\<forall>t \<in> set recs. grid_coordinate r (fst t) \<and> grid_coordinate c (fst (snd t))"
  shows "write_records im recs
         = Inr (map (\<lambda>a. map (\<lambda>b. case record_at recs a b of None \<Rightarrow> im ! a ! b | Some v \<Rightarrow> v)
                          [0..<c]) [0..<r])"
  using assms
proof (induction recs arbitrary: im)
  case Nil
  then show ?case by (simp add: record_at_def image_as_map)
next
  case (Cons t recs)
  from Cons.prems(2) obtain i j where
    i: "1 \<le> i" "i \<le> r" "fst t = Num (real i)" and j: "1 \<le> j" "j \<le> c" "fst (snd t) = Num (real j)"
    by (auto simp: grid_coordinate_iff)
  let ?v = "snd (snd t)"
  let ?im1 = "im[i - 1 := (im ! (i - 1))[j - 1 := ?v]]"
  have len: "length im = r" and rows: "\<forall>row \<in> set im. length row = c"
    using shape_of_map_length [OF Cons.prems(1)] by simp_all
  have rowlen: "length (im ! (i - 1)) = c"
    using rows i len by simp
  have set1: "np_setitem im (int i - 1) (int j - 1) (Inr ?v) = Inr ?im1"
    using i j len rowlen by (intro assign_coordinate) simp_all
  have shape1: "map length ?im1 = replicate r c"
    using np_setitem_shape [OF set1] Cons.prems(1) by simp
  have step: "write_records im (t # recs) = write_records ?im1 recs"
    using i j by (simp add: py_int_coordinate set1)
  have ih: "write_records ?im1 recs
         = Inr (map (\<lambda>a. map (\<lambda>b. case record_at recs a b of None \<Rightarrow> ?im1 ! a ! b | Some v \<Rightarrow> v)
                          [0..<c]) [0..<r])"
    using shape1 Cons.prems(2) by (intro Cons.IH) simp_all
  have cell: "(case record_at recs a b of None \<Rightarrow> ?im1 ! a ! b | Some v \<Rightarrow> v)
              = (case record_at (t # recs) a b of None \<Rightarrow> im ! a ! b | Some v \<Rightarrow> v)"
    if "a < r" "b < c" for a b
  proof (cases "record_at recs a b")
    case (Some w)
    then show ?thesis by (simp add: record_at_Cons)
  next
    case None
    have key: "(fst t, fst (snd t)) = (Num (real (a + 1)), Num (real (b + 1)))
               \<longleftrightarrow> a = i - 1 \<and> b = j - 1"
      using i j by (auto simp: of_nat_eq_iff [symmetric] simp del: of_nat_eq_iff of_nat_Suc)
    have upd: "?im1 ! a ! b = (if a = i - 1 \<and> b = j - 1 then ?v else im ! a ! b)"
      using that len rowlen i j by (auto simp: nth_list_update)
    show ?thesis
      unfolding record_at_Cons None option.case key upd by simp
  qed
  have "map (\<lambda>a. map (\<lambda>b. case record_at recs a b of None \<Rightarrow> ?im1 ! a ! b | Some v \<Rightarrow> v)
                          [0..<c]) [0..<r]
        = map (\<lambda>a. map (\<lambda>b. case record_at (t # recs) a b of None \<Rightarrow> im ! a ! b | Some v \<Rightarrow> v)
                          [0..<c]) [0..<r]"
    using cell by (intro map_cong refl) simp_all
  with step ih show ?case by simp
qed

lemma write_records_zeros:
  assumes "\<forall>t \<in> set recs. grid_coordinate (fst shape) (fst t)
                            \<and> grid_coordinate (snd shape) (fst (snd t))"
  shows "write_records (np_zeros shape) recs = Inr (written_image shape recs)"
proof -
  have z: "np_zeros shape ! a ! b = Num 0" if "a < fst shape" "b < snd shape" for a b
    using that by (simp add: np_zeros_def)
  have "map (\<lambda>a. map (\<lambda>b. case record_at recs a b of None \<Rightarrow> np_zeros shape ! a ! b | Some v \<Rightarrow> v)
                          [0..<snd shape]) [0..<fst shape]
        = written_image shape recs"
    unfolding written_image_def using z
    by (intro map_cong refl) (simp_all split: option.splits)
  with write_records_image [OF np_zeros_shape assms] show ?thesis by simp
qed

lemma fill_media_records:
  "fill_media im aux
   = write_records im (map (\<lambda>row. (med_x row, med_y row, conc_mmol row)) aux)"
  by (induction aux arbitrary: im) simp_all


lemma fill_flux_records:
  assumes "positions cols (Name reaction_id) = [pr]"
    and "positions cols (Name ''x'') = [px]"
    and "positions cols (Name ''y'') = [py]"
  shows "fill_flux im cols reaction_id aux
         = write_records im (map (\<lambda>row. (row ! px, row ! py, row ! pr)) aux)"
  using assms
  by (induction aux arbitrary: im)
     (simp_all add: series_getitem_def coordinate_def np_float_item_def)

lemma written_image_nth:
  assumes "a < fst shape" and "b < snd shape"
  shows "written_image shape recs ! a ! b
         = (case record_at recs a b of None \<Rightarrow> Num 0 | Some v \<Rightarrow> v)"
  using assms by (simp add: written_image_def)

lemma record_at_distinct:
  assumes "distinct (map (\<lambda>t. (fst t, fst (snd t))) recs)"
    and "(Num (real (a + 1)), Num (real (b + 1)), v) \<in> set recs"
  shows "record_at recs a b = Some v"
proof -
  let ?kv = "map (\<lambda>t. ((fst t, fst (snd t)), snd (snd t))) recs"
  have "map fst (rev ?kv) = rev (map (\<lambda>t. (fst t, fst (snd t))) recs)"
    by (simp add: rev_map o_def)
  then have "distinct (map fst (rev ?kv))"
    using assms(1) by simp
  moreover have "((Num (real (a + 1)), Num (real (b + 1))), v) \<in> set (rev ?kv)"
    using assms(2) by force
  ultimately show ?thesis
    unfolding record_at_def by (rule map_of_is_SomeI)
qed

lemma record_at_None:
  assumes "\<forall>t \<in> set recs. (fst t, fst (snd t)) \<noteq> (Num (real (a + 1)), Num (real (b + 1)))"
  shows "record_at recs a b = None"
  unfolding record_at_def map_of_eq_None_iff using assms by force

lemma metabolite_image_written:
  assumes "writeMediaLog self" and "met \<in> set (layout_media_metabolite self)"
    and "media self = Some tbl" and "Num cyc \<in> set (map med_cycle tbl)"
    and "\<forall>row \<in> set tbl. med_cycle row = Num cyc \<and> metabolite row = met \<longrightarrow>
           grid_coordinate (fst (layout_grid self)) (med_x row)
           \<and> grid_coordinate (snd (layout_grid self)) (med_y row)"
  shows "get_metabolite_image self met cyc
         = Inr (written_image (layout_grid self)
                  (map (\<lambda>row. (med_x row, med_y row, conc_mmol row))
                     (filter (\<lambda>row. med_cycle row = Num cyc \<and> metabolite row = met) tbl)))"
proof -
  let ?aux = "filter (\<lambda>row. med_cycle row = Num cyc \<and> metabolite row = met) tbl"
  let ?recs = "map (\<lambda>row. (med_x row, med_y row, conc_mmol row)) ?aux"
  have "\<forall>t \<in> set ?recs. grid_coordinate (fst (layout_grid self)) (fst t)
                          \<and> grid_coordinate (snd (layout_grid self)) (fst (snd t))"
    using assms(5) by auto
  then have "write_records (np_zeros (layout_grid self)) ?recs
             = Inr (written_image (layout_grid self) ?recs)"
    by (rule write_records_zeros)
  then show ?thesis
    using assms(1-4) by (simp add: get_metabolite_image_def getattr_def fill_media_records)
qed

lemma flux_image_written:
  assumes "writeFluxLog self" and "mid \<in> set (map model_id (layout_models self))"
    and "fluxes_by_species self = Some d" and "dict_get d mid = Some t"
    and cols: "columns t = map Name ([''cycle'', ''x'', ''y''] @ names)"
    and dist: "distinct ([''cycle'', ''x'', ''y''] @ names)"
    and k: "k < length names"
    and cyc: "Num cyc \<in> set (map (\<lambda>r. r ! 0) (rows t))"
    and coords: "\<forall>r \<in> set (rows t). r ! 0 = Num cyc \<longrightarrow>
           grid_coordinate (fst (layout_grid self)) (r ! 1)
           \<and> grid_coordinate (snd (layout_grid self)) (r ! 2)"
  shows "get_flux_image self mid (names ! k) cyc
         = Inr (written_image (layout_grid self)
                  (map (\<lambda>r. (r ! 1, r ! 2, r ! (3 + k)))
                     (filter (\<lambda>r. r ! 0 = Num cyc) (rows t))))"
proof -
  let ?aux = "filter (\<lambda>r. r ! 0 = Num cyc) (rows t)"
  let ?recs = "map (\<lambda>r. (r ! 1, r ! 2, r ! (3 + k))) ?aux"
  have d: "distinct (columns t)"
    unfolding cols using dist by (simp only: distinct_map) (simp add: inj_on_def)
  have len: "length (columns t) = 3 + length names"
    by (simp add: cols)
  have at: "columns t ! 0 = Name ''cycle''" "columns t ! 1 = Name ''x''"
    "columns t ! 2 = Name ''y''" "columns t ! (3 + k) = Name (names ! k)"
    using k by (simp_all add: cols nth_append)
  have lt: "0 < length (columns t)" "1 < length (columns t)" "2 < length (columns t)"
    "3 + k < length (columns t)"
    using len k by simp_all
  have p0: "positions (columns t) (Name ''cycle'') = [0]"
    using positions_distinct [OF d lt(1)] by (simp only: at)
  have p1: "positions (columns t) (Name ''x'') = [1]"
    using positions_distinct [OF d lt(2)] by (simp only: at)
  have p2: "positions (columns t) (Name ''y'') = [2]"
    using positions_distinct [OF d lt(3)] by (simp only: at)
  have pk: "positions (columns t) (Name (names ! k)) = [3 + k]"
    using positions_distinct [OF d lt(4)] by (simp only: at)
  have get: "getitem t (Name ''cycle'') = Inr (concat (map (\<lambda>r. [r ! 0]) (rows t)))"
    by (simp add: getitem_def p0)
  have mem: "Num cyc \<in> set (concat (map (\<lambda>r. [r ! 0]) (rows t)))"
    using cyc by auto
  have rid: "Name (names ! k) \<in> set (columns t)"
    using k by (simp add: cols)
  have loc: "loc_eq t (Name ''cycle'') (Num cyc) = Inr (t\<lparr>rows := ?aux\<rparr>)"
    by (simp add: loc_eq_def p0)
  have fill: "fill_flux (np_zeros (layout_grid self)) (columns t) (names ! k) ?aux
              = write_records (np_zeros (layout_grid self)) ?recs"
    using pk p1 p2 by (rule fill_flux_records)
  have "\<forall>t \<in> set ?recs. grid_coordinate (fst (layout_grid self)) (fst t)
                          \<and> grid_coordinate (snd (layout_grid self)) (fst (snd t))"
    using coords by auto
  then have "write_records (np_zeros (layout_grid self)) ?recs
             = Inr (written_image (layout_grid self) ?recs)"
    by (rule write_records_zeros)
  with fill have "fill_flux (np_zeros (layout_grid self)) (columns t) (names ! k) ?aux
                  = Inr (written_image (layout_grid self) ?recs)"
    by simp
  then show ?thesis
    using assms(1-4) mem rid
    by (simp add: get_flux_image_def getattr_def get loc)
qed

lemma py_int_not_OutOfGrid: "py_int v \<noteq> Inl OutOfGrid"
  by (simp add: py_int_def split: float64.splits)

lemma np_index_not_OutOfGrid: "np_index n i \<noteq> Inl OutOfGrid"
  by (simp add: np_index_def)

lemma np_setitem_not_OutOfGrid:
  "v \<noteq> Inl OutOfGrid \<Longrightarrow> np_setitem im a b v \<noteq> Inl OutOfGrid"
  by (auto simp: np_setitem_def and_then_eq_Inl np_index_not_OutOfGrid)

lemma fill_media_not_OutOfGrid: "fill_media im aux \<noteq> Inl OutOfGrid"
proof (induction aux arbitrary: im)
  case Nil
  show ?case by simp
next
  case (Cons row aux)
  have "np_setitem im a b (Inr (conc_mmol row)) \<noteq> Inl OutOfGrid" for a b
    by (rule np_setitem_not_OutOfGrid) simp
  then show ?case
    using Cons.IH by (auto simp: and_then_eq_Inl py_int_not_OutOfGrid)
qed

lemma fill_biomass_not_OutOfGrid: "fill_biomass im mid aux \<noteq> Inl OutOfGrid"
proof (induction aux arbitrary: im)
  case Nil
  show ?case by simp
next
  case (Cons row aux)
  have g: "biomass_getitem row mid \<noteq> Inl OutOfGrid"
    by (simp add: biomass_getitem_def)
  have "np_setitem im a b (np_float v) \<noteq> Inl OutOfGrid" for a b v
    by (rule np_setitem_not_OutOfGrid) (simp add: np_float_def split: cell.splits)
  then show ?case
    using Cons.IH g by (auto simp: and_then_eq_Inl py_int_not_OutOfGrid)
qed

lemma series_getitem_not_OutOfGrid: "series_getitem cols row l \<noteq> Inl OutOfGrid"
  by (simp add: series_getitem_def split: list.splits)

lemma coordinate_not_OutOfGrid: "coordinate it \<noteq> Inl OutOfGrid"
  by (simp add: coordinate_def py_int_not_OutOfGrid split: item.splits)

lemma fill_flux_not_OutOfGrid: "fill_flux im cols reaction_id aux \<noteq> Inl OutOfGrid"
proof (induction aux arbitrary: im)
  case Nil
  show ?case by simp
next
  case (Cons row aux)
  have "np_setitem im a b (np_float_item v) \<noteq> Inl OutOfGrid" for a b v
    by (rule np_setitem_not_OutOfGrid) (simp add: np_float_item_def split: item.splits)
  then show ?case
    using Cons.IH
    by (auto simp: and_then_eq_Inl series_getitem_not_OutOfGrid coordinate_not_OutOfGrid)
qed

lemma getattr_not_OutOfGrid: "getattr name a \<noteq> Inl OutOfGrid"
  by (simp add: getattr_def split: option.splits)

lemma getitem_not_OutOfGrid: "getitem df l \<noteq> Inl OutOfGrid"
  by (simp add: getitem_def split: list.splits)

lemma loc_eq_not_OutOfGrid: "loc_eq df l v \<noteq> Inl OutOfGrid"
  by (simp add: loc_eq_def split: list.splits)

lemma metabolite_image_not_OutOfGrid: "get_metabolite_image self met cyc \<noteq> Inl OutOfGrid"
  by (auto simp: get_metabolite_image_def and_then_eq_Inl getattr_not_OutOfGrid
      fill_media_not_OutOfGrid)

lemma biomass_image_not_OutOfGrid: "get_biomass_image self mid cyc \<noteq> Inl OutOfGrid"
  by (auto simp: get_biomass_image_def and_then_eq_Inl getattr_not_OutOfGrid
      fill_biomass_not_OutOfGrid)

lemma flux_image_not_OutOfGrid: "get_flux_image self mid reaction_id cyc \<noteq> Inl OutOfGrid"
  by (auto simp: get_flux_image_def and_then_eq_Inl getattr_not_OutOfGrid
      getitem_not_OutOfGrid loc_eq_not_OutOfGrid fill_flux_not_OutOfGrid
      split: option.splits)

lemma py_int_zero_coordinate: "py_int (minus_one (Num 0)) = Inr (- 1)"
  by (simp add: py_int_def minus_one_def ceiling_def)

lemma np_index_last: "0 < n \<Longrightarrow> np_index n (- 1) = Inr (n - 1)"
  by (auto simp: np_index_def nat_diff_distrib)

lemma metabolite_image_single:
  assumes "writeMediaLog self" and "met \<in> set (layout_media_metabolite self)"
    and "media self = Some tbl"
    and "filter (\<lambda>row. med_cycle row = Num cyc \<and> metabolite row = met) tbl = [row]"
  shows "get_metabolite_image self met cyc
         = and_then (py_int (minus_one (med_x row))) (\<lambda>a.
           and_then (py_int (minus_one (med_y row))) (\<lambda>b.
           np_setitem (np_zeros (layout_grid self)) a b (Inr (conc_mmol row))))"
proof -
  have "row \<in> set (filter (\<lambda>row. med_cycle row = Num cyc \<and> metabolite row = met) tbl)"
    by (simp add: assms(4))
  then have "Num cyc \<in> set (map med_cycle tbl)" by force
  then show ?thesis
    using assms by (simp add: get_metabolite_image_def getattr_def and_then_def
        split: sum.splits)
qed

subsection \<open>The checks before the loops\<close>

lemma validation_raises:
  shows "met \<notin> set (layout_media_metabolite self) \<Longrightarrow>
           get_metabolite_image self met cyc
           = (if writeMediaLog self
              then Inl (NameError (''met '' @ met @ '' is not in layout.media.metabolite''))
              else Inl (ValueError ''media log was not recorded during simulation''))"
    and "media self = Some tbl \<Longrightarrow> Num cyc \<notin> set (map med_cycle tbl) \<Longrightarrow>
           get_metabolite_image self met cyc
           = (if \<not> writeMediaLog self
              then Inl (ValueError ''media log was not recorded during simulation'')
              else if met \<notin> set (layout_media_metabolite self)
              then Inl (NameError (''met '' @ met @ '' is not in layout.media.metabolite''))
              else Inl (ValueError ''media was not saved at the desired cycle. try another.''))"
    and "mid \<notin> set (map model_id (layout_models self)) \<Longrightarrow>
           get_biomass_image self mid cyc
           = (if writeBiomassLog self
              then Inl (NameError (''model '' @ mid @ '' is not one of the model ids''))
              else Inl (ValueError ''biomass log was not recorded during simulation''))"
    and "biomass self = Some btbl \<Longrightarrow> Num cyc \<notin> set (map bio_cycle btbl) \<Longrightarrow>
           get_biomass_image self mid cyc
           = (if \<not> writeBiomassLog self
              then Inl (ValueError ''biomass log was not recorded during simulation'')
              else if mid \<notin> set (map model_id (layout_models self))
              then Inl (NameError (''model '' @ mid @ '' is not one of the model ids''))
              else Inl (ValueError ''biomass was not saved at the desired cycle. try another.''))"
    and "mid \<notin> set (map model_id (layout_models self)) \<Longrightarrow>
           get_flux_image self mid reaction_id cyc
           = (if writeFluxLog self
              then Inl (NameError (''model '' @ mid @ '' is not one of the model ids''))
              else Inl (ValueError ''flux log was not recorded during simulation''))"
    and "Name reaction_id \<notin> set (columns t) \<Longrightarrow> fluxes_by_species self = Some d \<Longrightarrow>
         dict_get d mid = Some t \<Longrightarrow>
           \<exists>e. get_flux_image self mid reaction_id cyc = Inl e"
    and "getitem t (Name ''cycle'') = Inr cycles \<Longrightarrow> Num cyc \<notin> set cycles \<Longrightarrow>
         fluxes_by_species self = Some d \<Longrightarrow> dict_get d mid = Some t \<Longrightarrow>
           \<exists>e. get_flux_image self mid reaction_id cyc = Inl e"
  by (auto simp: get_metabolite_image_def get_biomass_image_def get_flux_image_def
      getattr_def and_then_def split: sum.splits)

subsection \<open>Coordinates that wrap around\<close>

lemma wrapped_coordinate_iff:
  "wrapped_coordinate n v \<longleftrightarrow> 0 < n \<and> (\<exists>i. i \<le> n \<and> v = Num (real i))"
  by (auto simp: wrapped_coordinate_def)

lemma py_int_any_coordinate: "py_int (minus_one (Num (real i))) = Inr (int i - 1)"
proof -
  have "real i - 1 = of_int (int i - 1)" by simp
  then have f: "\<lfloor>real i - 1\<rfloor> = int i - 1" "\<lceil>real i - 1\<rceil> = int i - 1"
    by (simp_all only: floor_of_int ceiling_of_int)
  show ?thesis by (simp add: py_int_def minus_one_def f)
qed

lemma wrapped_index_real:
  "wrapped_index n (Num (real i)) = (i + n - 1) mod n"
  by (simp add: wrapped_index_def float_nat_def)

lemma np_index_wrapped:
  assumes "0 < n" and "i \<le> n"
  shows "np_index n (int i - 1) = Inr ((i + n - 1) mod n)"
proof (cases "i = 0")
  case True
  have "(0 + n - 1) mod n = n - 1" using assms(1) by simp
  moreover have "int 0 - 1 = - 1" by simp
  ultimately show ?thesis
    unfolding True using np_index_last [OF assms(1)] by (simp only:)
next
  case False
  then have i: "1 \<le> i" by simp
  have "i + n - 1 = n + (i - 1)" using i by arith
  moreover have "(n + (i - 1)) mod n = (i - 1) mod n" by (rule mod_add_self1)
  moreover have "(i - 1) mod n = i - 1" using assms(2) i by (intro mod_less) arith
  ultimately have "(i + n - 1) mod n = i - 1" by (simp only:)
  then show ?thesis
    using np_index_coordinate [OF i assms(2)] by (simp only:)
qed

lemma wrapped_record_at_Cons:
  "wrapped_record_at shape (t # recs) a b =
     (case wrapped_record_at shape recs a b of
        Some w \<Rightarrow> Some w
      | None \<Rightarrow> if (wrapped_index (fst shape) (fst t), wrapped_index (snd shape) (fst (snd t)))
                   = (a, b)
                then Some (snd (snd t)) else None)"
  by (auto simp: wrapped_record_at_def map_add_def split: option.splits)

lemma write_records_wrapped:
  assumes "map length im = replicate r c"
    and "\<forall>t \<in> set recs. wrapped_coordinate r (fst t) \<and> wrapped_coordinate c (fst (snd t))"
  shows "write_records im recs
         = Inr (map (\<lambda>a. map (\<lambda>b. case wrapped_record_at (r, c) recs a b of
                                      None \<Rightarrow> im ! a ! b | Some v \<Rightarrow> v)
                          [0..<c]) [0..<r])"
  using assms
proof (induction recs arbitrary: im)
  case Nil
  then show ?case by (simp add: wrapped_record_at_def image_as_map)
next
  case (Cons t recs)
  from Cons.prems(2) obtain i j where
    r: "0 < r" and i: "i \<le> r" "fst t = Num (real i)"
    and c: "0 < c" and j: "j \<le> c" "fst (snd t) = Num (real j)"
    by (auto simp: wrapped_coordinate_iff)
  let ?a = "(i + r - 1) mod r" and ?b = "(j + c - 1) mod c"
  let ?v = "snd (snd t)"
  let ?im1 = "im[?a := (im ! ?a)[?b := ?v]]"
  have len: "length im = r" and rows: "\<forall>row \<in> set im. length row = c"
    using shape_of_map_length [OF Cons.prems(1)] by simp_all
  have a: "?a < r" and b: "?b < c" using r c by simp_all
  have rowlen: "length (im ! ?a) = c"
    using rows a len by simp
  have ia: "np_index (length im) (int i - 1) = Inr ?a"
    unfolding len using r i(1) by (rule np_index_wrapped)
  have jb: "np_index (length (im ! ?a)) (int j - 1) = Inr ?b"
    unfolding rowlen using c j(1) by (rule np_index_wrapped)
  have set1: "np_setitem im (int i - 1) (int j - 1) (Inr ?v) = Inr ?im1"
    unfolding np_setitem_def ia and_then_Inr jb by simp
  have shape1: "map length ?im1 = replicate r c"
    using np_setitem_shape [OF set1] Cons.prems(1) by simp
  have step: "write_records im (t # recs) = write_records ?im1 recs"
    using i j by (simp add: py_int_any_coordinate set1)
  have ih: "write_records ?im1 recs
         = Inr (map (\<lambda>a. map (\<lambda>b. case wrapped_record_at (r, c) recs a b of
                                      None \<Rightarrow> ?im1 ! a ! b | Some v \<Rightarrow> v)
                          [0..<c]) [0..<r])"
    using shape1 Cons.prems(2) by (intro Cons.IH) simp_all
  have key: "(wrapped_index (fst (r, c)) (fst t), wrapped_index (snd (r, c)) (fst (snd t)))
             = (?a, ?b)"
    by (simp add: i j wrapped_index_real)
  have cell: "(case wrapped_record_at (r, c) recs a' b' of None \<Rightarrow> ?im1 ! a' ! b' | Some v \<Rightarrow> v)
              = (case wrapped_record_at (r, c) (t # recs) a' b' of
                   None \<Rightarrow> im ! a' ! b' | Some v \<Rightarrow> v)"
    if "a' < r" "b' < c" for a' b'
  proof (cases "wrapped_record_at (r, c) recs a' b'")
    case (Some w)
    then show ?thesis by (simp add: wrapped_record_at_Cons)
  next
    case None
    have upd: "?im1 ! a' ! b' = (if (?a, ?b) = (a', b') then ?v else im ! a' ! b')"
      using that len rowlen a b by (auto simp: nth_list_update)
    show ?thesis
      unfolding wrapped_record_at_Cons None option.case key upd by simp
  qed
  have "map (\<lambda>a. map (\<lambda>b. case wrapped_record_at (r, c) recs a b of
                             None \<Rightarrow> ?im1 ! a ! b | Some v \<Rightarrow> v) [0..<c]) [0..<r]
        = map (\<lambda>a. map (\<lambda>b. case wrapped_record_at (r, c) (t # recs) a b of
                             None \<Rightarrow> im ! a ! b | Some v \<Rightarrow> v) [0..<c]) [0..<r]"
    using cell by (intro map_cong refl) simp_all
  with step ih show ?case by simp
qed

lemma write_records_wrapped_zeros:
  assumes "\<forall>t \<in> set recs. wrapped_coordinate (fst shape) (fst t)
                            \<and> wrapped_coordinate (snd shape) (fst (snd t))"
  shows "write_records (np_zeros shape) recs = Inr (wrapped_image shape recs)"
proof -
  have z: "np_zeros shape ! a ! b = Num 0" if "a < fst shape" "b < snd shape" for a b
    using that by (simp add: np_zeros_def)
  have "map (\<lambda>a. map (\<lambda>b. case wrapped_record_at (fst shape, snd shape) recs a b of
                             None \<Rightarrow> np_zeros shape ! a ! b | Some v \<Rightarrow> v)
                          [0..<snd shape]) [0..<fst shape]
        = wrapped_image shape recs"
    unfolding wrapped_image_def using z
    by (intro map_cong refl) (simp_all split: option.splits)
  with write_records_wrapped [OF np_zeros_shape assms] show ?thesis by simp
qed

lemma fill_biomass_records:
  assumes "mid \<in> {''cycle'', ''x'', ''y'', ''biomass''}"
  shows "fill_biomass im mid aux
         = write_records im (map (\<lambda>row. (bio_x row, bio_y row, biomass_field mid row)) aux)"
  using assms
  by (induction aux arbitrary: im) (auto simp: biomass_getitem_def np_float_def)

lemma wrapped_image_nth:
  assumes "a < fst shape" and "b < snd shape"
  shows "wrapped_image shape recs ! a ! b
         = (case wrapped_record_at shape recs a b of None \<Rightarrow> Num 0 | Some v \<Rightarrow> v)"
  using assms by (simp add: wrapped_image_def)

lemma wrapped_record_at_distinct:
  assumes "distinct (map (\<lambda>t. (wrapped_index (fst shape) (fst t),
                                 wrapped_index (snd shape) (fst (snd t)))) recs)"
    and "(xv, yv, v) \<in> set recs"
    and "wrapped_index (fst shape) xv = a" and "wrapped_index (snd shape) yv = b"
  shows "wrapped_record_at shape recs a b = Some v"
proof -
  let ?kv = "map (\<lambda>t. ((wrapped_index (fst shape) (fst t),
                         wrapped_index (snd shape) (fst (snd t))), snd (snd t))) recs"
  have "map fst (rev ?kv)
        = rev (map (\<lambda>t. (wrapped_index (fst shape) (fst t),
                             wrapped_index (snd shape) (fst (snd t)))) recs)"
    by (simp add: rev_map o_def)
  then have "distinct (map fst (rev ?kv))"
    using assms(1) by simp
  moreover have "((a, b), v) \<in> set (rev ?kv)"
    using assms(2,3,4) by force
  ultimately show ?thesis
    unfolding wrapped_record_at_def by (rule map_of_is_SomeI)
qed

lemma wrapped_index_zero: "0 < n \<Longrightarrow> wrapped_index n (Num 0) = n - 1"
  by (simp add: wrapped_index_def float_nat_def)

lemma wrapped_index_inside:
  assumes "1 \<le> i" and "i \<le> n"
  shows "wrapped_index n (Num (real i)) = i - 1"
proof -
  have "i + n - 1 = n + (i - 1)" using assms(1) by arith
  moreover have "(n + (i - 1)) mod n = (i - 1) mod n" by (rule mod_add_self1)
  moreover have "(i - 1) mod n = i - 1" using assms by (intro mod_less) arith
  ultimately show ?thesis by (simp only: wrapped_index_real)
qed

lemma metabolite_image_wrapped:
  assumes "writeMediaLog self" and "met \<in> set (layout_media_metabolite self)"
    and "media self = Some tbl" and "Num cyc \<in> set (map med_cycle tbl)"
    and "\<forall>row \<in> set tbl. med_cycle row = Num cyc \<and> metabolite row = met \<longrightarrow>
           wrapped_coordinate (fst (layout_grid self)) (med_x row)
           \<and> wrapped_coordinate (snd (layout_grid self)) (med_y row)"
  shows "get_metabolite_image self met cyc
         = Inr (wrapped_image (layout_grid self)
                  (map (\<lambda>row. (med_x row, med_y row, conc_mmol row))
                     (filter (\<lambda>row. med_cycle row = Num cyc \<and> metabolite row = met) tbl)))"
proof -
  let ?aux = "filter (\<lambda>row. med_cycle row = Num cyc \<and> metabolite row = met) tbl"
  let ?recs = "map (\<lambda>row. (med_x row, med_y row, conc_mmol row)) ?aux"
  have "\<forall>t \<in> set ?recs. wrapped_coordinate (fst (layout_grid self)) (fst t)
                          \<and> wrapped_coordinate (snd (layout_grid self)) (fst (snd t))"
    using assms(5) by auto
  then have "write_records (np_zeros (layout_grid self)) ?recs
             = Inr (wrapped_image (layout_grid self) ?recs)"
    by (rule write_records_wrapped_zeros)
  then show ?thesis
    using assms(1-4) by (simp add: get_metabolite_image_def getattr_def fill_media_records)
qed

lemma biomass_image_wrapped:
  assumes "writeBiomassLog self" and "mid \<in> set (map model_id (layout_models self))"
    and "mid \<in> {''cycle'', ''x'', ''y'', ''biomass''}"
    and "biomass self = Some tbl" and "Num cyc \<in> set (map bio_cycle tbl)"
    and "\<forall>row \<in> set tbl. bio_cycle row = Num cyc \<longrightarrow>
           wrapped_coordinate (fst (layout_grid self)) (bio_x row)
           \<and> wrapped_coordinate (snd (layout_grid self)) (bio_y row)"
  shows "get_biomass_image self mid cyc
         = Inr (wrapped_image (layout_grid self)
                  (map (\<lambda>row. (bio_x row, bio_y row, biomass_field mid row))
                     (filter (\<lambda>row. bio_cycle row = Num cyc) tbl)))"
proof -
  let ?aux = "filter (\<lambda>row. bio_cycle row = Num cyc) tbl"
  let ?recs = "map (\<lambda>row. (bio_x row, bio_y row, biomass_field mid row)) ?aux"
  have "\<forall>t \<in> set ?recs. wrapped_coordinate (fst (layout_grid self)) (fst t)
                          \<and> wrapped_coordinate (snd (layout_grid self)) (fst (snd t))"
    using assms(6) by auto
  then have "write_records (np_zeros (layout_grid self)) ?recs
             = Inr (wrapped_image (layout_grid self) ?recs)"
    by (rule write_records_wrapped_zeros)
  then show ?thesis
    using assms(1,2,4,5) fill_biomass_records [OF assms(3)]
    by (simp add: get_biomass_image_def getattr_def)
qed

lemma flux_image_wrapped:
  assumes "writeFluxLog self" and "mid \<in> set (map model_id (layout_models self))"
    and "fluxes_by_species self = Some d" and "dict_get d mid = Some t"
    and cols: "columns t = map Name ([''cycle'', ''x'', ''y''] @ names)"
    and dist: "distinct ([''cycle'', ''x'', ''y''] @ names)"
    and k: "k < length names"
    and cyc: "Num cyc \<in> set (map (\<lambda>r. r ! 0) (rows t))"
    and coords: "\<forall>r \<in> set (rows t). r ! 0 = Num cyc \<longrightarrow>
           wrapped_coordinate (fst (layout_grid self)) (r ! 1)
           \<and> wrapped_coordinate (snd (layout_grid self)) (r ! 2)"
  shows "get_flux_image self mid (names ! k) cyc
         = Inr (wrapped_image (layout_grid self)
                  (map (\<lambda>r. (r ! 1, r ! 2, r ! (3 + k)))
                     (filter (\<lambda>r. r ! 0 = Num cyc) (rows t))))"
proof -
  let ?aux = "filter (\<lambda>r. r ! 0 = Num cyc) (rows t)"
  let ?recs = "map (\<lambda>r. (r ! 1, r ! 2, r ! (3 + k))) ?aux"
  have d: "distinct (columns t)"
    unfolding cols using dist by (simp only: distinct_map) (simp add: inj_on_def)
  have len: "length (columns t) = 3 + length names"
    by (simp add: cols)
  have at: "columns t ! 0 = Name ''cycle''" "columns t ! 1 = Name ''x''"
    "columns t ! 2 = Name ''y''" "columns t ! (3 + k) = Name (names ! k)"
    using k by (simp_all add: cols nth_append)
  have lt: "0 < length (columns t)" "1 < length (columns t)" "2 < length (columns t)"
    "3 + k < length (columns t)"
    using len k by simp_all
  have p0: "positions (columns t) (Name ''cycle'') = [0]"
    using positions_distinct [OF d lt(1)] by (simp only: at)
  have p1: "positions (columns t) (Name ''x'') = [1]"
    using positions_distinct [OF d lt(2)] by (simp only: at)
  have p2: "positions (columns t) (Name ''y'') = [2]"
    using positions_distinct [OF d lt(3)] by (simp only: at)
  have pk: "positions (columns t) (Name (names ! k)) = [3 + k]"
    using positions_distinct [OF d lt(4)] by (simp only: at)
  have get: "getitem t (Name ''cycle'') = Inr (concat (map (\<lambda>r. [r ! 0]) (rows t)))"
    by (simp add: getitem_def p0)
  have mem: "Num cyc \<in> set (concat (map (\<lambda>r. [r ! 0]) (rows t)))"
    using cyc by auto
  have rid: "Name (names ! k) \<in> set (columns t)"
    using k by (simp add: cols)
  have loc: "loc_eq t (Name ''cycle'') (Num cyc) = Inr (t\<lparr>rows := ?aux\<rparr>)"
    by (simp add: loc_eq_def p0)
  have fill: "fill_flux (np_zeros (layout_grid self)) (columns t) (names ! k) ?aux
              = write_records (np_zeros (layout_grid self)) ?recs"
    using pk p1 p2 by (rule fill_flux_records)
  have "\<forall>t \<in> set ?recs. wrapped_coordinate (fst (layout_grid self)) (fst t)
                          \<and> wrapped_coordinate (snd (layout_grid self)) (fst (snd t))"
    using coords by auto
  then have "write_records (np_zeros (layout_grid self)) ?recs
             = Inr (wrapped_image (layout_grid self) ?recs)"
    by (rule write_records_wrapped_zeros)
  with fill have "fill_flux (np_zeros (layout_grid self)) (columns t) (names ! k) ?aux
                  = Inr (wrapped_image (layout_grid self) ?recs)"
    by simp
  then show ?thesis
    using assms(1-4) mem rid
    by (simp add: get_flux_image_def getattr_def get loc)
qed

section \<open>Reading the logs: the steps\<close>

lemma run_read_output_steps:
  "\<not> failed \<Longrightarrow>
   run_read_output pd delete_files failed fs self
   = run_steps [read_total_biomass pd delete_files, read_flux pd delete_files,
                read_media pd delete_files, read_biomass pd delete_files,
                read_genotypes pd delete_files, read_specific_media pd delete_files]
       (fs, adjust_for_evolution self)"
  by (simp add: run_read_output_def Let_def and_then_def split: sum.splits)

lemma run_steps_fails:
  assumes "\<And>f st st'. f \<in> set steps \<Longrightarrow> Inv st \<Longrightarrow> f st = Inr st' \<Longrightarrow> Inv st'"
    and "f0 \<in> set steps"
    and "\<And>st. Inv st \<Longrightarrow> \<exists>e. f0 st = Inl e"
    and "Inv st0"
  shows "\<exists>e. run_steps steps st0 = Inl e"
  using assms
proof (induction steps arbitrary: st0)
  case Nil
  then show ?case by simp
next
  case (Cons f steps)
  show ?case
  proof (cases "f st0")
    case (Inl e)
    then show ?thesis by simp
  next
    case (Inr st1)
    have inv1: "Inv st1" using Cons.prems(1) [of f st0 st1] Cons.prems(4) Inr by simp
    have "f0 \<noteq> f" using Cons.prems(3) [OF Cons.prems(4)] Inr by auto
    then have in_rest: "f0 \<in> set steps" using Cons.prems(2) by simp
    have "\<exists>e. run_steps steps st1 = Inl e"
    proof (rule Cons.IH [OF _ in_rest _ inv1])
      fix g st st' assume "g \<in> set steps" "Inv st" "g st = Inr st'"
      then show "Inv st'" using Cons.prems(1) [of g st st'] by simp
    next
      fix st assume "Inv st"
      then show "\<exists>e. f0 st = Inl e" by (rule Cons.prems(3))
    qed
    then show ?thesis by (simp add: Inr)
  qed
qed

lemma cleanup_keeps:
  "cleanup delete_files fs path = Inr fs' \<Longrightarrow> fs p = None \<Longrightarrow> fs' p = None"
  by (auto simp: cleanup_def os_remove_def split: if_splits option.splits)

lemma readlines_file_missing: "fs p = None \<Longrightarrow> readlines_file fs p = Inl (FileNotFoundError p)"
  by (simp add: readlines_file_def)

lemma pd_read_csv_missing: "fs p = None \<Longrightarrow> pd_read_csv fs p parse = Inl (FileNotFoundError p)"
  by (simp add: pd_read_csv_def)

lemma read_total_biomass_keeps:
  "read_total_biomass pd delete_files st = Inr st' \<Longrightarrow> log_missing p self1 st
   \<Longrightarrow> log_missing p self1 st'"
  by (auto simp: read_total_biomass_def log_missing_def params_of_def Let_def and_then_eq_Inr
      split: if_splits dest: cleanup_keeps)

lemma read_flux_keeps:
  "read_flux pd delete_files st = Inr st' \<Longrightarrow> log_missing p self1 st
   \<Longrightarrow> log_missing p self1 st'"
  by (auto simp: read_flux_def log_missing_def params_of_def Let_def and_then_eq_Inr
      split: if_splits dest: cleanup_keeps)

lemma read_media_keeps:
  "read_media pd delete_files st = Inr st' \<Longrightarrow> log_missing p self1 st
   \<Longrightarrow> log_missing p self1 st'"
  by (auto simp: read_media_def log_missing_def params_of_def Let_def and_then_eq_Inr
      split: if_splits dest: cleanup_keeps)

lemma read_biomass_keeps:
  "read_biomass pd delete_files st = Inr st' \<Longrightarrow> log_missing p self1 st
   \<Longrightarrow> log_missing p self1 st'"
  by (auto simp: read_biomass_def log_missing_def params_of_def Let_def and_then_eq_Inr
      split: if_splits dest: cleanup_keeps)

lemma read_genotypes_keeps:
  "read_genotypes pd delete_files st = Inr st' \<Longrightarrow> log_missing p self1 st
   \<Longrightarrow> log_missing p self1 st'"
  by (auto simp: read_genotypes_def log_missing_def params_of_def Let_def and_then_eq_Inr
      split: if_splits dest: cleanup_keeps)

lemma read_specific_media_keeps:
  "read_specific_media pd delete_files st = Inr st' \<Longrightarrow> log_missing p self1 st
   \<Longrightarrow> log_missing p self1 st'"
  by (auto simp: read_specific_media_def log_missing_def params_of_def Let_def and_then_eq_Inr
      split: if_splits dest: cleanup_keeps)

lemmas read_keeps = read_total_biomass_keeps read_flux_keeps read_media_keeps
  read_biomass_keeps read_genotypes_keeps read_specific_media_keeps

lemma read_total_biomass_missing:
  "writeTotalBiomassLog (snd st) \<Longrightarrow> fst st (TotalBiomassLogName (snd st)) = None \<Longrightarrow>
   read_total_biomass pd delete_files st = Inl (FileNotFoundError (TotalBiomassLogName (snd st)))"
  by (simp add: read_total_biomass_def Let_def readlines_file_missing)

lemma read_flux_missing:
  "writeFluxLog (snd st) \<Longrightarrow> fst st (FluxLogName (snd st)) = None \<Longrightarrow>
   read_flux pd delete_files st
   = (case max_rows (layout_models (snd st)) of
        Inl e \<Rightarrow> Inl e
      | Inr n \<Rightarrow> Inl (FileNotFoundError (FluxLogName (snd st))))"
  by (simp add: read_flux_def Let_def pd_read_csv_missing and_then_def split: sum.splits)

lemma read_media_missing:
  "writeMediaLog (snd st) \<Longrightarrow> fst st (MediaLogName (snd st)) = None \<Longrightarrow>
   read_media pd delete_files st = Inl (FileNotFoundError (MediaLogName (snd st)))"
  by (simp add: read_media_def Let_def pd_read_csv_missing)

lemma read_biomass_missing:
  "writeBiomassLog (snd st) \<Longrightarrow> fst st (''biomass_log_'' @ hex_id (snd st)) = None \<Longrightarrow>
   read_biomass pd delete_files st
   = Inl (FileNotFoundError (''biomass_log_'' @ hex_id (snd st)))"
  by (simp add: read_biomass_def Let_def pd_read_csv_missing)

lemma read_genotypes_missing:
  "evolution (snd st) \<Longrightarrow> fst st (''GENOTYPES_biomass_log_'' @ hex_id (snd st)) = None \<Longrightarrow>
   read_genotypes pd delete_files st
   = Inl (FileNotFoundError (''GENOTYPES_biomass_log_'' @ hex_id (snd st)))"
  by (simp add: read_genotypes_def Let_def pd_read_csv_missing)

lemma read_specific_media_missing:
  "writeSpecificMediaLog (snd st) \<Longrightarrow> fst st (SpecificMediaLogName (snd st)) = None \<Longrightarrow>
   read_specific_media pd delete_files st
   = Inl (FileNotFoundError (SpecificMediaLogName (snd st)))"
  by (simp add: read_specific_media_def Let_def pd_read_csv_missing)

lemma log_missing_params:
  assumes "log_missing p self1 st"
  shows "fst st p = None"
    and "evolution (snd st) = evolution self1"
    and "writeTotalBiomassLog (snd st) = writeTotalBiomassLog self1"
    and "writeFluxLog (snd st) = writeFluxLog self1"
    and "writeMediaLog (snd st) = writeMediaLog self1"
    and "writeBiomassLog (snd st) = writeBiomassLog self1"
    and "writeSpecificMediaLog (snd st) = writeSpecificMediaLog self1"
    and "TotalBiomassLogName (snd st) = TotalBiomassLogName self1"
    and "FluxLogName (snd st) = FluxLogName self1"
    and "MediaLogName (snd st) = MediaLogName self1"
    and "SpecificMediaLogName (snd st) = SpecificMediaLogName self1"
    and "hex_id (snd st) = hex_id self1"
  using assms by (simp_all add: log_missing_def params_of_def)

lemma run_fails_on_missing_log:
  assumes "\<not> failed" and "p \<in> set (requested_logs (adjust_for_evolution self))"
    and "fs p = None"
  shows "\<exists>e. run_read_output pd delete_files failed fs self = Inl e"
proof -
  let ?self1 = "adjust_for_evolution self"
  let ?steps = "[read_total_biomass pd delete_files, read_flux pd delete_files,
                read_media pd delete_files, read_biomass pd delete_files,
                read_genotypes pd delete_files, read_specific_media pd delete_files]"
  have keeps: "log_missing p ?self1 st'"
    if "f \<in> set ?steps" "log_missing p ?self1 st" "f st = Inr st'" for f st st'
    using that by (auto dest: read_keeps)
  have inv0: "log_missing p ?self1 (fs, ?self1)"
    using assms(3) by (simp add: log_missing_def)
  from assms(2) consider
      (total) "writeTotalBiomassLog ?self1" "p = TotalBiomassLogName ?self1"
    | (flux) "writeFluxLog ?self1" "p = FluxLogName ?self1"
    | (media) "writeMediaLog ?self1" "p = MediaLogName ?self1"
    | (biomass) "writeBiomassLog ?self1" "p = ''biomass_log_'' @ hex_id ?self1"
    | (genotypes) "evolution ?self1" "p = ''GENOTYPES_biomass_log_'' @ hex_id ?self1"
    | (specific) "writeSpecificMediaLog ?self1" "p = SpecificMediaLogName ?self1"
    by (auto simp: requested_logs_def split: if_splits)
  then have "\<exists>f0 \<in> set ?steps. \<forall>st. log_missing p ?self1 st \<longrightarrow> (\<exists>e. f0 st = Inl e)"
  proof cases
    case total
    have "\<exists>e. read_total_biomass pd delete_files st = Inl e" if "log_missing p ?self1 st" for st
    proof -
      have "writeTotalBiomassLog (snd st)" "fst st (TotalBiomassLogName (snd st)) = None"
        using log_missing_params [OF that] total by simp_all
      from read_total_biomass_missing [OF this] show ?thesis by blast
    qed
    then show ?thesis by auto
  next
    case flux
    have "\<exists>e. read_flux pd delete_files st = Inl e" if "log_missing p ?self1 st" for st
    proof -
      have "writeFluxLog (snd st)" "fst st (FluxLogName (snd st)) = None"
        using log_missing_params [OF that] flux by simp_all
      from read_flux_missing [OF this] show ?thesis
        by (auto split: sum.splits)
    qed
    then show ?thesis by auto
  next
    case media
    have "\<exists>e. read_media pd delete_files st = Inl e" if "log_missing p ?self1 st" for st
    proof -
      have "writeMediaLog (snd st)" "fst st (MediaLogName (snd st)) = None"
        using log_missing_params [OF that] media by simp_all
      from read_media_missing [OF this] show ?thesis by blast
    qed
    then show ?thesis by auto
  next
    case biomass
    have "\<exists>e. read_biomass pd delete_files st = Inl e" if "log_missing p ?self1 st" for st
    proof -
      have "writeBiomassLog (snd st)" "fst st (''biomass_log_'' @ hex_id (snd st)) = None"
        using log_missing_params [OF that] biomass by simp_all
      from read_biomass_missing [OF this] show ?thesis by blast
    qed
    then show ?thesis by auto
  next
    case genotypes
    have "\<exists>e. read_genotypes pd delete_files st = Inl e" if "log_missing p ?self1 st" for st
    proof -
      have "evolution (snd st)" "fst st (''GENOTYPES_biomass_log_'' @ hex_id (snd st)) = None"
        using log_missing_params [OF that] genotypes by simp_all
      from read_genotypes_missing [OF this] show ?thesis by blast
    qed
    then show ?thesis by auto
  next
    case specific
    have "\<exists>e. read_specific_media pd delete_files st = Inl e" if "log_missing p ?self1 st" for st
    proof -
      have "writeSpecificMediaLog (snd st)" "fst st (SpecificMediaLogName (snd st)) = None"
        using log_missing_params [OF that] specific by simp_all
      from read_specific_media_missing [OF this] show ?thesis by blast
    qed
    then show ?thesis by auto
  qed
  then obtain f0 where f0: "f0 \<in> set ?steps"
    "\<And>st. log_missing p ?self1 st \<Longrightarrow> \<exists>e. f0 st = Inl e"
    by blast
  have "\<exists>e. run_steps ?steps (fs, ?self1) = Inl e"
    using keeps f0 inv0 by (rule run_steps_fails)
  then show ?thesis
    unfolding run_read_output_steps [OF assms(1)] .
qed


lemma read_skips:
  "\<not> writeTotalBiomassLog (snd st) \<Longrightarrow> read_total_biomass pd delete_files st = Inr st"
  "\<not> writeFluxLog (snd st) \<Longrightarrow> read_flux pd delete_files st = Inr st"
  "\<not> writeMediaLog (snd st) \<Longrightarrow> read_media pd delete_files st = Inr st"
  "\<not> writeBiomassLog (snd st) \<Longrightarrow> read_biomass pd delete_files st = Inr st"
  "\<not> evolution (snd st) \<Longrightarrow> read_genotypes pd delete_files st = Inr st"
  "\<not> writeSpecificMediaLog (snd st) \<Longrightarrow> read_specific_media pd delete_files st = Inr st"
  by (simp_all add: read_total_biomass_def read_flux_def read_media_def read_biomass_def
      read_genotypes_def read_specific_media_def Let_def)

lemma adjust_for_evolution_models [simp]:
  "layout_models (adjust_for_evolution self) = layout_models self"
  by (simp add: adjust_for_evolution_def)

lemma max_rows_Inr: "models \<noteq> [] \<Longrightarrow> \<exists>n. max_rows models = Inr n"
  using max_rows_eq by blast

lemma run_first_missing_log:
  assumes "\<not> failed" and req: "requested_logs (adjust_for_evolution self) = p # ps"
    and miss: "fs p = None" and models: "layout_models self \<noteq> []"
  shows "run_read_output pd delete_files failed fs self = Inl (FileNotFoundError p)"
proof -
  let ?self1 = "adjust_for_evolution self"
  let ?st = "(fs, ?self1)"
  obtain n where n: "max_rows (layout_models (snd ?st)) = Inr n"
    using max_rows_Inr [OF models] by auto
  have run: "run_read_output pd delete_files failed fs self
   = run_steps [read_total_biomass pd delete_files, read_flux pd delete_files,
                read_media pd delete_files, read_biomass pd delete_files,
                read_genotypes pd delete_files, read_specific_media pd delete_files] ?st"
    using assms(1) by (rule run_read_output_steps)
  consider
      (total) "writeTotalBiomassLog ?self1"
    | (flux) "\<not> writeTotalBiomassLog ?self1" "writeFluxLog ?self1"
    | (media) "\<not> writeTotalBiomassLog ?self1" "\<not> writeFluxLog ?self1" "writeMediaLog ?self1"
    | (biomass) "\<not> writeTotalBiomassLog ?self1" "\<not> writeFluxLog ?self1"
        "\<not> writeMediaLog ?self1" "writeBiomassLog ?self1"
    | (genotypes) "\<not> writeTotalBiomassLog ?self1" "\<not> writeFluxLog ?self1"
        "\<not> writeMediaLog ?self1" "\<not> writeBiomassLog ?self1" "evolution ?self1"
    | (specific) "\<not> writeTotalBiomassLog ?self1" "\<not> writeFluxLog ?self1"
        "\<not> writeMediaLog ?self1" "\<not> writeBiomassLog ?self1" "\<not> evolution ?self1"
        "writeSpecificMediaLog ?self1"
    | (none) "\<not> writeTotalBiomassLog ?self1" "\<not> writeFluxLog ?self1"
        "\<not> writeMediaLog ?self1" "\<not> writeBiomassLog ?self1" "\<not> evolution ?self1"
        "\<not> writeSpecificMediaLog ?self1"
    by blast
  then show ?thesis
  proof cases
    case total
    then have p: "p = TotalBiomassLogName (snd ?st)"
      using req by (simp add: requested_logs_def)
    have "read_total_biomass pd delete_files ?st = Inl (FileNotFoundError p)"
      unfolding p using total miss by (intro read_total_biomass_missing) (simp_all add: p)
    then show ?thesis unfolding run by simp
  next
    case flux
    then have p: "p = FluxLogName (snd ?st)"
      using req by (simp add: requested_logs_def)
    have "read_flux pd delete_files ?st = Inl (FileNotFoundError p)"
      using read_flux_missing [of ?st pd delete_files] flux miss n by (simp add: p)
    then show ?thesis unfolding run using flux by (simp add: read_skips)
  next
    case media
    then have p: "p = MediaLogName (snd ?st)"
      using req by (simp add: requested_logs_def)
    have "read_media pd delete_files ?st = Inl (FileNotFoundError p)"
      unfolding p using media miss by (intro read_media_missing) (simp_all add: p)
    then show ?thesis unfolding run using media by (simp add: read_skips)
  next
    case biomass
    then have p: "p = ''biomass_log_'' @ hex_id (snd ?st)"
      using req by (simp add: requested_logs_def)
    have "read_biomass pd delete_files ?st = Inl (FileNotFoundError p)"
      unfolding p using biomass miss by (intro read_biomass_missing) (simp_all add: p)
    then show ?thesis unfolding run using biomass by (simp add: read_skips)
  next
    case genotypes
    then have p: "p = ''GENOTYPES_biomass_log_'' @ hex_id (snd ?st)"
      using req by (simp add: requested_logs_def)
    have "read_genotypes pd delete_files ?st = Inl (FileNotFoundError p)"
      unfolding p using genotypes miss by (intro read_genotypes_missing) (simp_all add: p)
    then show ?thesis unfolding run using genotypes by (simp add: read_skips)
  next
    case specific
    then have p: "p = SpecificMediaLogName (snd ?st)"
      using req by (simp add: requested_logs_def)
    have "read_specific_media pd delete_files ?st = Inl (FileNotFoundError p)"
      unfolding p using specific miss by (intro read_specific_media_missing) (simp_all add: p)
    then show ?thesis unfolding run using specific by (simp add: read_skips)
  next
    case none
    then have "requested_logs ?self1 = []" by (simp add: requested_logs_def)
    with req show ?thesis by simp
  qed
qed

lemma not_isl_Inr: "\<not> isl r \<Longrightarrow> \<exists>v. r = Inr v"
  by (cases r) simp_all

section \<open>Grid reconstruction: the claims\<close>

text \<open>
  Claim C3. When the checks of \<^verbatim>\<open>get_metabolite_image\<close> pass and the records of the
  requested cycle and metabolite have 1-based coordinates inside the grid, the image is
  the one that these records describe; the same holds for \<^verbatim>\<open>get_flux_image\<close>, the
  records of the requested cycle and the column of the requested reaction, on a table
  with distinct column names. In that image the cell \<open>(a, b)\<close> holds the value of the
  last record with \<open>x = a + 1\<close> and \<open>y = b + 1\<close>: zero when no record has these
  coordinates, and the value of the record when no two records share coordinates. The
  record (cycle 3, x 2, y 5, value 7.5) gives an image whose only non-zero cell is
  row 1, column 4.
\<close>

theorem image_coordinates:
  "(writeMediaLog self \<and> met \<in> set (layout_media_metabolite self)
      \<and> media self = Some tbl \<and> Num cyc \<in> set (map med_cycle tbl)
      \<and> (\<forall>row \<in> set tbl. med_cycle row = Num cyc \<and> metabolite row = met \<longrightarrow>
             grid_coordinate (fst (layout_grid self)) (med_x row)
             \<and> grid_coordinate (snd (layout_grid self)) (med_y row))
    \<longrightarrow> get_metabolite_image self met cyc
         = Inr (written_image (layout_grid self)
                  (map (\<lambda>row. (med_x row, med_y row, conc_mmol row))
                     (filter (\<lambda>row. med_cycle row = Num cyc \<and> metabolite row = met) tbl))))
   \<and> (writeFluxLog self \<and> mid \<in> set (map model_id (layout_models self))
      \<and> fluxes_by_species self = Some d \<and> dict_get d mid = Some t
      \<and> columns t = map Name ([''cycle'', ''x'', ''y''] @ names)
      \<and> distinct ([''cycle'', ''x'', ''y''] @ names) \<and> rectangular t
      \<and> k < length names \<and> Num fcyc \<in> set (map (\<lambda>r. r ! 0) (rows t))
      \<and> (\<forall>r \<in> set (rows t). r ! 0 = Num fcyc \<longrightarrow>
             grid_coordinate (fst (layout_grid self)) (r ! 1)
             \<and> grid_coordinate (snd (layout_grid self)) (r ! 2))
    \<longrightarrow> get_flux_image self mid (names ! k) fcyc
         = Inr (written_image (layout_grid self)
                  (map (\<lambda>r. (r ! 1, r ! 2, r ! (3 + k)))
                     (filter (\<lambda>r. r ! 0 = Num fcyc) (rows t)))))
   \<and> (a < fst shape \<and> b < snd shape \<longrightarrow>
        written_image shape recs ! a ! b
          = (case record_at recs a b of None \<Rightarrow> Num 0 | Some v \<Rightarrow> v)
        \<and> ((\<forall>t \<in> set recs. (fst t, fst (snd t)) \<noteq> (Num (real (a + 1)), Num (real (b + 1))))
             \<longrightarrow> written_image shape recs ! a ! b = Num 0)
        \<and> (distinct (map (\<lambda>t. (fst t, fst (snd t))) recs)
             \<and> (Num (real (a + 1)), Num (real (b + 1)), v) \<in> set recs
             \<longrightarrow> written_image shape recs ! a ! b = v))"
proof (intro conjI impI)
  assume h: "writeMediaLog self \<and> met \<in> set (layout_media_metabolite self)
      \<and> media self = Some tbl \<and> Num cyc \<in> set (map med_cycle tbl)
      \<and> (\<forall>row \<in> set tbl. med_cycle row = Num cyc \<and> metabolite row = met \<longrightarrow>
             grid_coordinate (fst (layout_grid self)) (med_x row)
             \<and> grid_coordinate (snd (layout_grid self)) (med_y row))"
  then show "get_metabolite_image self met cyc
         = Inr (written_image (layout_grid self)
                  (map (\<lambda>row. (med_x row, med_y row, conc_mmol row))
                     (filter (\<lambda>row. med_cycle row = Num cyc \<and> metabolite row = met) tbl)))"
    by (intro metabolite_image_written) blast+
next
  assume h: "writeFluxLog self \<and> mid \<in> set (map model_id (layout_models self))
      \<and> fluxes_by_species self = Some d \<and> dict_get d mid = Some t
      \<and> columns t = map Name ([''cycle'', ''x'', ''y''] @ names)
      \<and> distinct ([''cycle'', ''x'', ''y''] @ names) \<and> rectangular t
      \<and> k < length names \<and> Num fcyc \<in> set (map (\<lambda>r. r ! 0) (rows t))
      \<and> (\<forall>r \<in> set (rows t). r ! 0 = Num fcyc \<longrightarrow>
             grid_coordinate (fst (layout_grid self)) (r ! 1)
             \<and> grid_coordinate (snd (layout_grid self)) (r ! 2))"
  then show "get_flux_image self mid (names ! k) fcyc
         = Inr (written_image (layout_grid self)
                  (map (\<lambda>r. (r ! 1, r ! 2, r ! (3 + k)))
                     (filter (\<lambda>r. r ! 0 = Num fcyc) (rows t))))"
    by (intro flux_image_written [where d = d]) blast+
next
  assume "a < fst shape \<and> b < snd shape"
  then show "written_image shape recs ! a ! b
          = (case record_at recs a b of None \<Rightarrow> Num 0 | Some v \<Rightarrow> v)"
    by (simp add: written_image_nth)
next
  assume ab: "a < fst shape \<and> b < snd shape"
    and "\<forall>t \<in> set recs. (fst t, fst (snd t)) \<noteq> (Num (real (a + 1)), Num (real (b + 1)))"
  then have "record_at recs a b = None" by (intro record_at_None)
  then show "written_image shape recs ! a ! b = Num 0"
    using ab by (simp add: written_image_nth)
next
  assume ab: "a < fst shape \<and> b < snd shape"
    and "distinct (map (\<lambda>t. (fst t, fst (snd t))) recs)
             \<and> (Num (real (a + 1)), Num (real (b + 1)), v) \<in> set recs"
  then have "record_at recs a b = Some v" by (intro record_at_distinct) blast+
  then show "written_image shape recs ! a ! b = v"
    using ab by (simp add: written_image_nth)
qed

theorem image_coordinates_witness:
  "get_metabolite_image comets_AB ''glucose'' 3
     = Inr (written_image (3, 6) [(Num 2, Num 5, Num 7.5)])
   \<and> get_flux_image comets_AB ''A'' ([''a1'', ''a2'', ''a3''] ! 1) 1
     = Inr (written_image (3, 6) [(Num 1, Num 1, Num 11)])
   \<and> written_image (3, 6) [(Num 2, Num 5, Num 7.5)] ! 1 ! 4 = Num 7.5
   \<and> written_image (3, 6) [(Num 2, Num 5, Num 7.5)] ! 0 ! 0 = Num 0
   \<and> written_image (3, 6) [(Num 2, Num 5, Num 7.5)]
     = [[Num 0, Num 0, Num 0, Num 0, Num 0, Num 0],
        [Num 0, Num 0, Num 0, Num 0, Num 7.5, Num 0],
        [Num 0, Num 0, Num 0, Num 0, Num 0, Num 0]]"
proof -
  let ?recs = "[(Num 2, Num 5, Num 7.5)]"
  have g: "layout_grid comets_AB = (3, 6)"
    by (simp add: comets_AB_def)
  have hm: "writeMediaLog comets_AB \<and> ''glucose'' \<in> set (layout_media_metabolite comets_AB)
      \<and> media comets_AB = Some media_log \<and> Num 3 \<in> set (map med_cycle media_log)
      \<and> (\<forall>row \<in> set media_log. med_cycle row = Num 3 \<and> metabolite row = ''glucose'' \<longrightarrow>
             grid_coordinate (fst (layout_grid comets_AB)) (med_x row)
             \<and> grid_coordinate (snd (layout_grid comets_AB)) (med_y row))"
    by code_simp
  have em: "map (\<lambda>row. (med_x row, med_y row, conc_mmol row))
              (filter (\<lambda>row. med_cycle row = Num 3 \<and> metabolite row = ''glucose'') media_log)
            = ?recs"
    by code_simp
  have hf: "writeFluxLog comets_AB \<and> ''A'' \<in> set (map model_id (layout_models comets_AB))
      \<and> fluxes_by_species comets_AB = Some [(''A'', table_A), (''B'', table_B)]
      \<and> dict_get [(''A'', table_A), (''B'', table_B)] ''A'' = Some table_A
      \<and> columns table_A = map Name ([''cycle'', ''x'', ''y''] @ [''a1'', ''a2'', ''a3''])
      \<and> distinct ([''cycle'', ''x'', ''y''] @ [''a1'', ''a2'', ''a3'']) \<and> rectangular table_A
      \<and> 1 < length [''a1'', ''a2'', ''a3''] \<and> Num 1 \<in> set (map (\<lambda>r. r ! 0) (rows table_A))
      \<and> (\<forall>r \<in> set (rows table_A). r ! 0 = Num 1 \<longrightarrow>
             grid_coordinate (fst (layout_grid comets_AB)) (r ! 1)
             \<and> grid_coordinate (snd (layout_grid comets_AB)) (r ! 2))"
    by code_simp
  have ef: "map (\<lambda>r. (r ! 1, r ! 2, r ! (3 + 1))) (filter (\<lambda>r. r ! 0 = Num 1) (rows table_A))
            = [(Num 1, Num 1, Num 11)]"
    by code_simp
  have hc: "1 < fst (3::nat, 6::nat) \<and> 4 < snd (3::nat, 6::nat)" by simp
  have hd: "distinct (map (\<lambda>t. (fst t, fst (snd t))) ?recs)
            \<and> (Num (real (1 + 1)), Num (real (4 + 1)), Num 7.5) \<in> set ?recs"
    by simp
  have hz: "0 < fst (3::nat, 6::nat) \<and> 0 < snd (3::nat, 6::nat)" by simp
  have hn: "\<forall>t \<in> set ?recs. (fst t, fst (snd t)) \<noteq> (Num (real (0 + 1)), Num (real (0 + 1)))"
    by simp
  note T = image_coordinates [where self = comets_AB and met = "''glucose''"
      and tbl = media_log and cyc = 3 and mid = "''A''"
      and d = "[(''A'', table_A), (''B'', table_B)]" and t = table_A
      and names = "[''a1'', ''a2'', ''a3'']" and k = 1 and fcyc = 1
      and shape = "(3, 6)" and recs = ?recs]
  have 1: "get_metabolite_image comets_AB ''glucose'' 3 = Inr (written_image (3, 6) ?recs)"
    using T [where a = 1 and b = 4 and v = "Num 7.5"] hm unfolding em g by blast
  have 2: "get_flux_image comets_AB ''A'' ([''a1'', ''a2'', ''a3''] ! 1) 1
           = Inr (written_image (3, 6) [(Num 1, Num 1, Num 11)])"
    using T [where a = 1 and b = 4 and v = "Num 7.5"] hf unfolding ef g by blast
  have 3: "written_image (3, 6) ?recs ! 1 ! 4 = Num 7.5"
    using T [where a = 1 and b = 4 and v = "Num 7.5"] hc hd by blast
  have 4: "written_image (3, 6) ?recs ! 0 ! 0 = Num 0"
    using T [where a = 0 and b = 0 and v = "Num 7.5"] hz hn by blast
  have 5: "written_image (3, 6) ?recs
     = [[Num 0, Num 0, Num 0, Num 0, Num 0, Num 0],
        [Num 0, Num 0, Num 0, Num 0, Num 7.5, Num 0],
        [Num 0, Num 0, Num 0, Num 0, Num 0, Num 0]]"
    by code_simp
  show ?thesis using 1 2 3 4 5 by blast
qed

text \<open>
  Claim C4. Every image that \<^verbatim>\<open>get_metabolite_image\<close> returns has the shape of the
  grid; the initial image has that shape with zero in every cell; and for a recorded
  cycle and a metabolite of the layout without any matching record the result is that
  initial image.
\<close>

theorem metabolite_image_zero_filled:
  shows "(\<forall>im. get_metabolite_image self met cyc = Inr im \<longrightarrow>
            length im = fst (layout_grid self)
            \<and> (\<forall>row \<in> set im. length row = snd (layout_grid self)))
       \<and> length (np_zeros (layout_grid self)) = fst (layout_grid self)
       \<and> (\<forall>row \<in> set (np_zeros (layout_grid self)).
             length row = snd (layout_grid self) \<and> (\<forall>v \<in> set row. v = Num 0))
       \<and> (writeMediaLog self \<and> met \<in> set (layout_media_metabolite self)
            \<and> media self = Some tbl \<and> Num cyc \<in> set (map med_cycle tbl)
            \<and> filter (\<lambda>row. med_cycle row = Num cyc \<and> metabolite row = met) tbl = []
          \<longrightarrow> get_metabolite_image self met cyc = Inr (np_zeros (layout_grid self)))"
proof -
  have 1: "length im = fst (layout_grid self)
            \<and> (\<forall>row \<in> set im. length row = snd (layout_grid self))"
    if "get_metabolite_image self met cyc = Inr im" for im
  proof -
    from that obtain aux where "fill_media (np_zeros (layout_grid self)) aux = Inr im"
      by (auto simp: get_metabolite_image_def and_then_eq_Inr split: if_splits)
    then have "map length im = replicate (fst (layout_grid self)) (snd (layout_grid self))"
      using fill_media_shape np_zeros_shape by metis
    then show ?thesis using shape_of_map_length by blast
  qed
  have 2: "length (np_zeros (layout_grid self)) = fst (layout_grid self)"
    by (simp add: np_zeros_def)
  have 3: "\<forall>row \<in> set (np_zeros (layout_grid self)).
             length row = snd (layout_grid self) \<and> (\<forall>v \<in> set row. v = Num 0)"
    by (auto simp: np_zeros_def)
  have 4: "get_metabolite_image self met cyc = Inr (np_zeros (layout_grid self))"
    if "writeMediaLog self" "met \<in> set (layout_media_metabolite self)"
       "media self = Some tbl" "Num cyc \<in> set (map med_cycle tbl)"
       "filter (\<lambda>row. med_cycle row = Num cyc \<and> metabolite row = met) tbl = []"
    using that by (simp add: get_metabolite_image_def getattr_def)
  show ?thesis using 1 2 3 4 by blast
qed

theorem metabolite_image_zero_filled_witness:
  "get_metabolite_image comets_AB ''glucose'' 4 = Inr (np_zeros (layout_grid comets_AB))
   \<and> np_zeros (layout_grid comets_AB)
     = [[Num 0, Num 0, Num 0, Num 0, Num 0, Num 0],
        [Num 0, Num 0, Num 0, Num 0, Num 0, Num 0],
        [Num 0, Num 0, Num 0, Num 0, Num 0, Num 0]]
   \<and> length (np_zeros (layout_grid comets_AB)) = fst (layout_grid comets_AB)"
proof -
  have h: "writeMediaLog comets_AB \<and> ''glucose'' \<in> set (layout_media_metabolite comets_AB)
            \<and> media comets_AB = Some media_log \<and> Num 4 \<in> set (map med_cycle media_log)
            \<and> filter (\<lambda>row. med_cycle row = Num 4 \<and> metabolite row = ''glucose'') media_log = []"
    by code_simp
  have z: "np_zeros (layout_grid comets_AB)
     = [[Num 0, Num 0, Num 0, Num 0, Num 0, Num 0],
        [Num 0, Num 0, Num 0, Num 0, Num 0, Num 0],
        [Num 0, Num 0, Num 0, Num 0, Num 0, Num 0]]"
    by code_simp
  from metabolite_image_zero_filled [where self = comets_AB and met = "''glucose''"
      and cyc = 4 and tbl = media_log] h z
  show ?thesis by blast
qed

text \<open>
  Claim C5, at a failing input. \<^verbatim>\<open>get_flux_image\<close> accepts \<^verbatim>\<open>x\<close> as a reaction id of
  model \<^verbatim>\<open>A\<close>, whose reactions are a1, a2, a3, because it looks the id up among the
  columns of the table: it returns the image of the x coordinates instead of raising
  NameError.
\<close>

theorem flux_image_coordinate_column:
  "get_flux_image comets_AB ''A'' ''x'' 1
     = Inr [[Num 1, Num 0, Num 0, Num 0, Num 0, Num 0],
            [Num 0, Num 0, Num 0, Num 0, Num 0, Num 0],
            [Num 0, Num 0, Num 0, Num 0, Num 0, Num 0]]
   \<and> ''x'' \<notin> set (REACTION_NAMES model_A)
   \<and> model_A \<in> set (layout_models comets_AB) \<and> model_id model_A = ''A''
   \<and> fluxes_by_species comets_AB = Some [(''A'', table_A), (''B'', table_B)]
   \<and> run_read_flux (layout_models comets_AB) flux_lines_AB
     = Inr (\<lparr>columns = map Pos [0, 1, 2, 3, 4, 5, 6, 7, 8], rows = flux_lines_AB\<rparr>,
            [(''A'', table_A), (''B'', table_B)])"
  by code_simp

text \<open>
  Claim C8. \<^verbatim>\<open>get_biomass_image\<close> with a model id of the layout that is none of
  \<^verbatim>\<open>cycle, x, y, species, biomass\<close> and a recorded cycle raises KeyError on the model
  id: the value of the first row of the cycle is looked up under the model id.
\<close>

theorem biomass_image_key_error:
  assumes "writeBiomassLog self"
    and "mid \<in> set (map model_id (layout_models self))"
    and "mid \<notin> {''cycle'', ''x'', ''y'', ''species'', ''biomass''}"
    and "biomass self = Some tbl"
    and "Num cyc \<in> set (map bio_cycle tbl)"
  shows "get_biomass_image self mid cyc = Inl (KeyError (Name mid))"
proof -
  from assms(5) obtain row0 where "row0 \<in> set tbl" "bio_cycle row0 = Num cyc"
    by auto
  then have "filter (\<lambda>row. bio_cycle row = Num cyc) tbl \<noteq> []"
    by (auto simp: filter_empty_conv)
  then obtain row aux where aux: "filter (\<lambda>row. bio_cycle row = Num cyc) tbl = row # aux"
    by (cases "filter (\<lambda>row. bio_cycle row = Num cyc) tbl") auto
  have key: "biomass_getitem row mid = Inl (KeyError (Name mid))"
    using assms(3) by (simp add: biomass_getitem_def)
  have "fill_biomass (np_zeros (layout_grid self)) mid (row # aux) = Inl (KeyError (Name mid))"
    by (simp add: key)
  then show ?thesis
    using assms(1,2,4,5) by (simp add: get_biomass_image_def getattr_def aux)
qed

theorem biomass_image_key_error_witness:
  "get_biomass_image comets_AB ''A'' 1 = Inl (KeyError (Name ''A''))"
proof -
  have h1: "writeBiomassLog comets_AB" by code_simp
  have h2: "''A'' \<in> set (map model_id (layout_models comets_AB))" by code_simp
  have h3: "''A'' \<notin> {''cycle'', ''x'', ''y'', ''species'', ''biomass''}" by simp
  have h4: "biomass comets_AB = Some biomass_log" by (simp add: comets_AB_def)
  have h5: "Num 1 \<in> set (map bio_cycle biomass_log)" by code_simp
  show ?thesis using h1 h2 h3 h4 h5 by (rule biomass_image_key_error)
qed

text \<open>
  Claim C9. None of the three image functions raises \<open>OutOfGrid\<close>, and none of them
  checks a coordinate against the grid. A single matching media record with \<open>x = 0\<close> is
  written into the last row of the image, and one with \<open>y = 0\<close> into the last column.
  More generally, when the coordinates of the records of the cycle lie between \<open>0\<close> and
  the size of the grid, \<^verbatim>\<open>get_metabolite_image\<close>, \<^verbatim>\<open>get_flux_image\<close> and
  \<^verbatim>\<open>get_biomass_image\<close> return, without an error, the image in which the coordinate \<open>0\<close>
  wraps around: each cell holds the value of the last record written there and \<open>0\<close> when
  there is none, so that, the records falling on distinct cells, a record with \<open>x = 0\<close>
  is found in the last row and a record with \<open>y = 0\<close> in the last column.
\<close>

theorem no_coordinate_bounds_check:
  "get_metabolite_image self met cyc \<noteq> Inl OutOfGrid
   \<and> get_biomass_image self mid cyc \<noteq> Inl OutOfGrid
   \<and> get_flux_image self mid reaction_id cyc \<noteq> Inl OutOfGrid
   \<and> (writeMediaLog self \<and> met \<in> set (layout_media_metabolite self)
        \<and> media self = Some tbl
        \<and> filter (\<lambda>row. med_cycle row = Num cyc \<and> metabolite row = met) tbl = [row]
        \<and> med_x row = Num 0 \<and> 0 < fst (layout_grid self)
        \<and> med_y row = Num (real j) \<and> 1 \<le> j \<and> j \<le> snd (layout_grid self)
      \<longrightarrow> get_metabolite_image self met cyc
           = Inr ((np_zeros (layout_grid self))
                    [fst (layout_grid self) - 1 :=
                       (replicate (snd (layout_grid self)) (Num 0))[j - 1 := conc_mmol row]]))
   \<and> (writeMediaLog self \<and> met \<in> set (layout_media_metabolite self)
        \<and> media self = Some tbl
        \<and> filter (\<lambda>row. med_cycle row = Num cyc \<and> metabolite row = met) tbl = [row]
        \<and> med_x row = Num (real i) \<and> 1 \<le> i \<and> i \<le> fst (layout_grid self)
        \<and> med_y row = Num 0 \<and> 0 < snd (layout_grid self)
      \<longrightarrow> get_metabolite_image self met cyc
           = Inr ((np_zeros (layout_grid self))
                    [i - 1 :=
                       (replicate (snd (layout_grid self)) (Num 0))
                         [snd (layout_grid self) - 1 := conc_mmol row]]))
   \<and> (writeMediaLog self \<and> met \<in> set (layout_media_metabolite self)
        \<and> media self = Some tbl \<and> Num cyc \<in> set (map med_cycle tbl)
        \<and> (\<forall>r \<in> set tbl. med_cycle r = Num cyc \<and> metabolite r = met \<longrightarrow>
               wrapped_coordinate (fst (layout_grid self)) (med_x r)
               \<and> wrapped_coordinate (snd (layout_grid self)) (med_y r))
      \<longrightarrow> get_metabolite_image self met cyc
           = Inr (wrapped_image (layout_grid self)
                    (map (\<lambda>r. (med_x r, med_y r, conc_mmol r))
                       (filter (\<lambda>r. med_cycle r = Num cyc \<and> metabolite r = met) tbl))))
   \<and> (writeFluxLog self \<and> mid \<in> set (map model_id (layout_models self))
        \<and> fluxes_by_species self = Some d \<and> dict_get d mid = Some t
        \<and> columns t = map Name ([''cycle'', ''x'', ''y''] @ names)
        \<and> distinct ([''cycle'', ''x'', ''y''] @ names)
        \<and> k < length names \<and> Num fcyc \<in> set (map (\<lambda>r. r ! 0) (rows t))
        \<and> (\<forall>r \<in> set (rows t). r ! 0 = Num fcyc \<longrightarrow>
               wrapped_coordinate (fst (layout_grid self)) (r ! 1)
               \<and> wrapped_coordinate (snd (layout_grid self)) (r ! 2))
      \<longrightarrow> get_flux_image self mid (names ! k) fcyc
           = Inr (wrapped_image (layout_grid self)
                    (map (\<lambda>r. (r ! 1, r ! 2, r ! (3 + k)))
                       (filter (\<lambda>r. r ! 0 = Num fcyc) (rows t)))))
   \<and> (writeBiomassLog self \<and> bid \<in> set (map model_id (layout_models self))
        \<and> bid \<in> {''cycle'', ''x'', ''y'', ''biomass''}
        \<and> biomass self = Some btbl \<and> Num bcyc \<in> set (map bio_cycle btbl)
        \<and> (\<forall>r \<in> set btbl. bio_cycle r = Num bcyc \<longrightarrow>
               wrapped_coordinate (fst (layout_grid self)) (bio_x r)
               \<and> wrapped_coordinate (snd (layout_grid self)) (bio_y r))
      \<longrightarrow> get_biomass_image self bid bcyc
           = Inr (wrapped_image (layout_grid self)
                    (map (\<lambda>r. (bio_x r, bio_y r, biomass_field bid r))
                       (filter (\<lambda>r. bio_cycle r = Num bcyc) btbl))))
   \<and> (a < fst shape \<and> b < snd shape \<longrightarrow>
        wrapped_image shape recs ! a ! b
          = (case wrapped_record_at shape recs a b of None \<Rightarrow> Num 0 | Some v \<Rightarrow> v))
   \<and> (distinct (map (\<lambda>t. (wrapped_index (fst shape) (fst t),
                             wrapped_index (snd shape) (fst (snd t)))) recs)
        \<and> (Num 0, Num (real q), v) \<in> set recs
        \<and> 0 < fst shape \<and> 1 \<le> q \<and> q \<le> snd shape
      \<longrightarrow> wrapped_image shape recs ! (fst shape - 1) ! (q - 1) = v)
   \<and> (distinct (map (\<lambda>t. (wrapped_index (fst shape) (fst t),
                             wrapped_index (snd shape) (fst (snd t)))) recs)
        \<and> (Num (real p), Num 0, v) \<in> set recs
        \<and> 1 \<le> p \<and> p \<le> fst shape \<and> 0 < snd shape
      \<longrightarrow> wrapped_image shape recs ! (p - 1) ! (snd shape - 1) = v)"
proof (intro conjI impI)
  show "get_metabolite_image self met cyc \<noteq> Inl OutOfGrid"
    by (rule metabolite_image_not_OutOfGrid)
  show "get_biomass_image self mid cyc \<noteq> Inl OutOfGrid"
    by (rule biomass_image_not_OutOfGrid)
  show "get_flux_image self mid reaction_id cyc \<noteq> Inl OutOfGrid"
    by (rule flux_image_not_OutOfGrid)
next
  let ?r = "fst (layout_grid self)" and ?c = "snd (layout_grid self)"
  assume h: "writeMediaLog self \<and> met \<in> set (layout_media_metabolite self)
        \<and> media self = Some tbl
        \<and> filter (\<lambda>row. med_cycle row = Num cyc \<and> metabolite row = met) tbl = [row]
        \<and> med_x row = Num 0 \<and> 0 < ?r
        \<and> med_y row = Num (real j) \<and> 1 \<le> j \<and> j \<le> ?c"
  then have s: "get_metabolite_image self met cyc
         = and_then (py_int (minus_one (med_x row))) (\<lambda>a.
           and_then (py_int (minus_one (med_y row))) (\<lambda>b.
           np_setitem (np_zeros (layout_grid self)) a b (Inr (conc_mmol row))))"
    by (intro metabolite_image_single) blast+
  have last: "np_zeros (layout_grid self) ! (?r - 1) = replicate ?c (Num 0)"
    using h by (simp add: np_zeros_def)
  show "get_metabolite_image self met cyc
           = Inr ((np_zeros (layout_grid self))
                    [?r - 1 := (replicate ?c (Num 0))[j - 1 := conc_mmol row]])"
    unfolding s using h last
    by (simp add: py_int_zero_coordinate py_int_coordinate np_setitem_def np_index_last
        np_index_coordinate np_zeros_def)
next
  let ?r = "fst (layout_grid self)" and ?c = "snd (layout_grid self)"
  assume h: "writeMediaLog self \<and> met \<in> set (layout_media_metabolite self)
        \<and> media self = Some tbl
        \<and> filter (\<lambda>row. med_cycle row = Num cyc \<and> metabolite row = met) tbl = [row]
        \<and> med_x row = Num (real i) \<and> 1 \<le> i \<and> i \<le> ?r
        \<and> med_y row = Num 0 \<and> 0 < ?c"
  then have s: "get_metabolite_image self met cyc
         = and_then (py_int (minus_one (med_x row))) (\<lambda>a.
           and_then (py_int (minus_one (med_y row))) (\<lambda>b.
           np_setitem (np_zeros (layout_grid self)) a b (Inr (conc_mmol row))))"
    by (intro metabolite_image_single) blast+
  have "i - Suc 0 < ?r" using h by linarith
  then have at: "np_zeros (layout_grid self) ! (i - Suc 0) = replicate ?c (Num 0)"
    by (simp add: np_zeros_def)
  have len: "length (np_zeros (layout_grid self)) = ?r"
    by (simp add: np_zeros_def)
  have "np_setitem (np_zeros (layout_grid self)) (int i - 1) (- 1) (Inr (conc_mmol row))
        = Inr ((np_zeros (layout_grid self))
                 [i - 1 := (replicate ?c (Num 0))[?c - 1 := conc_mmol row]])"
    using h by (simp add: np_setitem_def len np_index_coordinate at np_index_last)
  then show "get_metabolite_image self met cyc
           = Inr ((np_zeros (layout_grid self))
                    [i - 1 := (replicate ?c (Num 0))[?c - 1 := conc_mmol row]])"
    unfolding s using h
    by (simp add: py_int_zero_coordinate py_int_coordinate np_setitem_def np_index_last
        np_index_coordinate np_zeros_def)
next
  assume "writeMediaLog self \<and> met \<in> set (layout_media_metabolite self)
        \<and> media self = Some tbl \<and> Num cyc \<in> set (map med_cycle tbl)
        \<and> (\<forall>r \<in> set tbl. med_cycle r = Num cyc \<and> metabolite r = met \<longrightarrow>
               wrapped_coordinate (fst (layout_grid self)) (med_x r)
               \<and> wrapped_coordinate (snd (layout_grid self)) (med_y r))"
  then show "get_metabolite_image self met cyc
           = Inr (wrapped_image (layout_grid self)
                    (map (\<lambda>r. (med_x r, med_y r, conc_mmol r))
                       (filter (\<lambda>r. med_cycle r = Num cyc \<and> metabolite r = met) tbl)))"
    by (intro metabolite_image_wrapped) blast+
next
  assume "writeFluxLog self \<and> mid \<in> set (map model_id (layout_models self))
        \<and> fluxes_by_species self = Some d \<and> dict_get d mid = Some t
        \<and> columns t = map Name ([''cycle'', ''x'', ''y''] @ names)
        \<and> distinct ([''cycle'', ''x'', ''y''] @ names)
        \<and> k < length names \<and> Num fcyc \<in> set (map (\<lambda>r. r ! 0) (rows t))
        \<and> (\<forall>r \<in> set (rows t). r ! 0 = Num fcyc \<longrightarrow>
               wrapped_coordinate (fst (layout_grid self)) (r ! 1)
               \<and> wrapped_coordinate (snd (layout_grid self)) (r ! 2))"
  then show "get_flux_image self mid (names ! k) fcyc
           = Inr (wrapped_image (layout_grid self)
                    (map (\<lambda>r. (r ! 1, r ! 2, r ! (3 + k)))
                       (filter (\<lambda>r. r ! 0 = Num fcyc) (rows t))))"
    by (intro flux_image_wrapped [where d = d]) blast+
next
  assume "writeBiomassLog self \<and> bid \<in> set (map model_id (layout_models self))
        \<and> bid \<in> {''cycle'', ''x'', ''y'', ''biomass''}
        \<and> biomass self = Some btbl \<and> Num bcyc \<in> set (map bio_cycle btbl)
        \<and> (\<forall>r \<in> set btbl. bio_cycle r = Num bcyc \<longrightarrow>
               wrapped_coordinate (fst (layout_grid self)) (bio_x r)
               \<and> wrapped_coordinate (snd (layout_grid self)) (bio_y r))"
  then show "get_biomass_image self bid bcyc
           = Inr (wrapped_image (layout_grid self)
                    (map (\<lambda>r. (bio_x r, bio_y r, biomass_field bid r))
                       (filter (\<lambda>r. bio_cycle r = Num bcyc) btbl)))"
    by (intro biomass_image_wrapped) blast+
next
  assume "a < fst shape \<and> b < snd shape"
  then show "wrapped_image shape recs ! a ! b
          = (case wrapped_record_at shape recs a b of None \<Rightarrow> Num 0 | Some v \<Rightarrow> v)"
    by (simp add: wrapped_image_nth)
next
  assume h: "distinct (map (\<lambda>t. (wrapped_index (fst shape) (fst t),
                             wrapped_index (snd shape) (fst (snd t)))) recs)
        \<and> (Num 0, Num (real q), v) \<in> set recs
        \<and> 0 < fst shape \<and> 1 \<le> q \<and> q \<le> snd shape"
  then have x: "wrapped_index (fst shape) (Num 0) = fst shape - 1"
    and y: "wrapped_index (snd shape) (Num (real q)) = q - 1"
    by (simp_all add: wrapped_index_zero wrapped_index_inside)
  have "wrapped_record_at shape recs (fst shape - 1) (q - 1) = Some v"
    using h x y by (intro wrapped_record_at_distinct) blast+
  moreover have "fst shape - 1 < fst shape" "q - 1 < snd shape"
    using h by arith+
  ultimately show "wrapped_image shape recs ! (fst shape - 1) ! (q - 1) = v"
    by (simp add: wrapped_image_nth)
next
  assume h: "distinct (map (\<lambda>t. (wrapped_index (fst shape) (fst t),
                             wrapped_index (snd shape) (fst (snd t)))) recs)
        \<and> (Num (real p), Num 0, v) \<in> set recs
        \<and> 1 \<le> p \<and> p \<le> fst shape \<and> 0 < snd shape"
  then have x: "wrapped_index (fst shape) (Num (real p)) = p - 1"
    and y: "wrapped_index (snd shape) (Num 0) = snd shape - 1"
    by (simp_all add: wrapped_index_zero wrapped_index_inside)
  have "wrapped_record_at shape recs (p - 1) (snd shape - 1) = Some v"
    using h x y by (intro wrapped_record_at_distinct) blast+
  moreover have "p - 1 < fst shape" "snd shape - 1 < snd shape"
    using h by arith+
  ultimately show "wrapped_image shape recs ! (p - 1) ! (snd shape - 1) = v"
    by (simp add: wrapped_image_nth)
qed

theorem no_coordinate_bounds_check_witness:
  "get_metabolite_image comets_AB ''o2'' 5
     = Inr [[Num 0, Num 0, Num 0, Num 0, Num 0, Num 0],
            [Num 0, Num 0, Num 0, Num 0, Num 0, Num 0],
            [Num 0, Num 1, Num 0, Num 0, Num 0, Num 0]]
   \<and> get_metabolite_image comets_AB ''o2'' 6
     = Inr [[Num 0, Num 0, Num 0, Num 0, Num 0, Num 4],
            [Num 0, Num 0, Num 0, Num 0, Num 0, Num 0],
            [Num 0, Num 0, Num 0, Num 0, Num 0, Num 0]]
   \<and> get_metabolite_image comets_AB ''o2'' 5
     = Inr (wrapped_image (3, 6) [(Num 0, Num 2, Num 1)])
   \<and> get_flux_image comets_x0 ''A'' ([''a1'', ''a2'', ''a3''] ! 0) 2
     = Inr (wrapped_image (3, 6) [(Num 0, Num 3, Num 10), (Num 1, Num 0, Num 13)])
   \<and> get_biomass_image comets_bm ''biomass'' 2
     = Inr (wrapped_image (3, 6) [(Num 0, Num 1, Num 0.25)])
   \<and> wrapped_image (3, 6) [(Num 0, Num 3, Num 10), (Num 1, Num 0, Num 13)] ! 2 ! 2 = Num 10
   \<and> wrapped_image (3, 6) [(Num 0, Num 3, Num 10), (Num 1, Num 0, Num 13)] ! 0 ! 5 = Num 13
   \<and> wrapped_image (3, 6) [(Num 0, Num 3, Num 10), (Num 1, Num 0, Num 13)] ! 1 ! 1 = Num 0
   \<and> wrapped_image (3, 6) [(Num 0, Num 3, Num 10), (Num 1, Num 0, Num 13)]
     = [[Num 0, Num 0, Num 0, Num 0, Num 0, Num 13],
        [Num 0, Num 0, Num 0, Num 0, Num 0, Num 0],
        [Num 0, Num 0, Num 10, Num 0, Num 0, Num 0]]"
proof -
  let ?row5 = "\<lparr>metabolite = ''o2'', med_cycle = Num 5, med_x = Num 0, med_y = Num 2,
                 conc_mmol = Num 1\<rparr>"
  let ?row6 = "\<lparr>metabolite = ''o2'', med_cycle = Num 6, med_x = Num 1, med_y = Num 0,
                 conc_mmol = Num 4\<rparr>"
  have h5: "writeMediaLog comets_AB \<and> ''o2'' \<in> set (layout_media_metabolite comets_AB)
        \<and> media comets_AB = Some media_log
        \<and> filter (\<lambda>row. med_cycle row = Num 5 \<and> metabolite row = ''o2'') media_log = [?row5]
        \<and> med_x ?row5 = Num 0 \<and> 0 < fst (layout_grid comets_AB)
        \<and> med_y ?row5 = Num (real 2) \<and> (1::nat) \<le> 2 \<and> 2 \<le> snd (layout_grid comets_AB)"
    by code_simp
  have h6: "writeMediaLog comets_AB \<and> ''o2'' \<in> set (layout_media_metabolite comets_AB)
        \<and> media comets_AB = Some media_log
        \<and> filter (\<lambda>row. med_cycle row = Num 6 \<and> metabolite row = ''o2'') media_log = [?row6]
        \<and> med_x ?row6 = Num (real 1) \<and> (1::nat) \<le> 1 \<and> 1 \<le> fst (layout_grid comets_AB)
        \<and> med_y ?row6 = Num 0 \<and> 0 < snd (layout_grid comets_AB)"
    by code_simp
  have e5: "(np_zeros (layout_grid comets_AB))
              [fst (layout_grid comets_AB) - 1 :=
                 (replicate (snd (layout_grid comets_AB)) (Num 0))[2 - 1 := conc_mmol ?row5]]
            = [[Num 0, Num 0, Num 0, Num 0, Num 0, Num 0],
               [Num 0, Num 0, Num 0, Num 0, Num 0, Num 0],
               [Num 0, Num 1, Num 0, Num 0, Num 0, Num 0]]"
    by code_simp
  have e6: "(np_zeros (layout_grid comets_AB))
              [1 - 1 :=
                 (replicate (snd (layout_grid comets_AB)) (Num 0))
                   [snd (layout_grid comets_AB) - 1 := conc_mmol ?row6]]
            = [[Num 0, Num 0, Num 0, Num 0, Num 0, Num 4],
               [Num 0, Num 0, Num 0, Num 0, Num 0, Num 0],
               [Num 0, Num 0, Num 0, Num 0, Num 0, Num 0]]"
    by code_simp
  have 1: "get_metabolite_image comets_AB ''o2'' 5
     = Inr [[Num 0, Num 0, Num 0, Num 0, Num 0, Num 0],
            [Num 0, Num 0, Num 0, Num 0, Num 0, Num 0],
            [Num 0, Num 1, Num 0, Num 0, Num 0, Num 0]]"
    using no_coordinate_bounds_check [where self = comets_AB and met = "''o2''" and cyc = 5
        and tbl = media_log and row = ?row5 and j = 2] h5
    unfolding e5 by blast
  have 2: "get_metabolite_image comets_AB ''o2'' 6
     = Inr [[Num 0, Num 0, Num 0, Num 0, Num 0, Num 4],
            [Num 0, Num 0, Num 0, Num 0, Num 0, Num 0],
            [Num 0, Num 0, Num 0, Num 0, Num 0, Num 0]]"
    using no_coordinate_bounds_check [where self = comets_AB and met = "''o2''" and cyc = 6
        and tbl = media_log and row = ?row6 and i = 1] h6
    unfolding e6 by blast
  let ?recs = "[(Num 0, Num 3, Num 10), (Num 1, Num 0, Num 13)]"
  have g: "layout_grid comets_AB = (3, 6)" "layout_grid comets_x0 = (3, 6)"
    "layout_grid comets_bm = (3, 6)"
    by (simp_all add: comets_AB_def comets_x0_def comets_bm_def)
  have hm: "writeMediaLog comets_AB \<and> ''o2'' \<in> set (layout_media_metabolite comets_AB)
        \<and> media comets_AB = Some media_log \<and> Num 5 \<in> set (map med_cycle media_log)
        \<and> (\<forall>r \<in> set media_log. med_cycle r = Num 5 \<and> metabolite r = ''o2'' \<longrightarrow>
               wrapped_coordinate (fst (layout_grid comets_AB)) (med_x r)
               \<and> wrapped_coordinate (snd (layout_grid comets_AB)) (med_y r))"
    by code_simp
  have em: "map (\<lambda>r. (med_x r, med_y r, conc_mmol r))
              (filter (\<lambda>r. med_cycle r = Num 5 \<and> metabolite r = ''o2'') media_log)
            = [(Num 0, Num 2, Num 1)]"
    by code_simp
  have 3: "get_metabolite_image comets_AB ''o2'' 5
           = Inr (wrapped_image (3, 6) [(Num 0, Num 2, Num 1)])"
    using no_coordinate_bounds_check [where self = comets_AB and met = "''o2''" and cyc = 5
        and tbl = media_log, THEN conjunct2, THEN conjunct2, THEN conjunct2, THEN conjunct2,
        THEN conjunct2, THEN conjunct1, THEN mp, OF hm]
    unfolding em g .
  have hf: "writeFluxLog comets_x0 \<and> ''A'' \<in> set (map model_id (layout_models comets_x0))
        \<and> fluxes_by_species comets_x0 = Some [(''A'', table_A0), (''B'', table_B)]
        \<and> dict_get [(''A'', table_A0), (''B'', table_B)] ''A'' = Some table_A0
        \<and> columns table_A0 = map Name ([''cycle'', ''x'', ''y''] @ [''a1'', ''a2'', ''a3''])
        \<and> distinct ([''cycle'', ''x'', ''y''] @ [''a1'', ''a2'', ''a3''])
        \<and> 0 < length [''a1'', ''a2'', ''a3''] \<and> Num 2 \<in> set (map (\<lambda>r. r ! 0) (rows table_A0))
        \<and> (\<forall>r \<in> set (rows table_A0). r ! 0 = Num 2 \<longrightarrow>
               wrapped_coordinate (fst (layout_grid comets_x0)) (r ! 1)
               \<and> wrapped_coordinate (snd (layout_grid comets_x0)) (r ! 2))"
    by code_simp
  have ef: "map (\<lambda>r. (r ! 1, r ! 2, r ! (3 + 0))) (filter (\<lambda>r. r ! 0 = Num 2) (rows table_A0))
            = ?recs"
    by code_simp
  have 4: "get_flux_image comets_x0 ''A'' ([''a1'', ''a2'', ''a3''] ! 0) 2
           = Inr (wrapped_image (3, 6) ?recs)"
    using no_coordinate_bounds_check [where self = comets_x0 and mid = "''A''" and fcyc = 2
        and d = "[(''A'', table_A0), (''B'', table_B)]" and t = table_A0
        and names = "[''a1'', ''a2'', ''a3'']" and k = 0, THEN conjunct2, THEN conjunct2,
        THEN conjunct2, THEN conjunct2, THEN conjunct2, THEN conjunct2, THEN conjunct1,
        THEN mp, OF hf]
    unfolding ef g .
  have hb: "writeBiomassLog comets_bm \<and> ''biomass'' \<in> set (map model_id (layout_models comets_bm))
        \<and> ''biomass'' \<in> {''cycle'', ''x'', ''y'', ''biomass''}
        \<and> biomass comets_bm = Some biomass_log0 \<and> Num 2 \<in> set (map bio_cycle biomass_log0)
        \<and> (\<forall>r \<in> set biomass_log0. bio_cycle r = Num 2 \<longrightarrow>
               wrapped_coordinate (fst (layout_grid comets_bm)) (bio_x r)
               \<and> wrapped_coordinate (snd (layout_grid comets_bm)) (bio_y r))"
    by code_simp
  have eb: "map (\<lambda>r. (bio_x r, bio_y r, biomass_field ''biomass'' r))
              (filter (\<lambda>r. bio_cycle r = Num 2) biomass_log0)
            = [(Num 0, Num 1, Num 0.25)]"
    by code_simp
  have 5: "get_biomass_image comets_bm ''biomass'' 2
           = Inr (wrapped_image (3, 6) [(Num 0, Num 1, Num 0.25)])"
    using no_coordinate_bounds_check [where self = comets_bm and bid = "''biomass''"
        and bcyc = 2 and btbl = biomass_log0, THEN conjunct2, THEN conjunct2, THEN conjunct2,
        THEN conjunct2, THEN conjunct2, THEN conjunct2, THEN conjunct2, THEN conjunct1,
        THEN mp, OF hb]
    unfolding eb g .
  have hd: "distinct (map (\<lambda>t. (wrapped_index (fst (3::nat, 6::nat)) (fst t),
                                 wrapped_index (snd (3::nat, 6::nat)) (fst (snd t)))) ?recs)"
    by code_simp
  have h6: "(Num 0, Num (real 3), Num 10) \<in> set ?recs
            \<and> 0 < fst (3::nat, 6::nat) \<and> (1::nat) \<le> 3 \<and> 3 \<le> snd (3::nat, 6::nat)"
    by simp
  have 6: "wrapped_image (3, 6) ?recs ! 2 ! 2 = Num 10"
    using no_coordinate_bounds_check [where shape = "(3, 6)" and recs = ?recs and q = 3
        and v = "Num 10", THEN conjunct2, THEN conjunct2, THEN conjunct2, THEN conjunct2,
        THEN conjunct2, THEN conjunct2, THEN conjunct2, THEN conjunct2, THEN conjunct2,
        THEN conjunct1, THEN mp, OF conjI [OF hd h6]]
    by simp
  have h7: "(Num (real 1), Num 0, Num 13) \<in> set ?recs
            \<and> (1::nat) \<le> 1 \<and> 1 \<le> fst (3::nat, 6::nat) \<and> 0 < snd (3::nat, 6::nat)"
    by simp
  have 7: "wrapped_image (3, 6) ?recs ! 0 ! 5 = Num 13"
    using no_coordinate_bounds_check [where shape = "(3, 6)" and recs = ?recs and p = 1
        and v = "Num 13", THEN conjunct2, THEN conjunct2, THEN conjunct2, THEN conjunct2,
        THEN conjunct2, THEN conjunct2, THEN conjunct2, THEN conjunct2, THEN conjunct2,
        THEN conjunct2, THEN mp, OF conjI [OF hd h7]]
    by simp
  have h8: "1 < fst (3::nat, 6::nat) \<and> 1 < snd (3::nat, 6::nat)" by simp
  have e8: "wrapped_record_at (3, 6) ?recs 1 1 = None" by code_simp
  have 8: "wrapped_image (3, 6) ?recs ! 1 ! 1 = Num 0"
    using no_coordinate_bounds_check [where shape = "(3, 6)" and recs = ?recs and a = 1
        and b = 1, THEN conjunct2, THEN conjunct2, THEN conjunct2, THEN conjunct2,
        THEN conjunct2, THEN conjunct2, THEN conjunct2, THEN conjunct2, THEN conjunct1,
        THEN mp, OF h8]
    unfolding e8 by simp
  have 9: "wrapped_image (3, 6) ?recs
     = [[Num 0, Num 0, Num 0, Num 0, Num 0, Num 13],
        [Num 0, Num 0, Num 0, Num 0, Num 0, Num 0],
        [Num 0, Num 0, Num 10, Num 0, Num 0, Num 0]]"
    by code_simp
  show ?thesis using 1 2 3 4 5 6 7 8 9 by blast
qed

section \<open>Log files: the claim\<close>

text \<open>
  Claim C6. Opening a path that is not on disk fails with FileNotFoundError on that
  path, in \<^verbatim>\<open>readlines_file\<close> and in \<^verbatim>\<open>pd.read_csv\<close>. When the simulation has not
  failed and the file of a requested log is missing, \<^verbatim>\<open>run\<close> raises; when the missing
  file is that of the first log that \<^verbatim>\<open>run\<close> reads and the layout has a model, it
  raises FileNotFoundError on that path. Log by log, in the order of \<^verbatim>\<open>run\<close> (total
  biomass, flux, media, biomass, genotypes, specific media): when the blocks before a
  log have succeeded, the log is requested and its file is not on disk at that moment,
  \<^verbatim>\<open>run\<close> raises FileNotFoundError on the path of that log; for the flux log the layout
  must have a model, since the maximum over the models is taken before the file is
  opened.
\<close>

theorem missing_log_file:
  "(fs p = None \<longrightarrow>
      readlines_file fs p = Inl (FileNotFoundError p)
      \<and> pd_read_csv fs p parse = Inl (FileNotFoundError p))
   \<and> (\<not> failed \<and> p \<in> set (requested_logs (adjust_for_evolution self)) \<and> fs p = None \<longrightarrow>
        (\<exists>e. run_read_output pd delete_files failed fs self = Inl e))
   \<and> (\<not> failed \<and> requested_logs (adjust_for_evolution self) = p # ps \<and> fs p = None
        \<and> layout_models self \<noteq> [] \<longrightarrow>
        run_read_output pd delete_files failed fs self = Inl (FileNotFoundError p))
   \<and> (\<not> failed \<and> writeTotalBiomassLog (adjust_for_evolution self)
        \<and> fs (TotalBiomassLogName (adjust_for_evolution self)) = None \<longrightarrow>
        run_read_output pd delete_files failed fs self
          = Inl (FileNotFoundError (TotalBiomassLogName (adjust_for_evolution self))))
   \<and> (\<not> failed
        \<and> read_total_biomass pd delete_files (fs, adjust_for_evolution self) = Inr st1
        \<and> writeFluxLog (snd st1) \<and> layout_models (snd st1) \<noteq> []
        \<and> fst st1 (FluxLogName (snd st1)) = None \<longrightarrow>
        run_read_output pd delete_files failed fs self
          = Inl (FileNotFoundError (FluxLogName (snd st1))))
   \<and> (\<not> failed
        \<and> read_total_biomass pd delete_files (fs, adjust_for_evolution self) = Inr st1
        \<and> read_flux pd delete_files st1 = Inr st2
        \<and> writeMediaLog (snd st2) \<and> fst st2 (MediaLogName (snd st2)) = None \<longrightarrow>
        run_read_output pd delete_files failed fs self
          = Inl (FileNotFoundError (MediaLogName (snd st2))))
   \<and> (\<not> failed
        \<and> read_total_biomass pd delete_files (fs, adjust_for_evolution self) = Inr st1
        \<and> read_flux pd delete_files st1 = Inr st2
        \<and> read_media pd delete_files st2 = Inr st3
        \<and> writeBiomassLog (snd st3)
        \<and> fst st3 (''biomass_log_'' @ hex_id (snd st3)) = None \<longrightarrow>
        run_read_output pd delete_files failed fs self
          = Inl (FileNotFoundError (''biomass_log_'' @ hex_id (snd st3))))
   \<and> (\<not> failed
        \<and> read_total_biomass pd delete_files (fs, adjust_for_evolution self) = Inr st1
        \<and> read_flux pd delete_files st1 = Inr st2
        \<and> read_media pd delete_files st2 = Inr st3
        \<and> read_biomass pd delete_files st3 = Inr st4
        \<and> evolution (snd st4)
        \<and> fst st4 (''GENOTYPES_biomass_log_'' @ hex_id (snd st4)) = None \<longrightarrow>
        run_read_output pd delete_files failed fs self
          = Inl (FileNotFoundError (''GENOTYPES_biomass_log_'' @ hex_id (snd st4))))
   \<and> (\<not> failed
        \<and> read_total_biomass pd delete_files (fs, adjust_for_evolution self) = Inr st1
        \<and> read_flux pd delete_files st1 = Inr st2
        \<and> read_media pd delete_files st2 = Inr st3
        \<and> read_biomass pd delete_files st3 = Inr st4
        \<and> read_genotypes pd delete_files st4 = Inr st5
        \<and> writeSpecificMediaLog (snd st5)
        \<and> fst st5 (SpecificMediaLogName (snd st5)) = None \<longrightarrow>
        run_read_output pd delete_files failed fs self
          = Inl (FileNotFoundError (SpecificMediaLogName (snd st5))))"
proof (intro conjI impI)
  assume "fs p = None"
  then show "readlines_file fs p = Inl (FileNotFoundError p)"
    by (rule readlines_file_missing)
next
  assume "fs p = None"
  then show "pd_read_csv fs p parse = Inl (FileNotFoundError p)"
    by (rule pd_read_csv_missing)
next
  assume "\<not> failed \<and> p \<in> set (requested_logs (adjust_for_evolution self)) \<and> fs p = None"
  then show "\<exists>e. run_read_output pd delete_files failed fs self = Inl e"
    by (intro run_fails_on_missing_log [where p = p]) blast+
next
  assume "\<not> failed \<and> requested_logs (adjust_for_evolution self) = p # ps \<and> fs p = None
        \<and> layout_models self \<noteq> []"
  then show "run_read_output pd delete_files failed fs self = Inl (FileNotFoundError p)"
    by (intro run_first_missing_log [where ps = ps]) blast+
next
  assume h: "\<not> failed \<and> writeTotalBiomassLog (adjust_for_evolution self)
        \<and> fs (TotalBiomassLogName (adjust_for_evolution self)) = None"
  have "read_total_biomass pd delete_files (fs, adjust_for_evolution self)
        = Inl (FileNotFoundError (TotalBiomassLogName (snd (fs, adjust_for_evolution self))))"
    using h by (intro read_total_biomass_missing) simp_all
  then show "run_read_output pd delete_files failed fs self
          = Inl (FileNotFoundError (TotalBiomassLogName (adjust_for_evolution self)))"
    using h by (simp add: run_read_output_def Let_def)
next
  assume h: "\<not> failed
        \<and> read_total_biomass pd delete_files (fs, adjust_for_evolution self) = Inr st1
        \<and> writeFluxLog (snd st1) \<and> layout_models (snd st1) \<noteq> []
        \<and> fst st1 (FluxLogName (snd st1)) = None"
  then obtain n where "max_rows (layout_models (snd st1)) = Inr n"
    using max_rows_Inr by blast
  then have "read_flux pd delete_files st1 = Inl (FileNotFoundError (FluxLogName (snd st1)))"
    using h read_flux_missing [of st1 pd delete_files] by simp
  then show "run_read_output pd delete_files failed fs self
          = Inl (FileNotFoundError (FluxLogName (snd st1)))"
    using h by (simp add: run_read_output_def Let_def)
next
  assume h: "\<not> failed
        \<and> read_total_biomass pd delete_files (fs, adjust_for_evolution self) = Inr st1
        \<and> read_flux pd delete_files st1 = Inr st2
        \<and> writeMediaLog (snd st2) \<and> fst st2 (MediaLogName (snd st2)) = None"
  then have "read_media pd delete_files st2 = Inl (FileNotFoundError (MediaLogName (snd st2)))"
    by (intro read_media_missing) simp_all
  then show "run_read_output pd delete_files failed fs self
          = Inl (FileNotFoundError (MediaLogName (snd st2)))"
    using h by (simp add: run_read_output_def Let_def)
next
  assume h: "\<not> failed
        \<and> read_total_biomass pd delete_files (fs, adjust_for_evolution self) = Inr st1
        \<and> read_flux pd delete_files st1 = Inr st2
        \<and> read_media pd delete_files st2 = Inr st3
        \<and> writeBiomassLog (snd st3)
        \<and> fst st3 (''biomass_log_'' @ hex_id (snd st3)) = None"
  then have "read_biomass pd delete_files st3
             = Inl (FileNotFoundError (''biomass_log_'' @ hex_id (snd st3)))"
    by (intro read_biomass_missing) simp_all
  then show "run_read_output pd delete_files failed fs self
          = Inl (FileNotFoundError (''biomass_log_'' @ hex_id (snd st3)))"
    using h by (simp add: run_read_output_def Let_def)
next
  assume h: "\<not> failed
        \<and> read_total_biomass pd delete_files (fs, adjust_for_evolution self) = Inr st1
        \<and> read_flux pd delete_files st1 = Inr st2
        \<and> read_media pd delete_files st2 = Inr st3
        \<and> read_biomass pd delete_files st3 = Inr st4
        \<and> evolution (snd st4)
        \<and> fst st4 (''GENOTYPES_biomass_log_'' @ hex_id (snd st4)) = None"
  then have "read_genotypes pd delete_files st4
             = Inl (FileNotFoundError (''GENOTYPES_biomass_log_'' @ hex_id (snd st4)))"
    by (intro read_genotypes_missing) simp_all
  then show "run_read_output pd delete_files failed fs self
          = Inl (FileNotFoundError (''GENOTYPES_biomass_log_'' @ hex_id (snd st4)))"
    using h by (simp add: run_read_output_def Let_def)
next
  assume h: "\<not> failed
        \<and> read_total_biomass pd delete_files (fs, adjust_for_evolution self) = Inr st1
        \<and> read_flux pd delete_files st1 = Inr st2
        \<and> read_media pd delete_files st2 = Inr st3
        \<and> read_biomass pd delete_files st3 = Inr st4
        \<and> read_genotypes pd delete_files st4 = Inr st5
        \<and> writeSpecificMediaLog (snd st5)
        \<and> fst st5 (SpecificMediaLogName (snd st5)) = None"
  then have "read_specific_media pd delete_files st5
             = Inl (FileNotFoundError (SpecificMediaLogName (snd st5)))"
    by (intro read_specific_media_missing) simp_all
  then show "run_read_output pd delete_files failed fs self
          = Inl (FileNotFoundError (SpecificMediaLogName (snd st5)))"
    using h by (simp add: run_read_output_def Let_def)
qed

theorem missing_log_file_witness:
  "readlines_file no_files ''flux_log_0x1'' = Inl (FileNotFoundError ''flux_log_0x1'')
   \<and> run_read_output pandas_refusing True False no_files comets_AB
     = Inl (FileNotFoundError ''flux_log_0x1'')
   \<and> run_read_output pandas_AB True False files_AB (comets_AB\<lparr>writeTotalBiomassLog := True\<rparr>)
     = Inl (FileNotFoundError ''total_biomass_log_0x1'')
   \<and> run_read_output pandas_AB True False no_files comets_AB
     = Inl (FileNotFoundError ''flux_log_0x1'')
   \<and> run_read_output pandas_AB True False files_flux comets_AB
     = Inl (FileNotFoundError ''media_log_0x1'')
   \<and> run_read_output pandas_AB True False files_flux_media comets_AB
     = Inl (FileNotFoundError ''biomass_log_0x1'')
   \<and> run_read_output pandas_AB True False files_AB (comets_AB\<lparr>evolution := True\<rparr>)
     = Inl (FileNotFoundError ''GENOTYPES_biomass_log_0x1'')
   \<and> run_read_output pandas_AB True False files_AB (comets_AB\<lparr>writeSpecificMediaLog := True\<rparr>)
     = Inl (FileNotFoundError ''specific_media_log_0x1'')"
proof -
  let ?rt = "read_total_biomass pandas_AB True" and ?rf = "read_flux pandas_AB True"
  let ?rm = "read_media pandas_AB True" and ?rb = "read_biomass pandas_AB True"
  let ?rg = "read_genotypes pandas_AB True"
  let ?s = "adjust_for_evolution comets_AB"
  let ?sT = "adjust_for_evolution (comets_AB\<lparr>writeTotalBiomassLog := True\<rparr>)"
  let ?sE = "adjust_for_evolution (comets_AB\<lparr>evolution := True\<rparr>)"
  let ?sS = "adjust_for_evolution (comets_AB\<lparr>writeSpecificMediaLog := True\<rparr>)"
  have h0: "no_files ''flux_log_0x1'' = None"
    by (simp add: no_files_def)
  have h1: "\<not> False \<and> ''flux_log_0x1'' \<in> set (requested_logs (adjust_for_evolution comets_AB))
            \<and> no_files ''flux_log_0x1'' = None"
    unfolding no_files_def by code_simp
  have h2: "\<not> False \<and> requested_logs (adjust_for_evolution comets_AB)
              = ''flux_log_0x1'' # [''media_log_0x1'', ''biomass_log_0x1'']
            \<and> no_files ''flux_log_0x1'' = None \<and> layout_models comets_AB \<noteq> []"
    unfolding no_files_def by code_simp
  from missing_log_file [where fs = no_files and p = "''flux_log_0x1''" and failed = False
      and self = comets_AB and ps = "[''media_log_0x1'', ''biomass_log_0x1'']"
      and pd = pandas_refusing and delete_files = True] h0 h1 h2
  have old: "readlines_file no_files ''flux_log_0x1'' = Inl (FileNotFoundError ''flux_log_0x1'')
     \<and> run_read_output pandas_refusing True False no_files comets_AB
       = Inl (FileNotFoundError ''flux_log_0x1'')"
    by blast
  have t: "\<not> False \<and> writeTotalBiomassLog ?sT \<and> files_AB (TotalBiomassLogName ?sT) = None"
    unfolding files_AB_def files_flux_media_def files_flux_def by code_simp
  have tn: "TotalBiomassLogName ?sT = ''total_biomass_log_0x1''"
    by code_simp
  have c_total: "run_read_output pandas_AB True False files_AB
                   (comets_AB\<lparr>writeTotalBiomassLog := True\<rparr>)
                 = Inl (FileNotFoundError ''total_biomass_log_0x1'')"
    using missing_log_file [where fs = files_AB and failed = False
        and self = "comets_AB\<lparr>writeTotalBiomassLog := True\<rparr>" and pd = pandas_AB
        and delete_files = True, THEN conjunct2, THEN conjunct2, THEN conjunct2,
        THEN conjunct1, THEN mp, OF t]
    unfolding tn .
  have "\<not> isl (run_steps [?rt] (no_files, ?s))"
    unfolding no_files_def by code_simp
  then obtain a1 where a: "?rt (no_files, ?s) = Inr a1"
    by (auto dest!: not_isl_Inr simp: and_then_eq_Inr)
  have "log_missing ''flux_log_0x1'' ?s (no_files, ?s)"
    by (simp add: log_missing_def no_files_def)
  note am = read_total_biomass_keeps [OF a this]
  have af: "writeFluxLog (snd a1)" "FluxLogName (snd a1) = ''flux_log_0x1''"
    "fst a1 ''flux_log_0x1'' = None"
    using log_missing_params [OF am] by (simp_all add: adjust_for_evolution_def comets_AB_def)
  have c_flux: "run_read_output pandas_AB True False no_files comets_AB
                = Inl (FileNotFoundError ''flux_log_0x1'')"
proof -
    have al: "layout_models (snd a1) \<noteq> []"
      using a by (auto simp: read_total_biomass_def Let_def and_then_eq_Inr
          adjust_for_evolution_def comets_AB_def split: if_splits)
    show ?thesis
      using missing_log_file [where fs = no_files and failed = False and self = comets_AB
          and pd = pandas_AB and delete_files = True and ?st1.0 = a1,
          THEN conjunct2, THEN conjunct2, THEN conjunct2, THEN conjunct2,
          THEN conjunct1, THEN mp]
        a af al by simp
  qed
  have "\<not> isl (run_steps [?rt, ?rf] (files_flux, ?s))"
    unfolding files_flux_def by code_simp
  then obtain b1 b2 where b: "?rt (files_flux, ?s) = Inr b1" "?rf b1 = Inr b2"
    by (auto dest!: not_isl_Inr simp: and_then_eq_Inr)
  have "log_missing ''media_log_0x1'' ?s (files_flux, ?s)"
    by (simp add: log_missing_def files_flux_def)
  note bm = read_flux_keeps [OF b(2) read_total_biomass_keeps [OF b(1) this]]
  have bf: "writeMediaLog (snd b2)" "MediaLogName (snd b2) = ''media_log_0x1''"
    "fst b2 ''media_log_0x1'' = None"
    using log_missing_params [OF bm] by (simp_all add: adjust_for_evolution_def comets_AB_def)
  have c_media: "run_read_output pandas_AB True False files_flux comets_AB
                 = Inl (FileNotFoundError ''media_log_0x1'')"
    using missing_log_file [where fs = files_flux and failed = False and self = comets_AB
        and pd = pandas_AB and delete_files = True and ?st1.0 = b1 and ?st2.0 = b2,
        THEN conjunct2, THEN conjunct2, THEN conjunct2, THEN conjunct2, THEN conjunct2,
        THEN conjunct1, THEN mp]
      b bf by simp
  have "\<not> isl (run_steps [?rt, ?rf, ?rm] (files_flux_media, ?s))"
    unfolding files_flux_media_def files_flux_def by code_simp
  then obtain c1 c2 c3 where c: "?rt (files_flux_media, ?s) = Inr c1" "?rf c1 = Inr c2"
      "?rm c2 = Inr c3"
    by (auto dest!: not_isl_Inr simp: and_then_eq_Inr)
  have "log_missing ''biomass_log_0x1'' ?s (files_flux_media, ?s)"
    by (simp add: log_missing_def files_flux_media_def files_flux_def)
  note cm = read_media_keeps [OF c(3) read_flux_keeps [OF c(2)
        read_total_biomass_keeps [OF c(1) this]]]
  have cf: "writeBiomassLog (snd c3)" "hex_id (snd c3) = ''0x1''"
    "fst c3 ''biomass_log_0x1'' = None"
    using log_missing_params [OF cm] by (simp_all add: adjust_for_evolution_def comets_AB_def)
  have c_biomass: "run_read_output pandas_AB True False files_flux_media comets_AB
                   = Inl (FileNotFoundError ''biomass_log_0x1'')"
    using missing_log_file [where fs = files_flux_media and failed = False
        and self = comets_AB and pd = pandas_AB and delete_files = True
        and ?st1.0 = c1 and ?st2.0 = c2 and ?st3.0 = c3,
        THEN conjunct2, THEN conjunct2, THEN conjunct2, THEN conjunct2, THEN conjunct2,
        THEN conjunct2, THEN conjunct1, THEN mp]
      c cf by simp
  have "\<not> isl (run_steps [?rt, ?rf, ?rm, ?rb] (files_AB, ?sE))"
    unfolding files_AB_def files_flux_media_def files_flux_def by code_simp
  then obtain d1 d2 d3 d4 where d: "?rt (files_AB, ?sE) = Inr d1" "?rf d1 = Inr d2"
      "?rm d2 = Inr d3" "?rb d3 = Inr d4"
    by (auto dest!: not_isl_Inr simp: and_then_eq_Inr)
  have "log_missing ''GENOTYPES_biomass_log_0x1'' ?sE (files_AB, ?sE)"
    by (simp add: log_missing_def files_AB_def files_flux_media_def files_flux_def)
  note dm = read_biomass_keeps [OF d(4) read_media_keeps [OF d(3) read_flux_keeps [OF d(2)
        read_total_biomass_keeps [OF d(1) this]]]]
  have df: "evolution (snd d4)" "hex_id (snd d4) = ''0x1''"
    "fst d4 ''GENOTYPES_biomass_log_0x1'' = None"
    using log_missing_params [OF dm] by (simp_all add: adjust_for_evolution_def comets_AB_def)
  have c_genotypes: "run_read_output pandas_AB True False files_AB
                       (comets_AB\<lparr>evolution := True\<rparr>)
                     = Inl (FileNotFoundError ''GENOTYPES_biomass_log_0x1'')"
    using missing_log_file [where fs = files_AB and failed = False
        and self = "comets_AB\<lparr>evolution := True\<rparr>" and pd = pandas_AB and delete_files = True
        and ?st1.0 = d1 and ?st2.0 = d2 and ?st3.0 = d3 and ?st4.0 = d4,
        THEN conjunct2, THEN conjunct2, THEN conjunct2, THEN conjunct2, THEN conjunct2,
        THEN conjunct2, THEN conjunct2, THEN conjunct1, THEN mp]
      d df by simp
  have "\<not> isl (run_steps [?rt, ?rf, ?rm, ?rb, ?rg] (files_AB, ?sS))"
    unfolding files_AB_def files_flux_media_def files_flux_def by code_simp
  then obtain e1 e2 e3 e4 e5 where e: "?rt (files_AB, ?sS) = Inr e1" "?rf e1 = Inr e2"
      "?rm e2 = Inr e3" "?rb e3 = Inr e4" "?rg e4 = Inr e5"
    by (auto dest!: not_isl_Inr simp: and_then_eq_Inr)
  have "log_missing ''specific_media_log_0x1'' ?sS (files_AB, ?sS)"
    by (simp add: log_missing_def files_AB_def files_flux_media_def files_flux_def)
  note em = read_genotypes_keeps [OF e(5) read_biomass_keeps [OF e(4) read_media_keeps [OF e(3)
        read_flux_keeps [OF e(2) read_total_biomass_keeps [OF e(1) this]]]]]
  have ef: "writeSpecificMediaLog (snd e5)"
    "SpecificMediaLogName (snd e5) = ''specific_media_log_0x1''"
    "fst e5 ''specific_media_log_0x1'' = None"
    using log_missing_params [OF em] by (simp_all add: adjust_for_evolution_def comets_AB_def)
  have c_specific: "run_read_output pandas_AB True False files_AB
                      (comets_AB\<lparr>writeSpecificMediaLog := True\<rparr>)
                    = Inl (FileNotFoundError ''specific_media_log_0x1'')"
    using missing_log_file [where fs = files_AB and failed = False
        and self = "comets_AB\<lparr>writeSpecificMediaLog := True\<rparr>" and pd = pandas_AB
        and delete_files = True
        and ?st1.0 = e1 and ?st2.0 = e2 and ?st3.0 = e3 and ?st4.0 = e4 and ?st5.0 = e5,
        THEN conjunct2, THEN conjunct2, THEN conjunct2, THEN conjunct2, THEN conjunct2,
        THEN conjunct2, THEN conjunct2, THEN conjunct2, THEN mp]
      e ef by simp
  from old c_total c_flux c_media c_biomass c_genotypes c_specific show ?thesis
    by (intro conjI) blast+
qed

end
